(* ===== verification/Prelude.thy ===== *)
theory Prelude
  imports Complex_Main "HOL-Library.Multiset"
begin

text \<open>
  Shared vocabulary of the development: the Python exceptions the module can raise, the
  shape of the arrays it handles (row-major lists of rows), the error-propagating bind
  on \<open>py_error + 'a\<close> that models an uncaught exception, Python's checked list
  indexing, and the generic list lemmas (bounds of a mean, extreme values of a
  coordinate list) that the component theories share.  The collection
  \<open>model_simps\<close> gathers the characteristic equations that the component proofs
  hand to \<open>simp\<close>.
\<close>

named_theorems model_simps "characteristic equations of the model's operations"

section \<open>Python exceptions and their propagation\<close>

text \<open>
  The exceptions that the code of
  \<^verbatim>\<open>src/dna_foci_detection/models/unet/base_classification_model.py\<close> can raise
  (from its own indexing or from the library calls it makes).  None of them is caught
  anywhere in the module, so each one ends the hook that raised it.
\<close>

datatype py_error =
    IndexError          \<comment> \<open>tuple/list index out of range\<close>
  | RuntimeError        \<comment> \<open>torch: \<open>stack\<close> of an empty list, value outside [0,1] in BCE, \<open>max\<close> of an empty tensor\<close>
  | ValueError          \<comment> \<open>torch: BCE target size differs from input size\<close>
  | AttributeError      \<comment> \<open>\<open>Module.__getattr__\<close> of a name that is no submodule\<close>
  | FileNotFoundError   \<comment> \<open>\<open>open(path, "wb")\<close> in a missing directory\<close>

type_synonym 'a res = "py_error + 'a"

definition err_bind :: "'a res \<Rightarrow> ('a \<Rightarrow> 'b res) \<Rightarrow> 'b res" where
  "err_bind r f = (case r of Inl e \<Rightarrow> Inl e | Inr a \<Rightarrow> f a)"

lemma err_bind_Inl [simp, model_simps]: "err_bind (Inl e) f = Inl e"
  by (simp add: err_bind_def)

lemma err_bind_Inr [simp, model_simps]: "err_bind (Inr a) f = f a"
  by (simp add: err_bind_def)

lemma err_bind_eq_Inr_iff:
  "err_bind r f = Inr b \<longleftrightarrow> (\<exists>a. r = Inr a \<and> f a = Inr b)"
  by (cases r) simp_all

lemma err_bind_eq_Inl_iff:
  "err_bind r f = Inl e \<longleftrightarrow> r = Inl e \<or> (\<exists>a. r = Inr a \<and> f a = Inl e)"
  by (cases r) simp_all

text \<open>
  A method that mutates its object and may raise: the exception comes with the state
  reached when it was raised (Python keeps the mutations done before a raise), a normal
  return with the new state and the returned value.
\<close>

type_synonym ('s, 'a) outcome = "(py_error \<times> 's) + ('s \<times> 'a)"

definition obind :: "('s, 'a) outcome \<Rightarrow> ('s \<Rightarrow> 'a \<Rightarrow> ('s, 'b) outcome) \<Rightarrow> ('s, 'b) outcome" where
  "obind r f = (case r of Inl es \<Rightarrow> Inl es | Inr (s, a) \<Rightarrow> f s a)"

text \<open>A pure computation run in state \<open>s\<close>: its exception leaves \<open>s\<close> as it is.\<close>

definition lift_res :: "'a res \<Rightarrow> 's \<Rightarrow> ('s, 'a) outcome" where
  "lift_res r s = (case r of Inl e \<Rightarrow> Inl (e, s) | Inr a \<Rightarrow> Inr (s, a))"

lemma obind_Inl [simp, model_simps]: "obind (Inl es) f = Inl es"
  by (simp add: obind_def)

lemma obind_Inr [simp, model_simps]: "obind (Inr (s, a)) f = f s a"
  by (simp add: obind_def)

lemma lift_res_Inl [simp, model_simps]: "lift_res (Inl e) s = Inl (e, s)"
  by (simp add: lift_res_def)

lemma lift_res_Inr [simp, model_simps]: "lift_res (Inr a) s = Inr (s, a)"
  by (simp add: lift_res_def)

lemma obind_eq_Inr_iff:
  "obind r f = Inr sb \<longleftrightarrow> (\<exists>s a. r = Inr (s, a) \<and> f s a = Inr sb)"
  by (cases r) (auto simp: obind_def)

lemma lift_res_eq_Inr_iff: "lift_res r s = Inr sa \<longleftrightarrow> (\<exists>a. r = Inr a \<and> sa = (s, a))"
  by (cases r) auto

text \<open>Python's \<open>xs[i]\<close> for a non-negative index: \<open>IndexError\<close> beyond the end.\<close>

definition py_get :: "'a list \<Rightarrow> nat \<Rightarrow> 'a res" where
  "py_get xs i = (if i < length xs then Inr (xs ! i) else Inl IndexError)"

lemma py_get_in_range [simp]: "i < length xs \<Longrightarrow> py_get xs i = Inr (xs ! i)"
  by (simp add: py_get_def)

lemma py_get_out_of_range [simp]: "length xs \<le> i \<Longrightarrow> py_get xs i = Inl IndexError"
  by (simp add: py_get_def)

section \<open>Arrays\<close>

text \<open>
  A 2-D array (a NumPy array or a torch tensor of rank 2) is the list of its rows; a
  pixel coordinate is the pair (row, column) of the loops \<open>for i in range(shape[0])\<close>,
  \<open>for j in range(shape[1])\<close>.
\<close>

type_synonym 'a grid = "'a list list"
type_synonym coord = "nat \<times> nat"

definition grid_width :: "'a grid \<Rightarrow> nat" where
  "grid_width g = (case g of [] \<Rightarrow> 0 | r # _ \<Rightarrow> length r)"

definition rectangular :: "'a grid \<Rightarrow> bool" where
  "rectangular g \<longleftrightarrow> list_all (\<lambda>r. length r = grid_width g) g"

lemma rectangular_nth_length:
  "rectangular g \<Longrightarrow> i < length g \<Longrightarrow> length (g ! i) = grid_width g"
  by (simp add: rectangular_def list_all_length)

lemma grid_width_map_map [simp]: "grid_width (map (map f) g) = grid_width g"
  by (simp add: grid_width_def split: list.splits)

lemma rectangular_map_map [simp]: "rectangular (map (map f) g) = rectangular g"
  by (simp add: rectangular_def list_all_iff)

lemma nth_map_map_grid:
  "rectangular g \<Longrightarrow> i < length g \<Longrightarrow> j < grid_width g \<Longrightarrow> map (map f) g ! i ! j = f (g ! i ! j)"
  by (simp add: rectangular_nth_length)

section \<open>Means and extreme values of lists\<close>

text \<open>The mean of a list of reals, as \<open>torch.mean\<close> over one dimension computes it.\<close>

definition mean :: "real list \<Rightarrow> real" where
  "mean xs = sum_list xs / real (length xs)"

lemma mean_ge_Min:
  assumes "xs \<noteq> []"
  shows "Min (set xs) \<le> mean xs"
proof -
  have "sum_list (map (\<lambda>_. Min (set xs)) xs) \<le> sum_list (map (\<lambda>x. x) xs)"
    by (rule sum_list_mono) simp
  then have "real (length xs) * Min (set xs) \<le> sum_list xs"
    by (simp add: sum_list_triv)
  with assms show ?thesis
    by (simp add: mean_def pos_le_divide_eq mult.commute)
qed

lemma mean_le_Max:
  assumes "xs \<noteq> []"
  shows "mean xs \<le> Max (set xs)"
proof -
  have "sum_list (map (\<lambda>x. x) xs) \<le> sum_list (map (\<lambda>_. Max (set xs)) xs)"
    by (rule sum_list_mono) simp
  then have "sum_list xs \<le> real (length xs) * Max (set xs)"
    by (simp add: sum_list_triv)
  with assms show ?thesis
    by (simp add: mean_def pos_divide_le_eq mult.commute)
qed

lemma mean_mset_cong: "mset xs = mset ys \<Longrightarrow> mean xs = mean ys"
  by (metis mean_def mset_eq_length sum_mset_sum_list)

lemma Max_ge_Min_set: "xs \<noteq> [] \<Longrightarrow> Min (set xs) \<le> Max (set (xs :: 'a :: linorder list))"
  by (simp add: Min_le_iff)

lemma Min_eq_Max_set_iff:
  "xs \<noteq> [] \<Longrightarrow> Min (set xs) = Max (set (xs :: 'a :: linorder list)) \<longleftrightarrow> (\<forall>x\<in>set xs. \<forall>y\<in>set xs. x = y)"
  by (metis List.finite_set Max_ge Max_in Min_in Min_le antisym set_empty)

lemma Max_minus_Min_eq_0_iff:
  "xs \<noteq> [] \<Longrightarrow> Max (set xs) - Min (set xs) = (0::real) \<longleftrightarrow> (\<forall>x\<in>set xs. \<forall>y\<in>set xs. x = y)"
  using Min_eq_Max_set_iff[of xs] by linarith

lemma two_distinct_iff_length:
  "distinct xs \<Longrightarrow> (\<exists>x\<in>set xs. \<exists>y\<in>set xs. x \<noteq> y) \<longleftrightarrow> 2 \<le> length xs"
proof (induction xs)
  case Nil
  then show ?case by simp
next
  case (Cons a ys)
  show ?case
  proof (cases ys)
    case Nil
    then show ?thesis by simp
  next
    case (Cons b zs)
    with Cons.prems have "a \<noteq> b" by simp
    then have "\<exists>x\<in>set (a # ys). \<exists>y\<in>set (a # ys). x \<noteq> y" using Cons by auto
    with Cons show ?thesis by simp
  qed
qed

lemma mono_real_of_nat: "mono (real :: nat \<Rightarrow> real)"
  by (rule monoI) simp

lemma mean_distinct:
  "distinct ps \<Longrightarrow> mean (map f ps) = (\<Sum>p\<in>set ps. f p) / real (card (set ps))"
  by (simp add: mean_def sum_list_distinct_conv_sum_set distinct_card)

lemma concat_map_if_if_singleton:
  "concat (map (\<lambda>x. if P x then if Q x then [f x] else [] else []) xs) = map f (filter Q (filter P xs))"
  by (induction xs) simp_all

lemma filter_sorted_list_of_set:
  assumes "finite S"
  shows "filter P (sorted_list_of_set S) = sorted_list_of_set {x \<in> S. P x}"
proof -
  let ?L = "sorted_list_of_set S"
  have "sorted ?L" "distinct ?L" "set ?L = S" using assms by simp_all
  then have "sorted (filter P ?L) \<and> distinct (filter P ?L) \<and> set (filter P ?L) = {x \<in> S. P x}"
    by (auto simp: sorted_wrt_filter)
  moreover have "finite {x \<in> S. P x}" using assms by simp
  ultimately show ?thesis
    by (intro sorted_distinct_set_unique) simp_all
qed

end
