(* ===== verification/Files.thy ===== *)
theory Files
  imports Prelude
begin

text \<open>
  The part of the outside world the module writes to: a file system of checkpoint files
  and figures, the directories that exist, and the figures shown interactively.
  \<open>path_join\<close> is \<open>os.path.join\<close> of two components, \<open>dirname\<close> is
  \<open>os.path.dirname\<close>; \<open>open_wb\<close> is \<open>open(path, "wb")\<close>, which fails when the
  directory does not exist and otherwise truncates the file at once (the write that
  follows is a separate step, so a failure in between leaves an empty file).  These are
  Python's and the libraries' semantics, written down for the module's calls; they
  translate no line of the repository.
\<close>

datatype ('p, 'fig) fs_entry = EmptyFile | StateDict 'p | Png 'fig

record ('p, 'fig) world =
  files :: "string \<Rightarrow> ('p, 'fig) fs_entry option"
  dirs :: "string set"
  shown :: "'fig list"

definition path_join :: "string \<Rightarrow> string \<Rightarrow> string" where
  "path_join a b =
     (if b \<noteq> [] \<and> hd b = CHR ''/'' then b
      else if a = [] \<or> last a = CHR ''/'' then a @ b
      else a @ ''/'' @ b)"

definition dirname :: "string \<Rightarrow> string" where
  "dirname p =
     (let head = rev (dropWhile (\<lambda>c. c \<noteq> CHR ''/'') (rev p)) in
      if list_ex (\<lambda>c. c \<noteq> CHR ''/'') head then rev (dropWhile (\<lambda>c. c = CHR ''/'') (rev head))
      else head)"

definition dir_exists :: "('p, 'fig) world \<Rightarrow> string \<Rightarrow> bool" where
  "dir_exists w d \<longleftrightarrow> d = [] \<or> d \<in> dirs w"

definition open_wb :: "('p, 'fig) world \<Rightarrow> string \<Rightarrow> ('p, 'fig) world res" where
  "open_wb w path =
     (if dir_exists w (dirname path) then Inr (w\<lparr>files := (files w)(path \<mapsto> EmptyFile)\<rparr>)
      else Inl FileNotFoundError)"

definition write_file :: "('p, 'fig) world \<Rightarrow> string \<Rightarrow> ('p, 'fig) fs_entry \<Rightarrow> ('p, 'fig) world" where
  "write_file w path f = w\<lparr>files := (files w)(path \<mapsto> f)\<rparr>"

text \<open>\<open>torch.load\<close> of a checkpoint file.\<close>

definition load_state :: "('p, 'fig) world \<Rightarrow> string \<Rightarrow> 'p res" where
  "load_state w path =
     (case files w path of
        Some (StateDict p) \<Rightarrow> Inr p
      | Some _ \<Rightarrow> Inl RuntimeError
      | None \<Rightarrow> Inl FileNotFoundError)"

lemma open_wb_Inr:
  "open_wb w path = Inr w' \<Longrightarrow> w' = w\<lparr>files := (files w)(path \<mapsto> EmptyFile)\<rparr>"
  by (simp add: open_wb_def split: if_splits)

lemma dirs_open_wb: "open_wb w path = Inr w' \<Longrightarrow> dirs w' = dirs w"
  by (auto simp: open_wb_def split: if_splits)

lemma load_state_write_file [simp]: "load_state (write_file w path (StateDict p)) path = Inr p"
  by (simp add: load_state_def write_file_def)

lemma files_write_file [simp]: "files (write_file w path f) = (files w)(path \<mapsto> f)"
  by (simp add: write_file_def)

lemma dirs_write_file [simp]: "dirs (write_file w path f) = dirs w"
  by (simp add: write_file_def)

lemma shown_write_file [simp]: "shown (write_file w path f) = shown w"
  by (simp add: write_file_def)

end
