(* ===== verification/Loss.thy ===== *)
theory Loss
  imports Prelude
begin

text \<open>
  The loss of the classifier (source lines 150--151): \<open>t.nn.BCELoss()\<close> applied to the
  flattened prediction and label tensors, and the float scalars the hooks pass around.
  A torch/Python float scalar is \<open>tfloat\<close>: a real number, \<open>+inf\<close> (the initial best
  loss, \<open>float("inf")\<close>) or NaN (the mean over an empty tensor); \<open>tf_less\<close> is IEEE
  \<open><\<close>, false whenever a NaN is involved.  \<open>tf_mean\<close> is
  \<open>t.stack(xs).mean()\<close>, which raises on an empty list.  BCE checks the target size
  (\<open>ValueError\<close>) and the input range [0, 1] (\<open>RuntimeError\<close>) and clamps each
  logarithm at -100, as torch does.  Reals stand for float32 values: rounding is not
  modelled.
\<close>

datatype tfloat = Num real | PosInf | NaN

fun tf_less :: "tfloat \<Rightarrow> tfloat \<Rightarrow> bool" where
  "tf_less (Num a) (Num b) = (a < b)"
| "tf_less (Num a) PosInf = True"
| "tf_less _ _ = False"

text \<open>\<open><=\<close> on floats, as the monotonicity of the best loss uses it.\<close>

definition tf_le :: "tfloat \<Rightarrow> tfloat \<Rightarrow> bool" where
  "tf_le a b \<longleftrightarrow> a = b \<or> tf_less a b"

fun tf_val :: "tfloat \<Rightarrow> real" where
  "tf_val (Num a) = a"
| "tf_val _ = 0"

definition tf_mean :: "tfloat list \<Rightarrow> tfloat res" where
  "tf_mean xs =
     (if xs = [] then Inl RuntimeError
      else if NaN \<in> set xs then Inr NaN
      else if PosInf \<in> set xs then Inr PosInf
      else Inr (Num (mean (map tf_val xs))))"

text \<open>\<open>x.flatten()\<close> of a batch tensor (sample, channel, row, column), row-major.\<close>

definition flatten4 :: "'a list list list list \<Rightarrow> 'a list" where
  "flatten4 t = concat (concat (concat t))"

text \<open>torch computes \<open>log\<close> of 0 as \<open>-inf\<close> and clamps every logarithm at \<open>-100\<close>.\<close>

definition clamped_log :: "real \<Rightarrow> real" where
  "clamped_log x = (if x \<le> 0 then -100 else max (ln x) (-100))"

definition bce_elem :: "real \<Rightarrow> real \<Rightarrow> real" where
  "bce_elem x y = - (y * clamped_log x + (1 - y) * clamped_log (1 - x))"

definition bce_loss :: "real list \<Rightarrow> real list \<Rightarrow> tfloat res" where
  "bce_loss input target =
     (if length target \<noteq> length input then Inl ValueError
      else if \<not> list_all (\<lambda>x. 0 \<le> x \<and> x \<le> 1) input then Inl RuntimeError
      else if input = [] then Inr NaN
      else Inr (Num (mean (map2 bce_elem input target))))"

text \<open>\<open>self.loss = lambda x, y: self.criterion(x.flatten(), y.flatten())\<close>.\<close>

definition model_loss :: "real list list list list \<Rightarrow> real list list list list \<Rightarrow> tfloat res" where
  "model_loss y_pred labels = bce_loss (flatten4 y_pred) (flatten4 labels)"

section \<open>Properties of the loss\<close>

lemma tf_mean_Cons_Inr: "\<exists>a. tf_mean (x # xs) = Inr a"
  by (simp add: tf_mean_def)

lemma clamped_log_bounds: "x \<le> 1 \<Longrightarrow> -100 \<le> clamped_log x \<and> clamped_log x \<le> 0"
  by (auto simp: clamped_log_def)

lemma bce_elem_bounds:
  assumes "0 \<le> x" "x \<le> 1" "0 \<le> y" "y \<le> 1"
  shows "0 \<le> bce_elem x y \<and> bce_elem x y \<le> 100"
proof -
  have a: "-100 \<le> clamped_log x" "clamped_log x \<le> 0" using clamped_log_bounds[of x] assms by simp_all
  have b: "-100 \<le> clamped_log (1 - x)" "clamped_log (1 - x) \<le> 0"
    using clamped_log_bounds[of "1 - x"] assms by simp_all
  have "y * clamped_log x \<le> 0" "(1 - y) * clamped_log (1 - x) \<le> 0"
    using a b assms by (simp_all add: mult_nonneg_nonpos)
  moreover have "y * (-100) \<le> y * clamped_log x"
    by (rule mult_left_mono[OF a(1)]) (use assms in simp)
  moreover have "(1 - y) * (-100) \<le> (1 - y) * clamped_log (1 - x)"
    by (rule mult_left_mono[OF b(1)]) (use assms in simp)
  moreover have "(1 - y) * (-100) = 100 * y - 100" "y * (-100) = - 100 * y"
    by (simp_all add: algebra_simps)
  ultimately show ?thesis unfolding bce_elem_def by linarith
qed

lemma map2_nth_indices:
  "length ys = length xs \<Longrightarrow> map2 f xs ys = map (\<lambda>i. f (xs ! i) (ys ! i)) [0..<length xs]"
  by (rule nth_equalityI) simp_all

lemma map2_map_nth: "map2 f (map ((!) xs) is) (map ((!) ys) is) = map (\<lambda>i. f (xs ! i) (ys ! i)) is"
  by (induction "is") simp_all

lemma set_map_nth_perm:
  assumes "mset is = mset [0..<length xs]"
  shows "set (map ((!) xs) is) = set xs"
proof -
  have "set is = set [0..<length xs]" using assms by (rule mset_eq_setD)
  then have "set (map ((!) xs) is) = set (map ((!) xs) [0..<length xs])" by simp
  then show ?thesis by (simp only: map_nth)
qed

text \<open>
  C10 (the specification's seventh property): the loss does not depend on the order of
  the elements: permuting predictions and labels by the same permutation of the
  indices leaves the result (value or exception) unchanged.
\<close>

theorem bce_loss_permute:
  assumes "length ys = length xs" "mset is = mset [0..<length xs]"
  shows "bce_loss (map ((!) xs) is) (map ((!) ys) is) = bce_loss xs ys"
proof -
  have len: "length is = length xs" using mset_eq_length[OF assms(2)] by simp
  have "mset (map (\<lambda>i. bce_elem (xs ! i) (ys ! i)) is)
      = mset (map (\<lambda>i. bce_elem (xs ! i) (ys ! i)) [0..<length xs])"
    by (simp only: mset_map assms(2))
  then have m: "mean (map2 bce_elem (map ((!) xs) is) (map ((!) ys) is)) = mean (map2 bce_elem xs ys)"
    using assms(1) by (simp add: map2_map_nth map2_nth_indices mean_mset_cong)
  have a: "list_all (\<lambda>x. 0 \<le> x \<and> x \<le> 1) (map ((!) xs) is) = list_all (\<lambda>x. 0 \<le> x \<and> x \<le> 1) xs"
    unfolding list_all_iff set_map_nth_perm[OF assms(2)] ..
  have e: "(map ((!) xs) is = []) = (xs = [])" using len by auto
  have l: "(length (map ((!) ys) is) \<noteq> length (map ((!) xs) is)) = (length ys \<noteq> length xs)"
    using len assms(1) by simp
  show ?thesis by (simp only: bce_loss_def a e l m)
qed

lemma mean_bounds:
  assumes "xs \<noteq> []" "\<forall>x\<in>set xs. a \<le> x \<and> x \<le> b"
  shows "a \<le> mean xs \<and> mean xs \<le> b"
proof -
  have "a \<le> Min (set xs)" "Max (set xs) \<le> b" using assms by (simp_all add: Min_ge_iff Max_le_iff)
  then show ?thesis using mean_ge_Min[OF assms(1)] mean_le_Max[OF assms(1)] by linarith
qed

text \<open>
  C11: with predictions and labels in [0, 1] and equal, non-zero lengths, the loss is a
  number between 0 and 100 (the clamping of the logarithm at -100 bounds it).
\<close>

theorem bce_loss_bounds:
  assumes "length ys = length xs" "xs \<noteq> []"
    and "list_all (\<lambda>x. 0 \<le> x \<and> x \<le> 1) xs" "list_all (\<lambda>y. 0 \<le> y \<and> y \<le> 1) ys"
  shows "\<exists>l. bce_loss xs ys = Inr (Num l) \<and> 0 \<le> l \<and> l \<le> 100"
proof -
  let ?es = "map2 bce_elem xs ys"
  have all: "\<forall>e\<in>set ?es. 0 \<le> e \<and> e \<le> 100"
  proof
    fix e assume "e \<in> set ?es"
    then obtain a b where ab: "(a, b) \<in> set (zip xs ys)" "e = bce_elem a b" by auto
    then have "a \<in> set xs" "b \<in> set ys" by (auto dest: set_zip_leftD set_zip_rightD)
    with assms(3,4) ab(2) show "0 \<le> e \<and> e \<le> 100" by (simp add: list_all_iff bce_elem_bounds)
  qed
  have "?es \<noteq> []" using assms(1,2) by (metis length_0_conv zip_eq_Nil_iff list.map_disc_iff)
  then have "0 \<le> mean ?es \<and> mean ?es \<le> 100" using all by (rule mean_bounds)
  with assms show ?thesis by (simp add: bce_loss_def)
qed

theorem bce_loss_permute_witness:
  "length [0, 1 :: real] = length [1/2, 1 :: real] \<and> mset [1, 0 :: nat] = mset [0..<length [1/2, 1 :: real]]
   \<and> bce_loss (map ((!) [1/2, 1]) [1, 0]) (map ((!) [0, 1]) [1, 0]) = bce_loss [1/2, 1] [0, 1]"
  using bce_loss_permute[of "[0, 1]" "[1/2, 1]" "[1, 0]"] by (simp add: upt_rec)

theorem bce_loss_bounds_witness:
  "length [1 :: real] = length [1/2 :: real] \<and> [1/2 :: real] \<noteq> []
   \<and> list_all (\<lambda>x. 0 \<le> x \<and> x \<le> 1) [1/2 :: real] \<and> list_all (\<lambda>y. 0 \<le> y \<and> y \<le> 1) [1 :: real]
   \<and> (\<exists>l. bce_loss [1/2] [1] = Inr (Num l) \<and> 0 \<le> l \<and> l \<le> 100)"
  using bce_loss_bounds[of "[1]" "[1/2]"] by simp

text \<open>
  The loss raises exactly in two cases: \<open>ValueError\<close> when the label tensor has
  another number of elements than the prediction, and otherwise \<open>RuntimeError\<close> when a
  prediction lies outside [0, 1].
\<close>

lemma bce_loss_errors:
  "bce_loss xs ys = Inl e \<longleftrightarrow>
     (length ys \<noteq> length xs \<and> e = ValueError)
     \<or> (length ys = length xs \<and> \<not> list_all (\<lambda>x. 0 \<le> x \<and> x \<le> 1) xs \<and> e = RuntimeError)"
  by (auto simp: bce_loss_def)

end
