(* ===== verification/Orchestrator.thy ===== *)
theory Orchestrator
  imports Files Loss
begin

text \<open>
  The training orchestrator: class \<open>Model\<close> (source lines 145--241).  Its state is
  the record \<open>model_state\<close>: the configuration fields it reads (\<open>save_path\<close>,
  \<open>model\<close>), the registered sub-modules with their parameters (\<open>self.classifier\<close>
  is the sub-module \<open>''classifier''\<close>, and \<open>self.__getattr__(name)\<close> looks a name
  up among them), \<open>self.best_loss\<close>, Lightning's \<open>current_epoch\<close>, the file system,
  and the values passed to \<open>self.log\<close> and printed.  Every hook is a function from the
  state to an \<open>outcome\<close>: the exception with the state reached when it was raised,
  or the new state and the hook's return value.  The classifier network (\<open>net\<close>)
  and the visualisation routine (\<open>vis\<close>) are parameters: the orchestrator's lemmas
  hold for any of them, and the root theory plugs in \<open>visualize_predictions\<close>.
  This theory holds the hooks and what each one does; the theory \<open>Driver\<close> runs them
  in the order of the training loop.
\<close>

section \<open>State and hooks\<close>

datatype out_line = PredRange real real | NewBestMessage

record ('p, 'fig) model_state =
  save_path :: string
  model_names :: "string list"
  modules :: "string \<Rightarrow> 'p option"
  best_loss :: tfloat
  current_epoch :: nat
  world :: "('p, 'fig) world"
  logs :: "(string \<times> tfloat) list"
  stdout :: "out_line list"

text \<open>A batch tensor indexed (sample, channel, row, column).\<close>

type_synonym batch_tensor = "real list list list list"

type_synonym ('x, 'p) network = "'p \<Rightarrow> 'x \<Rightarrow> batch_tensor"

text \<open>\<open>visualize_predictions(x, labels, y_pred, save_path, epoch=...)\<close>: only its write
  to the world is visible to the orchestrator.\<close>

type_synonym ('x, 'p, 'fig) visualizer =
  "'x \<Rightarrow> batch_tensor \<Rightarrow> batch_tensor \<Rightarrow> string \<Rightarrow> int \<Rightarrow> ('p, 'fig) world \<Rightarrow> ('p, 'fig) world res"

text \<open>\<open>__init__\<close>: \<open>best_loss = float("inf")\<close>; the sub-modules come from the subclass.\<close>

definition init_state :: "string \<Rightarrow> string list \<Rightarrow> (string \<Rightarrow> 'p option) \<Rightarrow> ('p, 'fig) world \<Rightarrow> ('p, 'fig) model_state" where
  "init_state path names mods w =
     \<lparr>save_path = path, model_names = names, modules = mods, best_loss = PosInf,
      current_epoch = 0, world = w, logs = [], stdout = []\<rparr>"

definition getattr :: "('p, 'fig) model_state \<Rightarrow> string \<Rightarrow> 'p res" where
  "getattr st n = (case modules st n of Some p \<Rightarrow> Inr p | None \<Rightarrow> Inl AttributeError)"

text \<open>\<open>self.classifier(x)\<close>, also the method \<open>forward\<close>.\<close>

definition classify :: "('x, 'p) network \<Rightarrow> ('p, 'fig) model_state \<Rightarrow> 'x \<Rightarrow> batch_tensor res" where
  "classify net st x = err_bind (getattr st ''classifier'') (\<lambda>p. Inr (net p x))"

text \<open>\<open>print(f"{y_pred.max().item()=} {y_pred.min().item()=}")\<close>: \<open>max\<close> of an empty
  tensor raises.\<close>

definition pred_range :: "batch_tensor \<Rightarrow> out_line res" where
  "pred_range y_pred =
     (let v = flatten4 y_pred in
      if v = [] then Inl RuntimeError else Inr (PredRange (Max (set v)) (Min (set v))))"

definition training_step ::
  "('x, 'p) network \<Rightarrow> ('p, 'fig) model_state \<Rightarrow> 'x \<times> batch_tensor \<Rightarrow> nat \<Rightarrow> (('p, 'fig) model_state, tfloat) outcome" where
  "training_step net st batch batch_idx =
     (case batch of (x, labels) \<Rightarrow>
        obind (lift_res (classify net st x) st) (\<lambda>st y_pred.
        obind (lift_res (model_loss y_pred labels) st) (\<lambda>st loss.
          if batch_idx = 0
          then obind (lift_res (pred_range y_pred) st) (\<lambda>st line. Inr (st\<lparr>stdout := stdout st @ [line]\<rparr>, loss))
          else Inr (st, loss))))"

definition training_epoch_end :: "('p, 'fig) model_state \<Rightarrow> tfloat list \<Rightarrow> (('p, 'fig) model_state, unit) outcome" where
  "training_epoch_end st outputs =
     obind (lift_res (tf_mean outputs) st) (\<lambda>st avg. Inr (st\<lparr>logs := logs st @ [(''train_loss'', avg)]\<rparr>, ()))"

text \<open>The shared body of \<open>validation_step\<close> and \<open>test_step\<close>; they differ in the file name.\<close>

definition eval_step ::
  "string \<Rightarrow> ('x, 'p, 'fig) visualizer \<Rightarrow> ('x, 'p) network \<Rightarrow> ('p, 'fig) model_state \<Rightarrow> 'x \<times> batch_tensor \<Rightarrow> nat
     \<Rightarrow> (('p, 'fig) model_state, tfloat) outcome" where
  "eval_step fname vis net st batch batch_idx =
     (case batch of (x, labels) \<Rightarrow>
        obind (lift_res (classify net st x) st) (\<lambda>st y_pred.
        obind (lift_res (model_loss y_pred labels) st) (\<lambda>st loss.
          if batch_idx = 0
          then obind (lift_res (vis x labels y_pred (path_join (save_path st) fname) (int (current_epoch st)) (world st)) st)
                 (\<lambda>st w. Inr (st\<lparr>world := w\<rparr>, loss))
          else Inr (st, loss))))"

definition validation_step where
  "validation_step = eval_step ''val_pred.png''"

definition test_step where
  "test_step = eval_step ''test_pred.png''"

definition checkpoint_path :: "string \<Rightarrow> string \<Rightarrow> string" where
  "checkpoint_path save name = path_join (path_join save ''checkpoint'') (name @ ''.pt'')"

text \<open>
  The loop \<open>for torch_model_name in self.params.model\<close>: open the file (truncating
  it), look the sub-module up, write its \<open>state_dict()\<close>.
\<close>

fun save_checkpoints :: "('p, 'fig) model_state \<Rightarrow> string list \<Rightarrow> (('p, 'fig) model_state, unit) outcome" where
  "save_checkpoints st [] = Inr (st, ())"
| "save_checkpoints st (n # ns) =
     (let path = checkpoint_path (save_path st) n in
      case open_wb (world st) path of
        Inl e \<Rightarrow> Inl (e, st)
      | Inr w \<Rightarrow>
          (case getattr st n of
             Inl e \<Rightarrow> Inl (e, st\<lparr>world := w\<rparr>)
           | Inr p \<Rightarrow> save_checkpoints (st\<lparr>world := write_file w path (StateDict p)\<rparr>) ns))"

definition validation_epoch_end :: "('p, 'fig) model_state \<Rightarrow> tfloat list \<Rightarrow> (('p, 'fig) model_state, tfloat) outcome" where
  "validation_epoch_end st outputs =
     obind (lift_res (tf_mean outputs) st) (\<lambda>st avg.
     obind (if tf_less avg (best_loss st)
            then save_checkpoints (st\<lparr>best_loss := avg, stdout := stdout st @ [NewBestMessage]\<rparr>) (model_names st)
            else Inr (st, ()))
       (\<lambda>st _. Inr (st\<lparr>logs := logs st @ [(''val_loss'', avg)]\<rparr>, avg)))"

definition test_epoch_end :: "('p, 'fig) model_state \<Rightarrow> tfloat list \<Rightarrow> (('p, 'fig) model_state, tfloat) outcome" where
  "test_epoch_end st outputs = lift_res (tf_mean outputs) st"

text \<open>
  \<open>configure_optimizers\<close>: \<open>mate.Optimizer(self.params.configure_optimizers,
  self.classifier)()\<close>.  The factory of the external \<open>mate\<close> library, applied to the
  configuration and the classifier's parameters and then called, is the parameter
  \<open>mate_optimizer\<close>; \<open>self.classifier\<close> raises \<open>AttributeError\<close> when the subclass
  registered no classifier.
\<close>

definition configure_optimizers ::
  "('c \<Rightarrow> 'p \<Rightarrow> 'o) \<Rightarrow> 'c \<Rightarrow> ('p, 'fig) model_state \<Rightarrow> 'o res" where
  "configure_optimizers mate_optimizer cfg st =
     err_bind (getattr st ''classifier'') (\<lambda>p. Inr (mate_optimizer cfg p))"

text \<open>A configured sub-model name that \<open>os.path.join\<close> keeps below the checkpoint directory.\<close>

definition relative_name :: "string \<Rightarrow> bool" where
  "relative_name n \<longleftrightarrow> take 1 n \<noteq> ''/''"

subsection \<open>A concrete run, for the witnesses\<close>

definition demo_world :: "(unit, unit) world" where
  "demo_world = \<lparr>files = Map.empty, dirs = {''run/checkpoint''}, shown = []\<rparr>"

definition demo_state :: "(unit, unit) model_state" where
  "demo_state = init_state ''run'' [''classifier''] [''classifier'' \<mapsto> ()] demo_world"

definition demo_vis :: "(unit, unit, unit) visualizer" where
  "demo_vis x l y path e w = Inr w"

definition demo_net :: "(unit, unit) network" where
  "demo_net p x = [[[[1]]]]"

section \<open>The checkpoint loop\<close>

lemma save_checkpoints_frame:
  "save_checkpoints st ns = Inr (st', u) \<Longrightarrow>
     st' = st\<lparr>world := world st'\<rparr> \<and> dirs (world st') = dirs (world st) \<and> shown (world st') = shown (world st)
     \<and> (\<forall>q. q \<notin> checkpoint_path (save_path st) ` set ns \<longrightarrow> files (world st') q = files (world st) q)"
proof (induction st ns rule: save_checkpoints.induct)
  case (1 st)
  then show ?case by simp
next
  case (2 st n ns)
  let ?path = "checkpoint_path (save_path st) n"
  from "2.prems" obtain w p where w: "open_wb (world st) ?path = Inr w" and p: "getattr st n = Inr p"
    and rest: "save_checkpoints (st\<lparr>world := write_file w ?path (StateDict p)\<rparr>) ns = Inr (st', u)"
    by (auto simp: Let_def split: sum.splits)
  have "w = (world st)\<lparr>files := (files (world st))(?path \<mapsto> EmptyFile)\<rparr>" using w by (rule open_wb_Inr)
  with "2.IH"[OF refl w p rest] show ?case by (auto simp: getattr_def)
qed

lemma save_checkpoints_Cons_Inr:
  assumes "save_checkpoints st (n # ns) = Inr (st', u)"
  obtains w p where "open_wb (world st) (checkpoint_path (save_path st) n) = Inr w"
    and "modules st n = Some p"
    and "save_checkpoints (st\<lparr>world := write_file w (checkpoint_path (save_path st) n) (StateDict p)\<rparr>) ns = Inr (st', u)"
  using assms by (auto simp: Let_def getattr_def split: sum.splits option.splits)

lemma save_checkpoints_written:
  "save_checkpoints st ns = Inr (st', u) \<Longrightarrow> inj_on (checkpoint_path (save_path st)) (set ns) \<Longrightarrow> m \<in> set ns \<Longrightarrow>
     \<exists>p. modules st m = Some p \<and> files (world st') (checkpoint_path (save_path st) m) = Some (StateDict p)"
proof (induction ns arbitrary: st)
  case Nil
  then show ?case by simp
next
  case (Cons n ns)
  let ?cp = "checkpoint_path (save_path st)"
  from Cons.prems(1) obtain w p where w: "open_wb (world st) (?cp n) = Inr w" and p: "modules st n = Some p"
    and rest: "save_checkpoints (st\<lparr>world := write_file w (?cp n) (StateDict p)\<rparr>) ns = Inr (st', u)"
    by (rule save_checkpoints_Cons_Inr)
  have inj: "inj_on ?cp (set ns)" using Cons.prems(2) by simp
  show ?case
  proof (cases "m \<in> set ns")
    case True
    from Cons.IH[OF rest _ True] inj show ?thesis by simp
  next
    case False
    with Cons.prems(3) have m: "m = n" by simp
    with False Cons.prems(2) have "?cp n \<notin> ?cp ` set ns" by (auto simp: inj_on_def)
    with save_checkpoints_frame[OF rest] p m show ?thesis by simp
  qed
qed

lemma save_checkpoints_succeeds:
  assumes "\<forall>n\<in>set ns. dir_exists (world st) (dirname (checkpoint_path (save_path st) n)) \<and> modules st n \<noteq> None"
  shows "\<exists>st'. save_checkpoints st ns = Inr (st', ())"
  using assms
proof (induction ns arbitrary: st)
  case Nil
  then show ?case by simp
next
  case (Cons n ns)
  then obtain p where p: "modules st n = Some p" by auto
  let ?st1 = "st\<lparr>world := write_file ((world st)\<lparr>files := (files (world st))(checkpoint_path (save_path st) n \<mapsto> EmptyFile)\<rparr>) (checkpoint_path (save_path st) n) (StateDict p)\<rparr>"
  have "\<forall>n\<in>set ns. dir_exists (world ?st1) (dirname (checkpoint_path (save_path ?st1) n)) \<and> modules ?st1 n \<noteq> None"
    using Cons.prems by (simp add: dir_exists_def)
  then obtain st' where st': "save_checkpoints ?st1 ns = Inr (st', ())" using Cons.IH by blast
  have "dir_exists (world st) (dirname (checkpoint_path (save_path st) n))" using Cons.prems by simp
  then have "save_checkpoints st (n # ns) = save_checkpoints ?st1 ns"
    by (simp add: open_wb_def getattr_def p Let_def)
  with st' show ?case by simp
qed

lemma path_join_checkpoint_last: "path_join s ''checkpoint'' \<noteq> [] \<and> last (path_join s ''checkpoint'') \<noteq> CHR ''/''"
  by (simp add: path_join_def)

lemma checkpoint_path_relative:
  "relative_name n \<Longrightarrow> checkpoint_path s n = path_join s ''checkpoint'' @ ''/'' @ n @ ''.pt''"
  using path_join_checkpoint_last[of s]
  by (cases n) (auto simp: checkpoint_path_def path_join_def relative_name_def)

lemma checkpoint_path_inj: "inj_on (checkpoint_path s) {n. relative_name n}"
  by (rule inj_onI) (simp add: checkpoint_path_relative)

section \<open>The end of a validation epoch\<close>

lemma validation_epoch_end_keep [model_simps]:
  "tf_mean outputs = Inr avg \<Longrightarrow> \<not> tf_less avg (best_loss st) \<Longrightarrow>
     validation_epoch_end st outputs = Inr (st\<lparr>logs := logs st @ [(''val_loss'', avg)]\<rparr>, avg)"
  by (simp add: validation_epoch_end_def)

lemma validation_epoch_end_improve [model_simps]:
  "tf_mean outputs = Inr avg \<Longrightarrow> tf_less avg (best_loss st) \<Longrightarrow>
     validation_epoch_end st outputs =
       obind (save_checkpoints (st\<lparr>best_loss := avg, stdout := stdout st @ [NewBestMessage]\<rparr>) (model_names st))
         (\<lambda>st' _. Inr (st'\<lparr>logs := logs st' @ [(''val_loss'', avg)]\<rparr>, avg))"
  by (simp add: validation_epoch_end_def)

lemma tf_mean_example: "tf_mean [Num (2/5), Num (3/5)] = Inr (Num (1/2))"
  by (simp add: tf_mean_def mean_def)

lemma validation_epoch_end_improve_writes:
  assumes "tf_mean outputs = Inr avg" "tf_less avg (best_loss st)"
    and "\<forall>n\<in>set (model_names st). relative_name n \<and> modules st n \<noteq> None
           \<and> dir_exists (world st) (dirname (checkpoint_path (save_path st) n))"
  shows "\<exists>st'. validation_epoch_end st outputs = Inr (st', avg) \<and> best_loss st' = avg
           \<and> logs st' = logs st @ [(''val_loss'', avg)]
           \<and> (\<forall>n\<in>set (model_names st). files (world st') (checkpoint_path (save_path st) n) = map_option StateDict (modules st n))"
proof -
  let ?st1 = "st\<lparr>best_loss := avg, stdout := stdout st @ [NewBestMessage]\<rparr>"
  obtain st2 where st2: "save_checkpoints ?st1 (model_names st) = Inr (st2, ())"
    using save_checkpoints_succeeds[of "model_names st" ?st1] assms(3) by auto
  have frame: "st2 = ?st1\<lparr>world := world st2\<rparr>" using save_checkpoints_frame[OF st2] by simp
  have inj: "inj_on (checkpoint_path (save_path ?st1)) (set (model_names st))"
    using checkpoint_path_inj assms(3) by (auto intro: inj_on_subset)
  have "\<forall>n\<in>set (model_names st). files (world st2) (checkpoint_path (save_path st) n) = map_option StateDict (modules st n)"
    using save_checkpoints_written[OF st2 inj] by fastforce
  moreover have "best_loss st2 = avg" using arg_cong[OF frame, of best_loss] by simp
  moreover have "logs st2 = logs st" using arg_cong[OF frame, of logs] by simp
  ultimately show ?thesis
    using assms(1,2) st2 by (simp add: validation_epoch_end_improve)
qed

text \<open>
  C12 (the specification's fifth property): with per-batch losses 0.4 and 0.6,
  \<open>validation_epoch_end\<close> returns the average 0.5.  With a best loss of 0.55 it sets
  the best loss to 0.5 and writes every configured sub-model's parameters to its
  checkpoint file; with a best loss of 0.4 it leaves the best loss and the file system
  as they are and only logs the average.
\<close>

theorem validation_epoch_end_example:
  assumes "\<forall>n\<in>set (model_names st). relative_name n \<and> modules st n \<noteq> None
           \<and> dir_exists (world st) (dirname (checkpoint_path (save_path st) n))"
  shows "(\<exists>st'. validation_epoch_end (st\<lparr>best_loss := Num (11/20)\<rparr>) [Num (2/5), Num (3/5)] = Inr (st', Num (1/2))
           \<and> best_loss st' = Num (1/2)
           \<and> (\<forall>n\<in>set (model_names st). files (world st') (checkpoint_path (save_path st) n) = map_option StateDict (modules st n)))
     \<and> validation_epoch_end (st\<lparr>best_loss := Num (2/5)\<rparr>) [Num (2/5), Num (3/5)]
         = Inr (st\<lparr>best_loss := Num (2/5), logs := logs st @ [(''val_loss'', Num (1/2))]\<rparr>, Num (1/2))"
proof
  show "\<exists>st'. validation_epoch_end (st\<lparr>best_loss := Num (11/20)\<rparr>) [Num (2/5), Num (3/5)] = Inr (st', Num (1/2))
           \<and> best_loss st' = Num (1/2)
           \<and> (\<forall>n\<in>set (model_names st). files (world st') (checkpoint_path (save_path st) n) = map_option StateDict (modules st n))"
    using validation_epoch_end_improve_writes[OF tf_mean_example, of "st\<lparr>best_loss := Num (11/20)\<rparr>"] assms by auto
  show "validation_epoch_end (st\<lparr>best_loss := Num (2/5)\<rparr>) [Num (2/5), Num (3/5)]
         = Inr (st\<lparr>best_loss := Num (2/5), logs := logs st @ [(''val_loss'', Num (1/2))]\<rparr>, Num (1/2))"
    by (simp add: validation_epoch_end_keep tf_mean_example)
qed

text \<open>
  C14 (the specification's sixth property): after an improving validation epoch, loading
  each configured checkpoint file gives back the sub-model's parameters, so a network
  built from the reloaded parameters computes the same output on every input.
\<close>

theorem validation_epoch_end_checkpoint_roundtrip:
  assumes "tf_mean outputs = Inr avg" "tf_less avg (best_loss st)"
    and "\<forall>n\<in>set (model_names st). relative_name n \<and> modules st n \<noteq> None
           \<and> dir_exists (world st) (dirname (checkpoint_path (save_path st) n))"
  shows "\<exists>st'. validation_epoch_end st outputs = Inr (st', avg) \<and>
           (\<forall>n\<in>set (model_names st). \<forall>x. err_bind (load_state (world st') (checkpoint_path (save_path st) n)) (\<lambda>p. Inr (net p x))
                                              = err_bind (getattr st n) (\<lambda>p. Inr (net p x)))"
proof -
  obtain st' where "validation_epoch_end st outputs = Inr (st', avg)"
    and f: "\<forall>n\<in>set (model_names st). files (world st') (checkpoint_path (save_path st) n) = map_option StateDict (modules st n)"
    using validation_epoch_end_improve_writes[OF assms] by blast
  moreover have "\<forall>n\<in>set (model_names st). load_state (world st') (checkpoint_path (save_path st) n) = getattr st n"
    using f assms(3) by (auto simp: load_state_def getattr_def)
  ultimately show ?thesis by auto
qed

text \<open>
  A validation epoch without any step output raises \<open>RuntimeError\<close>
  (\<open>t.stack\<close> of an empty list) before changing anything.
\<close>

lemma validation_epoch_end_empty_outputs: "validation_epoch_end st [] = Inl (RuntimeError, st)"
  by (simp add: validation_epoch_end_def tf_mean_def)

text \<open>
  C15: when a configured name is no sub-module, the improving validation epoch raises
  \<open>AttributeError\<close> after it has already set the best loss and truncated that
  checkpoint file to an empty file: the previous best checkpoint is lost.
\<close>

theorem validation_epoch_end_missing_module:
  assumes "tf_mean outputs = Inr avg" "tf_less avg (best_loss st)" "model_names st = n # ns"
    and "dir_exists (world st) (dirname (checkpoint_path (save_path st) n))" "modules st n = None"
  shows "\<exists>st'. validation_epoch_end st outputs = Inl (AttributeError, st') \<and> best_loss st' = avg
           \<and> files (world st') (checkpoint_path (save_path st) n) = Some EmptyFile"
  using assms by (simp add: validation_epoch_end_improve open_wb_def getattr_def Let_def)

section \<open>What each hook returns and changes\<close>

lemma training_step_Inr:
  "training_step net st b i = Inr (st', loss) \<Longrightarrow> st' = st \<or> (\<exists>l. st' = st\<lparr>stdout := stdout st @ [l]\<rparr>)"
  by (auto simp: training_step_def lift_res_def obind_def split: prod.splits sum.splits if_splits)

lemma training_epoch_end_Inr:
  "training_epoch_end st outs = Inr (st', u) \<Longrightarrow> \<exists>avg. st' = st\<lparr>logs := logs st @ [(''train_loss'', avg)]\<rparr>"
  by (auto simp: training_epoch_end_def lift_res_def obind_def split: sum.splits)

lemma eval_step_Inr:
  "eval_step fname vis net st b i = Inr (st', loss) \<Longrightarrow>
     st' = st \<or> (\<exists>x l y w'. vis x l y (path_join (save_path st) fname) (int (current_epoch st)) (world st) = Inr w'
                           \<and> st' = st\<lparr>world := w'\<rparr>)"
  by (auto simp: eval_step_def lift_res_def obind_def split: prod.splits sum.splits if_splits)

lemma test_epoch_end_Inr: "test_epoch_end st outs = Inr (st', avg) \<Longrightarrow> st' = st"
  by (auto simp: test_epoch_end_def lift_res_def split: sum.splits)

lemma save_checkpoints_written_any:
  "save_checkpoints st ns = Inr (st', u) \<Longrightarrow>
     \<forall>q\<in>checkpoint_path (save_path st) ` set ns. \<exists>p. files (world st') q = Some (StateDict p)"
proof (induction ns arbitrary: st)
  case Nil
  then show ?case by simp
next
  case (Cons n ns)
  let ?cp = "checkpoint_path (save_path st)"
  from Cons.prems obtain w p where w: "open_wb (world st) (?cp n) = Inr w" and p: "modules st n = Some p"
    and rest: "save_checkpoints (st\<lparr>world := write_file w (?cp n) (StateDict p)\<rparr>) ns = Inr (st', u)"
    by (rule save_checkpoints_Cons_Inr)
  have IH: "\<forall>q\<in>?cp ` set ns. \<exists>p. files (world st') q = Some (StateDict p)" using Cons.IH[OF rest] by simp
  have "\<exists>p. files (world st') (?cp n) = Some (StateDict p)"
  proof (cases "?cp n \<in> ?cp ` set ns")
    case True
    with IH show ?thesis by blast
  next
    case False
    with save_checkpoints_frame[OF rest] show ?thesis by simp
  qed
  with IH show ?case by simp
qed

lemma validation_epoch_end_Inr:
  "validation_epoch_end st outs = Inr (st', avg) \<Longrightarrow>
     tf_mean outs = Inr avg \<and> logs st' = logs st @ [(''val_loss'', avg)] \<and> save_path st' = save_path st
     \<and> model_names st' = model_names st \<and> modules st' = modules st \<and> dirs (world st') = dirs (world st)
     \<and> best_loss st' = (if tf_less avg (best_loss st) then avg else best_loss st)
     \<and> (\<not> tf_less avg (best_loss st) \<longrightarrow> world st' = world st)
     \<and> (tf_less avg (best_loss st) \<longrightarrow> (\<forall>n\<in>set (model_names st). \<exists>p. files (world st') (checkpoint_path (save_path st) n) = Some (StateDict p)))"
proof -
  assume h: "validation_epoch_end st outs = Inr (st', avg)"
  then obtain a where a: "tf_mean outs = Inr a"
    by (cases "tf_mean outs") (auto simp: validation_epoch_end_def)
  show ?thesis
  proof (cases "tf_less a (best_loss st)")
    case False
    with h a show ?thesis by (auto simp: validation_epoch_end_keep)
  next
    case True
    let ?st1 = "st\<lparr>best_loss := a, stdout := stdout st @ [NewBestMessage]\<rparr>"
    from h a True obtain st2 where st2: "save_checkpoints ?st1 (model_names st) = Inr (st2, ())"
      and st': "st' = st2\<lparr>logs := logs st2 @ [(''val_loss'', a)]\<rparr>" and avg: "avg = a"
      by (auto simp: validation_epoch_end_improve obind_eq_Inr_iff)
    have frame: "st2 = ?st1\<lparr>world := world st2\<rparr>" "dirs (world st2) = dirs (world st)"
      using save_checkpoints_frame[OF st2] by simp_all
    have "\<forall>q\<in>checkpoint_path (save_path st) ` set (model_names st). \<exists>p. files (world st2) q = Some (StateDict p)"
      using save_checkpoints_written_any[OF st2] by simp
    then show ?thesis
      using True a avg st' frame(2) arg_cong[OF frame(1), of best_loss] arg_cong[OF frame(1), of logs]
        arg_cong[OF frame(1), of save_path] arg_cong[OF frame(1), of model_names] arg_cong[OF frame(1), of modules]
      by simp
  qed
qed

lemma eval_hooks_Inr:
  "validation_step vis net st b i = Inr (st', loss) \<Longrightarrow> \<exists>w'. st' = st\<lparr>world := w'\<rparr>"
  "test_step vis net st b i = Inr (st', loss) \<Longrightarrow> \<exists>w'. st' = st\<lparr>world := w'\<rparr>"
  by (auto simp: validation_step_def test_step_def dest!: eval_step_Inr intro: exI[of _ "world st"])

lemmas hook_results = training_step_Inr training_epoch_end_Inr test_epoch_end_Inr validation_epoch_end_Inr
  eval_hooks_Inr

lemma path_join_suffix: "\<exists>a. path_join s b = a @ b"
  by (auto simp: path_join_def)

lemma last_path_join: "b \<noteq> [] \<Longrightarrow> last (path_join s b) = last b"
  using path_join_suffix[of s b] by auto

lemma eval_path_not_checkpoint:
  "fname \<in> {''val_pred.png'', ''test_pred.png''} \<Longrightarrow> path_join s fname \<noteq> checkpoint_path s' n"
proof
  assume f: "fname \<in> {''val_pred.png'', ''test_pred.png''}" and eq: "path_join s fname = checkpoint_path s' n"
  have "last (path_join s fname) = CHR ''g''" using f by (auto simp: last_path_join)
  moreover have "last (checkpoint_path s' n) = CHR ''t''" by (simp add: checkpoint_path_def last_path_join)
  ultimately show False using eq by simp
qed

text \<open>
  C27: a validation epoch in which some batch loss is NaN (a diverged network) has a
  NaN average, which is never smaller than the best loss: the epoch only logs it, and
  neither the best loss nor any checkpoint file changes.
\<close>

theorem validation_epoch_end_nan_loss:
  assumes "NaN \<in> set outputs"
  shows "validation_epoch_end st outputs = Inr (st\<lparr>logs := logs st @ [(''val_loss'', NaN)]\<rparr>, NaN)"
proof -
  from assms have "tf_mean outputs = Inr NaN" by (auto simp: tf_mean_def)
  then show ?thesis by (simp add: validation_epoch_end_keep)
qed

text \<open>
  A training step returns the batch loss; at batch index 0 it also prints the
  largest and smallest prediction, and raises \<open>RuntimeError\<close> (from
  \<open>y_pred.max()\<close>) when the prediction is empty; at every other index the state is
  unchanged.
\<close>

lemma training_step_result:
  assumes "modules st ''classifier'' = Some p" "model_loss (net p x) labels = Inr loss"
  shows "training_step net st (x, labels) i =
     (if i \<noteq> 0 then Inr (st, loss)
      else if flatten4 (net p x) = [] then Inl (RuntimeError, st)
      else Inr (st\<lparr>stdout := stdout st @ [PredRange (Max (set (flatten4 (net p x)))) (Min (set (flatten4 (net p x))))]\<rparr>, loss))"
  using assms by (simp add: training_step_def classify_def getattr_def pred_range_def Let_def)

section \<open>Witnesses\<close>

lemma demo_loss: "model_loss [[[[1]]]] [[[[1]]]] = Inr (Num 0)"
  by (simp add: model_loss_def bce_loss_def flatten4_def bce_elem_def clamped_log_def mean_def)

lemma demo_train_step:
  "training_step demo_net demo_state ((), [[[[1]]]]) 0 = Inr (demo_state\<lparr>stdout := [PredRange 1 1]\<rparr>, Num 0)"
  by (simp add: training_step_def classify_def getattr_def demo_state_def init_state_def demo_net_def
      demo_loss pred_range_def flatten4_def)

lemma demo_names_ok:
  "\<forall>n\<in>set (model_names demo_state). relative_name n \<and> modules demo_state n \<noteq> None
     \<and> dir_exists (world demo_state) (dirname (checkpoint_path (save_path demo_state) n))"
  by (simp add: demo_state_def init_state_def relative_name_def demo_world_def dir_exists_def dirname_def
      checkpoint_path_def path_join_def)

theorem validation_epoch_end_example_witness:
  "model_names demo_state = [''classifier''] \<and> save_path demo_state = ''run''
   \<and> relative_name ''classifier'' \<and> modules demo_state ''classifier'' = Some ()
   \<and> dir_exists (world demo_state) (dirname (checkpoint_path ''run'' ''classifier''))
   \<and> (\<exists>st'. validation_epoch_end (demo_state\<lparr>best_loss := Num (11/20)\<rparr>) [Num (2/5), Num (3/5)] = Inr (st', Num (1/2))
         \<and> best_loss st' = Num (1/2) \<and> files (world st') (checkpoint_path ''run'' ''classifier'') = Some (StateDict ()))
   \<and> validation_epoch_end (demo_state\<lparr>best_loss := Num (2/5)\<rparr>) [Num (2/5), Num (3/5)]
       = Inr (demo_state\<lparr>best_loss := Num (2/5), logs := [(''val_loss'', Num (1/2))]\<rparr>, Num (1/2))"
proof -
  have facts: "model_names demo_state = [''classifier'']" "save_path demo_state = ''run''"
    "modules demo_state ''classifier'' = Some ()" "logs demo_state = []"
    by (simp_all add: demo_state_def init_state_def)
  from validation_epoch_end_example[OF demo_names_ok] facts demo_names_ok show ?thesis by auto
qed

theorem validation_epoch_end_checkpoint_roundtrip_witness:
  "tf_mean [Num 0] = Inr (Num 0) \<and> tf_less (Num 0) (best_loss demo_state)
   \<and> (\<exists>st'. validation_epoch_end demo_state [Num 0] = Inr (st', Num 0)
         \<and> err_bind (load_state (world st') (checkpoint_path ''run'' ''classifier'')) (\<lambda>p. Inr (demo_net p ()))
           = err_bind (getattr demo_state ''classifier'') (\<lambda>p. Inr (demo_net p ())))"
proof -
  have m: "tf_mean [Num 0] = Inr (Num 0)" by (simp add: tf_mean_def mean_def)
  have l: "tf_less (Num 0) (best_loss demo_state)" by (simp add: demo_state_def init_state_def)
  have facts: "model_names demo_state = [''classifier'']" "save_path demo_state = ''run''"
    by (simp_all add: demo_state_def init_state_def)
  show ?thesis
    using validation_epoch_end_checkpoint_roundtrip[OF m l demo_names_ok, of demo_net] m l facts by auto
qed

theorem validation_epoch_end_missing_module_witness:
  "tf_mean [Num 0] = Inr (Num 0) \<and> tf_less (Num 0) (best_loss (demo_state\<lparr>modules := Map.empty\<rparr>))
   \<and> model_names (demo_state\<lparr>modules := Map.empty\<rparr>) = [''classifier'']
   \<and> dir_exists (world demo_state) (dirname (checkpoint_path ''run'' ''classifier''))
   \<and> modules (demo_state\<lparr>modules := Map.empty\<rparr>) ''classifier'' = None
   \<and> (\<exists>st'. validation_epoch_end (demo_state\<lparr>modules := Map.empty\<rparr>) [Num 0] = Inl (AttributeError, st')
         \<and> best_loss st' = Num 0 \<and> files (world st') (checkpoint_path ''run'' ''classifier'') = Some EmptyFile)"
proof -
  have m: "tf_mean [Num 0] = Inr (Num 0)" by (simp add: tf_mean_def mean_def)
  have l: "tf_less (Num 0) (best_loss (demo_state\<lparr>modules := Map.empty\<rparr>))" by (simp add: demo_state_def init_state_def)
  have n: "model_names (demo_state\<lparr>modules := Map.empty\<rparr>) = ''classifier'' # []" by (simp add: demo_state_def init_state_def)
  have d: "dir_exists (world (demo_state\<lparr>modules := Map.empty\<rparr>)) (dirname (checkpoint_path (save_path (demo_state\<lparr>modules := Map.empty\<rparr>)) ''classifier''))"
    using demo_names_ok by (simp add: demo_state_def init_state_def)
  have e: "modules (demo_state\<lparr>modules := Map.empty\<rparr>) ''classifier'' = None" by simp
  show ?thesis using validation_epoch_end_missing_module[OF m l n d e] m l n d
    by (simp add: demo_state_def init_state_def)
qed

theorem validation_epoch_end_nan_loss_witness:
  "NaN \<in> set [Num 1, NaN]
   \<and> validation_epoch_end demo_state [Num 1, NaN] = Inr (demo_state\<lparr>logs := [(''val_loss'', NaN)]\<rparr>, NaN)"
  using validation_epoch_end_nan_loss[of "[Num 1, NaN]" demo_state] by (simp add: demo_state_def init_state_def)

end
