(* ===== verification/Driver.thy ===== *)
theory Driver
  imports Orchestrator
begin

text \<open>
  The training loop that calls the hooks.  The driver (a Lightning \<open>Trainer\<close>) is not
  code of this repository: it is the inductive relation \<open>fit_step\<close> on configurations
  (phase, state, hook outputs collected in the current loop), with the rules in the order
  of the specification, section 4.4 (training steps, \<open>training_epoch_end\<close>, validation
  steps, \<open>validation_epoch_end\<close>, once more per epoch, and the test loop), and with the
  optimiser free to change the classifier's parameters between training steps.
  \<open>fit_reachable\<close> is the set of configurations a run from a given state reaches; the
  invariants of this theory hold in all of them and are proved by rule induction.
\<close>

section \<open>The training loop\<close>

text \<open>
  The external driver (a Lightning \<open>Trainer\<close>) as a relation on configurations
  (phase, state, the hook outputs collected in the current loop).  The driver is not
  code of this repository: the rules follow the order of the specification, section 4.4.
\<close>

datatype phase = TrainPhase | ValPhase | TestPhase | Done

type_synonym ('p, 'fig) fit_config = "phase \<times> ('p, 'fig) model_state \<times> tfloat list"

inductive fit_step :: "('x, 'p, 'fig) visualizer \<Rightarrow> ('x, 'p) network \<Rightarrow> ('p, 'fig) fit_config \<Rightarrow> ('p, 'fig) fit_config \<Rightarrow> bool"
  for vis :: "('x, 'p, 'fig) visualizer" and net :: "('x, 'p) network" where
  train: "training_step net st b (length outs) = Inr (st', loss) \<Longrightarrow>
     fit_step vis net (TrainPhase, st, outs) (TrainPhase, st', outs @ [loss])"
| optimize: "modules st ''classifier'' = Some p0 \<Longrightarrow>
     fit_step vis net (TrainPhase, st, outs) (TrainPhase, st\<lparr>modules := (modules st)(''classifier'' \<mapsto> p)\<rparr>, outs)"
| train_end: "training_epoch_end st outs = Inr (st', u) \<Longrightarrow>
     fit_step vis net (TrainPhase, st, outs) (ValPhase, st', [])"
| val: "validation_step vis net st b (length outs) = Inr (st', loss) \<Longrightarrow>
     fit_step vis net (ValPhase, st, outs) (ValPhase, st', outs @ [loss])"
| val_end: "validation_epoch_end st outs = Inr (st', avg) \<Longrightarrow>
     fit_step vis net (ValPhase, st, outs) (TrainPhase, st'\<lparr>current_epoch := Suc (current_epoch st')\<rparr>, [])"
| test_start: "fit_step vis net (TrainPhase, st, []) (TestPhase, st, [])"
| test: "test_step vis net st b (length outs) = Inr (st', loss) \<Longrightarrow>
     fit_step vis net (TestPhase, st, outs) (TestPhase, st', outs @ [loss])"
| test_end: "test_epoch_end st outs = Inr (st', avg) \<Longrightarrow>
     fit_step vis net (TestPhase, st, outs) (Done, st', [])"

inductive fit_reachable :: "('x, 'p, 'fig) visualizer \<Rightarrow> ('x, 'p) network \<Rightarrow> ('p, 'fig) model_state \<Rightarrow> ('p, 'fig) fit_config \<Rightarrow> bool"
  for vis :: "('x, 'p, 'fig) visualizer" and net :: "('x, 'p) network" and st0 :: "('p, 'fig) model_state" where
  start: "fit_reachable vis net st0 (TrainPhase, st0, [])"
| step: "fit_reachable vis net st0 c \<Longrightarrow> fit_step vis net c c' \<Longrightarrow> fit_reachable vis net st0 c'"

definition best_from_logs :: "(string \<times> tfloat) list \<Rightarrow> tfloat" where
  "best_from_logs ls = fold (\<lambda>(k, v) b. if k = ''val_loss'' \<and> tf_less v b then v else b) ls PosInf"

definition vis_frame :: "('x, 'p, 'fig) visualizer \<Rightarrow> bool" where
  "vis_frame vis \<longleftrightarrow> (\<forall>x l y path e w w'. vis x l y path e w = Inr w' \<longrightarrow>
      dirs w' = dirs w \<and> (\<forall>q. q \<noteq> path \<longrightarrow> files w' q = files w q))"

definition checkpoints_saved :: "('p, 'fig) model_state \<Rightarrow> bool" where
  "checkpoints_saved st \<longleftrightarrow> (best_loss st \<noteq> PosInf \<longrightarrow>
     (\<forall>n\<in>set (model_names st). \<exists>p. files (world st) (checkpoint_path (save_path st) n) = Some (StateDict p)))"

section \<open>Invariants of the training loop\<close>

lemma best_from_logs_snoc:
  "best_from_logs (ls @ [(k, v)]) = (if k = ''val_loss'' \<and> tf_less v (best_from_logs ls) then v else best_from_logs ls)"
  by (simp add: best_from_logs_def)

lemma fit_step_config:
  "fit_step vis net (ph, st, outs) (ph', st', outs') \<Longrightarrow>
     save_path st' = save_path st \<and> model_names st' = model_names st"
  by (induction "(ph, st, outs)" "(ph', st', outs')" rule: fit_step.induct)
     (auto dest!: hook_results)

lemma fit_step_best_from_logs:
  "fit_step vis net (ph, st, outs) (ph', st', outs') \<Longrightarrow> best_loss st = best_from_logs (logs st) \<Longrightarrow>
     best_loss st' = best_from_logs (logs st')"
  by (induction "(ph, st, outs)" "(ph', st', outs')" rule: fit_step.induct)
     (auto dest!: hook_results simp: best_from_logs_snoc)

text \<open>
  C18: no step of the training loop increases the best loss.
\<close>

theorem fit_step_best_loss_monotone:
  "fit_step vis net (ph, st, outs) (ph', st', outs') \<Longrightarrow> tf_le (best_loss st') (best_loss st)"
  by (induction "(ph, st, outs)" "(ph', st', outs')" rule: fit_step.induct)
     (auto dest!: hook_results simp: tf_le_def)

lemma eval_step_checkpoints_saved:
  assumes "eval_step fname vis net st b i = Inr (st', loss)" "vis_frame vis"
    and "fname \<in> {''val_pred.png'', ''test_pred.png''}" "checkpoints_saved st"
  shows "checkpoints_saved st'"
  using eval_step_Inr[OF assms(1)]
proof
  assume "st' = st"
  with assms(4) show ?thesis by simp
next
  assume "\<exists>x l y w'. vis x l y (path_join (save_path st) fname) (int (current_epoch st)) (world st) = Inr w'
                   \<and> st' = st\<lparr>world := w'\<rparr>"
  then obtain x l y w' where v: "vis x l y (path_join (save_path st) fname) (int (current_epoch st)) (world st) = Inr w'"
    and st': "st' = st\<lparr>world := w'\<rparr>" by blast
  have "\<forall>n. files w' (checkpoint_path (save_path st) n) = files (world st) (checkpoint_path (save_path st) n)"
    using assms(2) v eval_path_not_checkpoint[OF assms(3)] unfolding vis_frame_def by metis
  with assms(4) st' show ?thesis by (simp add: checkpoints_saved_def)
qed

lemma fit_step_checkpoints_saved:
  "fit_step vis net c c' \<Longrightarrow> vis_frame vis \<Longrightarrow> checkpoints_saved (fst (snd c)) \<Longrightarrow>
     checkpoints_saved (fst (snd c'))"
proof (induction rule: fit_step.induct)
  case (val st b outs st' loss)
  then show ?case by (auto simp: validation_step_def intro: eval_step_checkpoints_saved)
next
  case (test st b outs st' loss)
  then show ?case by (auto simp: test_step_def intro: eval_step_checkpoints_saved)
next
  case (val_end st outs st' avg)
  note r = validation_epoch_end_Inr[OF val_end.hyps]
  show ?case
  proof (cases "tf_less avg (best_loss st)")
    case True
    with r show ?thesis by (simp add: checkpoints_saved_def)
  next
    case False
    with r val_end.prems(2) show ?thesis by (simp add: checkpoints_saved_def)
  qed
qed (auto dest!: training_step_Inr training_epoch_end_Inr test_epoch_end_Inr simp: checkpoints_saved_def)

lemma fit_reachable_invariant:
  assumes "fit_reachable vis net st0 c" "best_loss st0 = PosInf" "logs st0 = []"
  shows "save_path (fst (snd c)) = save_path st0 \<and> model_names (fst (snd c)) = model_names st0
         \<and> best_loss (fst (snd c)) = best_from_logs (logs (fst (snd c)))
         \<and> (vis_frame vis \<longrightarrow> checkpoints_saved (fst (snd c)))"
  using assms(1)
proof (induction rule: fit_reachable.induct)
  case start
  with assms(2,3) show ?case by (simp add: best_from_logs_def checkpoints_saved_def)
next
  case (step c c')
  obtain ph st outs ph' st' outs' where c: "c = (ph, st, outs)" and c': "c' = (ph', st', outs')"
    by (cases c, cases c') auto
  with step show ?case
    using fit_step_config[of vis net ph st outs ph' st' outs'] fit_step_best_from_logs[of vis net ph st outs ph' st' outs']
      fit_step_checkpoints_saved[of vis net c c'] by auto
qed

text \<open>
  C17: in every configuration reachable from a freshly constructed model, the best loss
  is the smallest validation loss logged so far (\<open>+inf\<close> before the first), in the
  sense of IEEE \<open><\<close>.
\<close>

theorem fit_reachable_best_loss:
  "fit_reachable vis net (init_state path names mods w) (ph, st, outs) \<Longrightarrow> best_loss st = best_from_logs (logs st)"
  using fit_reachable_invariant[of vis net "init_state path names mods w" "(ph, st, outs)"]
  by (simp add: init_state_def)

text \<open>
  C19: when the visualisation writes only its own figure file, every reachable
  configuration with a finite best loss has a checkpoint file holding a parameter
  state for every configured sub-model.
\<close>

theorem fit_reachable_checkpoints:
  assumes "vis_frame vis" "fit_reachable vis net (init_state path names mods w) (ph, st, outs)"
    and "best_loss st \<noteq> PosInf" "n \<in> set names"
  shows "\<exists>p. files (world st) (checkpoint_path path n) = Some (StateDict p)"
  using fit_reachable_invariant[OF assms(2)] assms(1,3,4)
  by (auto simp: init_state_def checkpoints_saved_def)

inductive_cases fit_step_TestE: "fit_step vis net (TestPhase, st, outs) c'"

text \<open>
  C28: the test phase is read-only for the checkpoints: when the visualisation writes only
  its own figure, no test step and no test epoch end changes the best loss, the save
  path or any checkpoint file.
\<close>

theorem fit_step_test_phase_frame:
  assumes "fit_step vis net (TestPhase, st, outs) (ph', st', outs')" "vis_frame vis"
  shows "best_loss st' = best_loss st \<and> save_path st' = save_path st
    \<and> (\<forall>n. files (world st') (checkpoint_path (save_path st) n) = files (world st) (checkpoint_path (save_path st) n))"
proof -
  from assms(1) have "(\<exists>b loss. test_step vis net st b (length outs) = Inr (st', loss))
      \<or> (\<exists>avg. test_epoch_end st outs = Inr (st', avg))"
    by (cases rule: fit_step_TestE) auto
  then show ?thesis
  proof
    assume "\<exists>b loss. test_step vis net st b (length outs) = Inr (st', loss)"
    then obtain b loss where "eval_step ''test_pred.png'' vis net st b (length outs) = Inr (st', loss)"
      by (auto simp: test_step_def)
    from eval_step_Inr[OF this] show ?thesis
    proof
      assume "st' = st"
      then show ?thesis by simp
    next
      assume "\<exists>x l y w'. vis x l y (path_join (save_path st) ''test_pred.png'') (int (current_epoch st)) (world st) = Inr w'
                     \<and> st' = st\<lparr>world := w'\<rparr>"
      then obtain x l y w' where v: "vis x l y (path_join (save_path st) ''test_pred.png'') (int (current_epoch st)) (world st) = Inr w'"
        and st': "st' = st\<lparr>world := w'\<rparr>" by blast
      have "\<And>n. checkpoint_path (save_path st) n \<noteq> path_join (save_path st) ''test_pred.png''"
        by (rule not_sym, rule eval_path_not_checkpoint) simp
      moreover have "\<forall>q. q \<noteq> path_join (save_path st) ''test_pred.png'' \<longrightarrow> files w' q = files (world st) q"
        using assms(2) v unfolding vis_frame_def by blast
      ultimately show ?thesis using st' by auto
    qed
  next
    assume "\<exists>avg. test_epoch_end st outs = Inr (st', avg)"
    then show ?thesis by (auto dest: test_epoch_end_Inr)
  qed
qed

lemma fit_step_classifier:
  "fit_step vis net (ph, st, outs) (ph', st', outs') \<Longrightarrow> modules st ''classifier'' \<noteq> None \<Longrightarrow>
     modules st' ''classifier'' \<noteq> None"
  by (induction "(ph, st, outs)" "(ph', st', outs')" rule: fit_step.induct)
     (auto dest!: hook_results)

lemma fit_reachable_classifier:
  "fit_reachable vis net st0 c \<Longrightarrow> modules st0 ''classifier'' \<noteq> None \<Longrightarrow> modules (fst (snd c)) ''classifier'' \<noteq> None"
proof (induction rule: fit_reachable.induct)
  case (step c c')
  obtain ph st outs ph' st' outs' where "c = (ph, st, outs)" "c' = (ph', st', outs')"
    by (cases c, cases c') auto
  with step show ?case using fit_step_classifier[of vis net ph st outs ph' st' outs'] by simp
qed simp

text \<open>
  The optimiser can be configured in every configuration the training loop reaches
  from a model that has a classifier: no hook removes the sub-module, so
  \<open>configure_optimizers\<close> never raises there and builds the optimiser over the
  classifier's current parameters.
\<close>

lemma fit_reachable_configure_optimizers:
  assumes "fit_reachable vis net st0 (ph, st, outs)" "modules st0 ''classifier'' = Some p0"
  shows "\<exists>p. modules st ''classifier'' = Some p \<and> configure_optimizers mate_optimizer cfg st = Inr (mate_optimizer cfg p)"
  using fit_reachable_classifier[OF assms(1)] assms(2)
  by (auto simp: configure_optimizers_def getattr_def)

section \<open>Witnesses\<close>

lemma demo_vis_frame: "vis_frame demo_vis"
  by (simp add: vis_frame_def demo_vis_def)

text \<open>
  A run of one training batch, one validation batch and the two epoch ends, for any
  visualiser that leaves the world as it is on that batch: the model saves its first
  checkpoint and the best loss becomes 0.
\<close>

lemma run_reaches_checkpoint:
  fixes vis :: "('x, 'p, 'fig) visualizer" and net :: "('x, 'p) network"
  assumes st0: "st0 = init_state path [''classifier''] [''classifier'' \<mapsto> p] w"
    and dir: "dir_exists w (dirname (checkpoint_path path ''classifier''))"
    and net: "net p x = [[[[1]]]]"
    and vis: "vis x [[[[1]]]] [[[[1]]]] (path_join path ''val_pred.png'') 0 w = Inr w"
  shows "\<exists>st. fit_reachable vis net st0 (TrainPhase, st, []) \<and> best_loss st = Num 0"
proof -
  let ?st1 = "st0\<lparr>stdout := [PredRange 1 1]\<rparr>"
  have "training_step net st0 (x, [[[[1]]]]) (length ([] :: tfloat list)) = Inr (?st1, Num 0)"
    by (simp add: training_step_def classify_def getattr_def st0 init_state_def net demo_loss
        pred_range_def flatten4_def)
  then have r1: "fit_reachable vis net st0 (TrainPhase, ?st1, [Num 0])"
    using fit_reachable.step[OF fit_reachable.start fit_step.train] by fastforce
  let ?st2 = "?st1\<lparr>logs := [(''train_loss'', Num 0)]\<rparr>"
  have "training_epoch_end ?st1 [Num 0] = Inr (?st2, ())"
    by (simp add: training_epoch_end_def tf_mean_def mean_def st0 init_state_def)
  then have r2: "fit_reachable vis net st0 (ValPhase, ?st2, [])"
    using fit_reachable.step[OF r1 fit_step.train_end] by blast
  have "validation_step vis net ?st2 (x, [[[[1]]]]) (length ([] :: tfloat list)) = Inr (?st2, Num 0)"
    using vis by (simp add: validation_step_def eval_step_def classify_def getattr_def st0 init_state_def
        net demo_loss)
  then have r3: "fit_reachable vis net st0 (ValPhase, ?st2, [Num 0])"
    using fit_reachable.step[OF r2 fit_step.val] by fastforce
  have "\<forall>n\<in>set (model_names ?st2). relative_name n \<and> modules ?st2 n \<noteq> None
           \<and> dir_exists (world ?st2) (dirname (checkpoint_path (save_path ?st2) n))"
    using dir by (simp add: st0 init_state_def relative_name_def)
  moreover have "tf_mean [Num 0] = Inr (Num 0)" by (simp add: tf_mean_def mean_def)
  moreover have "tf_less (Num 0) (best_loss ?st2)" by (simp add: st0 init_state_def)
  ultimately obtain st3 where st3: "validation_epoch_end ?st2 [Num 0] = Inr (st3, Num 0)" and b: "best_loss st3 = Num 0"
    using validation_epoch_end_improve_writes by blast
  have "fit_reachable vis net st0 (TrainPhase, st3\<lparr>current_epoch := Suc (current_epoch st3)\<rparr>, [])"
    using fit_reachable.step[OF r3 fit_step.val_end[OF st3]] .
  with b show ?thesis by auto
qed

lemma demo_reaches_checkpoint:
  "\<exists>st. fit_reachable demo_vis demo_net demo_state (TrainPhase, st, []) \<and> best_loss st = Num 0"
  by (rule run_reaches_checkpoint[OF demo_state_def])
     (simp_all add: dir_exists_def dirname_def checkpoint_path_def path_join_def demo_world_def demo_net_def demo_vis_def)

theorem fit_reachable_checkpoints_witness:
  "\<exists>st. vis_frame demo_vis
     \<and> fit_reachable demo_vis demo_net (init_state ''run'' [''classifier''] [''classifier'' \<mapsto> ()] demo_world) (TrainPhase, st, [])
     \<and> best_loss st \<noteq> PosInf \<and> ''classifier'' \<in> set [''classifier'']
     \<and> (\<exists>p. files (world st) (checkpoint_path ''run'' ''classifier'') = Some (StateDict p))"
proof -
  obtain st where r: "fit_reachable demo_vis demo_net demo_state (TrainPhase, st, [])" and b: "best_loss st = Num 0"
    using demo_reaches_checkpoint by blast
  have "\<exists>p. files (world st) (checkpoint_path ''run'' ''classifier'') = Some (StateDict p)"
    using fit_reachable_checkpoints[OF demo_vis_frame r[unfolded demo_state_def]] b by simp
  with r b demo_vis_frame show ?thesis by (auto simp: demo_state_def)
qed

theorem fit_reachable_best_loss_witness:
  "fit_reachable demo_vis demo_net (init_state ''run'' [''classifier''] [''classifier'' \<mapsto> ()] demo_world)
      (TrainPhase, init_state ''run'' [''classifier''] [''classifier'' \<mapsto> ()] demo_world, [])
   \<and> best_loss (init_state ''run'' [''classifier''] [''classifier'' \<mapsto> ()] demo_world)
       = best_from_logs (logs (init_state ''run'' [''classifier''] [''classifier'' \<mapsto> ()] demo_world))"
  using fit_reachable_best_loss[OF fit_reachable.start] fit_reachable.start by blast

theorem fit_step_best_loss_monotone_witness:
  "fit_step demo_vis demo_net (TrainPhase, demo_state, []) (TrainPhase, demo_state\<lparr>stdout := [PredRange 1 1]\<rparr>, [Num 0])
   \<and> tf_le (best_loss (demo_state\<lparr>stdout := [PredRange 1 1]\<rparr>)) (best_loss demo_state)"
proof -
  have "training_step demo_net demo_state ((), [[[[1]]]]) (length ([] :: tfloat list)) = Inr (demo_state\<lparr>stdout := [PredRange 1 1]\<rparr>, Num 0)"
    using demo_train_step by simp
  then have s: "fit_step demo_vis demo_net (TrainPhase, demo_state, []) (TrainPhase, demo_state\<lparr>stdout := [PredRange 1 1]\<rparr>, [Num 0])"
    using fit_step.train by fastforce
  show ?thesis using fit_step_best_loss_monotone[OF s] s by simp
qed

theorem fit_step_test_phase_frame_witness:
  "fit_step demo_vis demo_net (TestPhase, demo_state, []) (TestPhase, demo_state, [Num 0]) \<and> vis_frame demo_vis
   \<and> best_loss demo_state = best_loss demo_state \<and> save_path demo_state = save_path demo_state"
proof -
  have "test_step demo_vis demo_net demo_state ((), [[[[1]]]]) (length ([] :: tfloat list)) = Inr (demo_state, Num 0)"
    by (simp add: test_step_def eval_step_def classify_def getattr_def demo_state_def init_state_def
        demo_net_def demo_loss demo_vis_def)
  then have s: "fit_step demo_vis demo_net (TestPhase, demo_state, []) (TestPhase, demo_state, [Num 0])"
    using fit_step.test by fastforce
  from fit_step_test_phase_frame[OF s demo_vis_frame] s demo_vis_frame show ?thesis by blast
qed

end
