(* ===== verification/Trainer.thy ===== *)
theory Trainer
  imports Driver
begin

text \<open>
  The training-loop driver as an executable function.  \<open>Driver\<close> describes every order
  in which the Lightning \<open>Trainer\<close> may call the hooks as a relation; this theory fixes
  one run of \<open>trainer.fit(model)\<close> followed by \<open>trainer.test(model)\<close>, following the
  specification's design note (section 9: an explicit driver with epoch start, batch
  steps and epoch end): every training batch is a \<open>training_step\<close> followed by an
  optimiser step, then \<open>training_epoch_end\<close>, every validation batch a
  \<open>validation_step\<close>, then \<open>validation_epoch_end\<close>, and the epoch counter advances.
  The epoch loop stops when \<open>max_epochs\<close> epochs are done; as in Lightning,
  \<open>max_epochs = -1\<close> trains without end, so the loop is a \<open>partial_function\<close> whose
  value \<open>None\<close> is "never returns".  An exception of a hook ends the run with the error
  and the state at the raise.
\<close>

section \<open>The driver\<close>

text \<open>The optimiser's update of the classifier's parameters on one batch (\<open>optimizer.step()\<close>
  after the backward pass): a parameter of the driver.\<close>

type_synonym ('x, 'p) optimizer = "'p \<Rightarrow> 'x \<times> batch_tensor \<Rightarrow> 'p"

type_synonym ('x, 'p, 'fig) hook = "('p, 'fig) model_state \<Rightarrow> 'x \<times> batch_tensor \<Rightarrow> nat \<Rightarrow> (('p, 'fig) model_state, tfloat) outcome"

definition optimizer_step :: "('x, 'p) optimizer \<Rightarrow> 'x \<times> batch_tensor \<Rightarrow> ('p, 'fig) model_state \<Rightarrow> ('p, 'fig) model_state" where
  "optimizer_step opt b st =
     (case modules st ''classifier'' of
        None \<Rightarrow> st
      | Some p \<Rightarrow> st\<lparr>modules := (modules st)(''classifier'' \<mapsto> opt p b)\<rparr>)"

fun train_batches ::
  "('x, 'p) optimizer \<Rightarrow> ('x, 'p) network \<Rightarrow> ('x \<times> batch_tensor) list \<Rightarrow> ('p, 'fig) model_state \<Rightarrow> tfloat list
     \<Rightarrow> (('p, 'fig) model_state, tfloat list) outcome" where
  "train_batches opt net [] st outs = Inr (st, outs)"
| "train_batches opt net (b # bs) st outs =
     obind (training_step net st b (length outs)) (\<lambda>st loss.
       train_batches opt net bs (optimizer_step opt b st) (outs @ [loss]))"

fun eval_batches ::
  "('x, 'p, 'fig) hook \<Rightarrow> ('x \<times> batch_tensor) list \<Rightarrow> ('p, 'fig) model_state \<Rightarrow> tfloat list
     \<Rightarrow> (('p, 'fig) model_state, tfloat list) outcome" where
  "eval_batches hook [] st outs = Inr (st, outs)"
| "eval_batches hook (b # bs) st outs =
     obind (hook st b (length outs)) (\<lambda>st loss. eval_batches hook bs st (outs @ [loss]))"

definition run_epoch ::
  "('x, 'p) optimizer \<Rightarrow> ('x, 'p, 'fig) visualizer \<Rightarrow> ('x, 'p) network \<Rightarrow> ('x \<times> batch_tensor) list
     \<Rightarrow> ('x \<times> batch_tensor) list \<Rightarrow> ('p, 'fig) model_state \<Rightarrow> (('p, 'fig) model_state, unit) outcome" where
  "run_epoch opt vis net tbs vbs st =
     obind (train_batches opt net tbs st []) (\<lambda>st outs.
     obind (training_epoch_end st outs) (\<lambda>st _.
     obind (eval_batches (validation_step vis net) vbs st []) (\<lambda>st vouts.
     obind (validation_epoch_end st vouts) (\<lambda>st _.
       Inr (st\<lparr>current_epoch := Suc (current_epoch st)\<rparr>, ())))))"

definition epochs_done :: "int \<Rightarrow> ('p, 'fig) model_state \<Rightarrow> bool" where
  "epochs_done max_epochs st \<longleftrightarrow> 0 \<le> max_epochs \<and> max_epochs \<le> int (current_epoch st)"

partial_function (option) fit_loop ::
  "('x, 'p) optimizer \<Rightarrow> ('x, 'p, 'fig) visualizer \<Rightarrow> ('x, 'p) network \<Rightarrow> ('x \<times> batch_tensor) list
     \<Rightarrow> ('x \<times> batch_tensor) list \<Rightarrow> int \<Rightarrow> ('p, 'fig) model_state \<Rightarrow> (('p, 'fig) model_state, unit) outcome option" where
  "fit_loop opt vis net tbs vbs max_epochs st =
     (if epochs_done max_epochs st then Some (Inr (st, ()))
      else (case run_epoch opt vis net tbs vbs st of
              Inl e \<Rightarrow> Some (Inl e)
            | Inr (st', _) \<Rightarrow> fit_loop opt vis net tbs vbs max_epochs st'))"

definition fit_and_test ::
  "('x, 'p) optimizer \<Rightarrow> ('x, 'p, 'fig) visualizer \<Rightarrow> ('x, 'p) network \<Rightarrow> ('x \<times> batch_tensor) list
     \<Rightarrow> ('x \<times> batch_tensor) list \<Rightarrow> ('x \<times> batch_tensor) list \<Rightarrow> int \<Rightarrow> ('p, 'fig) model_state
     \<Rightarrow> (('p, 'fig) model_state, tfloat) outcome option" where
  "fit_and_test opt vis net tbs vbs tsbs max_epochs st =
     map_option (\<lambda>r. obind r (\<lambda>st _.
        obind (eval_batches (test_step vis net) tsbs st []) (\<lambda>st outs. test_epoch_end st outs)))
       (fit_loop opt vis net tbs vbs max_epochs st)"

subsection \<open>A well-configured run\<close>

text \<open>A state from which no hook raises for lack of configuration: the classifier exists,
  and every configured sub-model exists and has its checkpoint directory.\<close>

definition run_ready :: "('p, 'fig) model_state \<Rightarrow> bool" where
  "run_ready st \<longleftrightarrow> modules st ''classifier'' \<noteq> None
     \<and> (\<forall>n\<in>set (model_names st). modules st n \<noteq> None
           \<and> dir_exists (world st) (dirname (checkpoint_path (save_path st) n)))"

text \<open>A batch on which the loss never raises, whatever the classifier's parameters: the
  prediction is not empty and the loss is defined.\<close>

definition batch_ok :: "('x, 'p) network \<Rightarrow> 'x \<times> batch_tensor \<Rightarrow> bool" where
  "batch_ok net b \<longleftrightarrow> (\<forall>p. flatten4 (net p (fst b)) \<noteq> [] \<and> (\<exists>l. model_loss (net p (fst b)) (snd b) = Inr l))"

subsection \<open>A run of one batch per loop, for the witnesses\<close>

abbreviation demo_batches :: "(unit \<times> batch_tensor) list" where
  "demo_batches \<equiv> [((), [[[[1]]]])]"

section \<open>The epoch counter\<close>

lemma optimizer_step_simps [simp]:
  "current_epoch (optimizer_step opt b st) = current_epoch st"
  "save_path (optimizer_step opt b st) = save_path st"
  by (simp_all add: optimizer_step_def split: option.splits)

lemma validation_epoch_end_current_epoch:
  "validation_epoch_end st outs = Inr (st', avg) \<Longrightarrow> current_epoch st' = current_epoch st"
  by (auto simp: validation_epoch_end_def obind_eq_Inr_iff lift_res_eq_Inr_iff split: if_splits
      dest!: save_checkpoints_frame[THEN conjunct1, THEN arg_cong[where f = current_epoch]])

lemma train_batches_current_epoch:
  "train_batches opt net bs st outs = Inr (st', outs') \<Longrightarrow> current_epoch st' = current_epoch st"
  by (induction bs arbitrary: st outs) (auto simp: obind_eq_Inr_iff dest!: training_step_Inr)


lemma eval_batches_current_epoch:
  assumes "\<And>s b i s' l. hook s b i = Inr (s', l) \<Longrightarrow> current_epoch s' = current_epoch s"
  shows "eval_batches hook bs st outs = Inr (st', outs') \<Longrightarrow> current_epoch st' = current_epoch st"
  by (induction bs arbitrary: st outs) (auto simp: obind_eq_Inr_iff dest!: assms)

lemma eval_hooks_current_epoch:
  "validation_step vis net s b i = Inr (s', l) \<Longrightarrow> current_epoch s' = current_epoch s"
  "test_step vis net s b i = Inr (s', l) \<Longrightarrow> current_epoch s' = current_epoch s"
  by (auto dest!: eval_hooks_Inr)

lemma run_epoch_current_epoch:
  "run_epoch opt vis net tbs vbs st = Inr (st', u) \<Longrightarrow> current_epoch st' = Suc (current_epoch st)"
  by (auto simp: run_epoch_def obind_eq_Inr_iff
      dest!: train_batches_current_epoch training_epoch_end_Inr validation_epoch_end_current_epoch
             eval_batches_current_epoch[rotated] eval_hooks_Inr)

section \<open>Termination\<close>

text \<open>The epoch loop with a finite \<open>max_epochs\<close> returns, by well-founded induction on the
  epochs still to run; a property of the states that every successful epoch keeps holds of
  the state it returns, and an exception it returns is raised by an epoch from such a state.\<close>

lemma fit_loop_Some_inv:
  assumes "0 \<le> max_epochs" "I st"
    and keep: "\<And>s s' u. I s \<Longrightarrow> run_epoch opt vis net tbs vbs s = Inr (s', u) \<Longrightarrow> I s'"
  shows "\<exists>r. fit_loop opt vis net tbs vbs max_epochs st = Some r
           \<and> (case r of Inl e \<Rightarrow> \<exists>s. I s \<and> run_epoch opt vis net tbs vbs s = Inl e | Inr (s', _) \<Rightarrow> I s')"
  using assms(2)
proof (induction "nat (max_epochs - int (current_epoch st))" arbitrary: st rule: less_induct)
  case less
  show ?case
  proof (cases "epochs_done max_epochs st")
    case True
    with less.prems show ?thesis by (simp add: fit_loop.simps)
  next
    case False
    show ?thesis
    proof (cases "run_epoch opt vis net tbs vbs st")
      case (Inl e)
      with False less.prems show ?thesis by (auto simp: fit_loop.simps)
    next
      case (Inr r)
      obtain st' u where r: "r = (st', u)" by (cases r)
      have "current_epoch st' = Suc (current_epoch st)"
        using run_epoch_current_epoch Inr r by simp
      with False assms(1) have "nat (max_epochs - int (current_epoch st')) < nat (max_epochs - int (current_epoch st))"
        by (simp add: epochs_done_def)
      moreover have "I st'" using keep[OF less.prems] Inr r by simp
      ultimately obtain y where "fit_loop opt vis net tbs vbs max_epochs st' = Some y"
        and "case y of Inl e \<Rightarrow> \<exists>s. I s \<and> run_epoch opt vis net tbs vbs s = Inl e | Inr (s', _) \<Rightarrow> I s'"
        using less.hyps by blast
      with False Inr r show ?thesis by (simp add: fit_loop.simps)
    qed
  qed
qed

lemma fit_loop_Some:
  "0 \<le> max_epochs \<Longrightarrow> \<exists>r. fit_loop opt vis net tbs vbs max_epochs st = Some r"
  using fit_loop_Some_inv[where I = "\<lambda>_. True"] by blast

lemma fit_loop_Inr:
  assumes "0 \<le> max_epochs" "I st"
    and step: "\<And>s. I s \<Longrightarrow> \<exists>s' u. run_epoch opt vis net tbs vbs s = Inr (s', u) \<and> I s'"
  shows "\<exists>st'. fit_loop opt vis net tbs vbs max_epochs st = Some (Inr (st', ())) \<and> I st'"
proof -
  have keep: "I s'" if "I s" "run_epoch opt vis net tbs vbs s = Inr (s', u)" for s s' u
    using step[OF that(1)] that(2) by auto
  have "\<exists>r. fit_loop opt vis net tbs vbs max_epochs st = Some r
      \<and> (case r of Inl e \<Rightarrow> \<exists>s. I s \<and> run_epoch opt vis net tbs vbs s = Inl e | Inr (s', _) \<Rightarrow> I s')"
    by (rule fit_loop_Some_inv[where I = I, OF assms(1,2)]) (auto intro: keep)
  then obtain r where r: "fit_loop opt vis net tbs vbs max_epochs st = Some r"
    and c: "case r of Inl e \<Rightarrow> \<exists>s. I s \<and> run_epoch opt vis net tbs vbs s = Inl e | Inr (s', _) \<Rightarrow> I s'"
    by blast
  show ?thesis
  proof (cases r)
    case (Inl e)
    with c step show ?thesis by fastforce
  next
    case (Inr p)
    with r c show ?thesis by (cases p) auto
  qed
qed

text \<open>What the epoch loop returns: after a run that ends without an exception exactly
  \<open>max_epochs\<close> epochs are done (none when the counter already reached it).\<close>

lemma fit_loop_current_epoch:
  assumes ret: "fit_loop opt vis net tbs vbs m st = Some r"
  shows "case r of Inl _ \<Rightarrow> True | Inr (st', _) \<Rightarrow> 0 \<le> m \<and> current_epoch st' = max (current_epoch st) (nat m)"
proof (rule fit_loop.raw_induct[where P = "\<lambda>opt vis net tbs vbs m st r. case r of Inl _ \<Rightarrow> True
          | Inr (st', _) \<Rightarrow> 0 \<le> m \<and> current_epoch st' = max (current_epoch st) (nat m)", OF _ ret])
  fix f opt vis net tbs vbs m st and r :: "(('p, 'fig) model_state, unit) outcome"
  assume IH: "\<And>opt vis net tbs vbs m st r. f opt vis net tbs vbs m st = Some r \<Longrightarrow>
      case r of Inl _ \<Rightarrow> True | Inr (st', _) \<Rightarrow> 0 \<le> m \<and> current_epoch st' = max (current_epoch st) (nat m)"
    and eq: "(if epochs_done m st then Some (Inr (st, ()))
      else (case run_epoch opt vis net tbs vbs st of
              Inl e \<Rightarrow> Some (Inl e)
            | Inr (st', _) \<Rightarrow> f opt vis net tbs vbs m st')) = Some r"
  show "case r of Inl _ \<Rightarrow> True | Inr (st', _) \<Rightarrow> 0 \<le> m \<and> current_epoch st' = max (current_epoch st) (nat m)"
  proof (cases "epochs_done m st")
    case True
    with eq show ?thesis by (auto simp: epochs_done_def)
  next
    case False
    show ?thesis
    proof (cases "run_epoch opt vis net tbs vbs st")
      case (Inl e)
      with False eq show ?thesis by auto
    next
      case (Inr p)
      obtain s1 u1 where p: "p = (s1, u1)" by (cases p)
      with False eq Inr have "f opt vis net tbs vbs m s1 = Some r" by simp
      from IH[OF this] run_epoch_current_epoch[OF Inr[unfolded p]] False
      show ?thesis by (auto simp: epochs_done_def split: sum.splits)
    qed
  qed
qed

section \<open>The driver follows the training-loop relation\<close>

lemma fit_reachable_optimizer_step:
  "fit_reachable vis net st0 (TrainPhase, st, outs) \<Longrightarrow> fit_reachable vis net st0 (TrainPhase, optimizer_step opt b st, outs)"
  by (auto simp: optimizer_step_def split: option.splits intro: fit_reachable.step fit_step.optimize)

lemma train_batches_reachable:
  "train_batches opt net bs st outs = Inr (st', outs') \<Longrightarrow> fit_reachable vis net st0 (TrainPhase, st, outs) \<Longrightarrow>
     fit_reachable vis net st0 (TrainPhase, st', outs')"
proof (induction bs arbitrary: st outs)
  case (Cons b bs)
  from Cons.prems(1) obtain s1 loss where t: "training_step net st b (length outs) = Inr (s1, loss)"
    and rest: "train_batches opt net bs (optimizer_step opt b s1) (outs @ [loss]) = Inr (st', outs')"
    by (auto simp: obind_eq_Inr_iff)
  have "fit_reachable vis net st0 (TrainPhase, s1, outs @ [loss])"
    using fit_reachable.step[OF Cons.prems(2) fit_step.train[OF t]] .
  from Cons.IH[OF rest fit_reachable_optimizer_step[OF this]] show ?case .
qed simp

lemma eval_batches_reachable:
  assumes "\<And>s b outs s' l. hook s b (length outs) = Inr (s', l) \<Longrightarrow> fit_step vis net (ph, s, outs) (ph, s', outs @ [l])"
  shows "eval_batches hook bs st outs = Inr (st', outs') \<Longrightarrow> fit_reachable vis net st0 (ph, st, outs) \<Longrightarrow>
     fit_reachable vis net st0 (ph, st', outs')"
proof (induction bs arbitrary: st outs)
  case (Cons b bs)
  from Cons.prems(1) obtain s1 loss where h: "hook st b (length outs) = Inr (s1, loss)"
    and rest: "eval_batches hook bs s1 (outs @ [loss]) = Inr (st', outs')"
    by (auto simp: obind_eq_Inr_iff)
  from Cons.IH[OF rest fit_reachable.step[OF Cons.prems(2) assms[OF h]]] show ?case .
qed simp

lemma run_epoch_reachable:
  assumes "run_epoch opt vis net tbs vbs st = Inr (st', u)" "fit_reachable vis net st0 (TrainPhase, st, [])"
  shows "fit_reachable vis net st0 (TrainPhase, st', [])"
proof -
  from assms(1) obtain s1 outs s2 s3 vouts s4 avg where
    t: "train_batches opt net tbs st [] = Inr (s1, outs)" and te: "training_epoch_end s1 outs = Inr (s2, ())"
    and v: "eval_batches (validation_step vis net) vbs s2 [] = Inr (s3, vouts)"
    and ve: "validation_epoch_end s3 vouts = Inr (s4, avg)"
    and st': "st' = s4\<lparr>current_epoch := Suc (current_epoch s4)\<rparr>"
    by (auto simp: run_epoch_def obind_eq_Inr_iff)
  have "fit_reachable vis net st0 (ValPhase, s2, [])"
    using fit_reachable.step[OF train_batches_reachable[OF t assms(2)] fit_step.train_end[OF te]] .
  moreover have "\<And>s b outs s' l. validation_step vis net s b (length outs) = Inr (s', l) \<Longrightarrow>
      fit_step vis net (ValPhase, s, outs) (ValPhase, s', outs @ [l])"
    by (rule fit_step.val)
  ultimately have "fit_reachable vis net st0 (ValPhase, s3, vouts)"
    using eval_batches_reachable[OF _ v] by blast
  from fit_reachable.step[OF this fit_step.val_end[OF ve]] st' show ?thesis by simp
qed

lemma fit_loop_reachable:
  fixes opt :: "('x, 'p) optimizer" and st0 :: "('p, 'fig) model_state"
  assumes ret: "fit_loop opt vis net tbs vbs m st = Some r"
  shows "case r of Inl _ \<Rightarrow> True
           | Inr (st', _) \<Rightarrow> fit_reachable vis net st0 (TrainPhase, st, []) \<longrightarrow> fit_reachable vis net st0 (TrainPhase, st', [])"
proof (rule fit_loop.raw_induct[where P = "\<lambda>opt vis net tbs vbs m st r. case r of Inl _ \<Rightarrow> True
          | Inr (st', _) \<Rightarrow> fit_reachable vis net st0 (TrainPhase, st, []) \<longrightarrow> fit_reachable vis net st0 (TrainPhase, st', [])", OF _ ret])
  fix f :: "('x, 'p) optimizer \<Rightarrow> ('x, 'p, 'fig) visualizer \<Rightarrow> ('x, 'p) network \<Rightarrow> ('x \<times> batch_tensor) list
     \<Rightarrow> ('x \<times> batch_tensor) list \<Rightarrow> int \<Rightarrow> ('p, 'fig) model_state \<Rightarrow> (('p, 'fig) model_state, unit) outcome option"
  fix opt vis net tbs vbs m st r
  assume IH: "\<And>opt vis net tbs vbs m st r. f opt vis net tbs vbs m st = Some r \<Longrightarrow>
      case r of Inl _ \<Rightarrow> True
        | Inr (st', _) \<Rightarrow> fit_reachable vis net st0 (TrainPhase, st, []) \<longrightarrow> fit_reachable vis net st0 (TrainPhase, st', [])"
    and eq: "(if epochs_done m st then Some (Inr (st, ()))
      else (case run_epoch opt vis net tbs vbs st of
              Inl e \<Rightarrow> Some (Inl e)
            | Inr (st', _) \<Rightarrow> f opt vis net tbs vbs m st')) = Some r"
  show "case r of Inl _ \<Rightarrow> True
      | Inr (st', _) \<Rightarrow> fit_reachable vis net st0 (TrainPhase, st, []) \<longrightarrow> fit_reachable vis net st0 (TrainPhase, st', [])"
  proof (cases "epochs_done m st")
    case True
    with eq show ?thesis by auto
  next
    case False
    show ?thesis
    proof (cases "run_epoch opt vis net tbs vbs st")
      case (Inl e)
      with False eq show ?thesis by auto
    next
      case (Inr p)
      obtain s1 u1 where p: "p = (s1, u1)" by (cases p)
      with False eq Inr have "f opt vis net tbs vbs m s1 = Some r" by simp
      from IH[OF this] run_epoch_reachable[OF Inr[unfolded p]]
      show ?thesis by (auto split: sum.splits)
    qed
  qed
qed

section \<open>Runs without end\<close>

text \<open>With \<open>max_epochs < 0\<close> (Lightning's \<open>-1\<close>) the epoch loop stops only on an exception:
  when every epoch from a set of states closed under the epoch succeeds, it never returns.\<close>

lemma fit_loop_unbounded:
  fixes opt :: "('x, 'p) optimizer" and vis :: "('x, 'p, 'fig) visualizer"
  assumes "max_epochs < 0" "I st"
    and step: "\<And>s. I s \<Longrightarrow> \<exists>s' u. run_epoch opt vis net tbs vbs s = Inr (s', u) \<and> I s'"
  shows "fit_loop opt vis net tbs vbs max_epochs st = None"
proof (rule ccontr)
  assume "fit_loop opt vis net tbs vbs max_epochs st \<noteq> None"
  then obtain r where ret: "fit_loop opt vis net tbs vbs max_epochs st = Some r" by blast
  have "(opt', vis', net', tbs', vbs', m') = (opt, vis, net, tbs, vbs, max_epochs) \<longrightarrow> \<not> I st'"
    if "fit_loop opt' vis' net' tbs' vbs' m' st' = Some r'" for opt' vis' net' tbs' vbs' m' st' r'
  proof (rule fit_loop.raw_induct[where P = "\<lambda>opt' vis' net' tbs' vbs' m' st' r'.
          (opt', vis', net', tbs', vbs', m') = (opt, vis, net, tbs, vbs, max_epochs) \<longrightarrow> \<not> I st'", OF _ that])
    fix f :: "('x, 'p) optimizer \<Rightarrow> ('x, 'p, 'fig) visualizer \<Rightarrow> ('x, 'p) network \<Rightarrow> ('x \<times> batch_tensor) list
       \<Rightarrow> ('x \<times> batch_tensor) list \<Rightarrow> int \<Rightarrow> ('p, 'fig) model_state \<Rightarrow> (('p, 'fig) model_state, unit) outcome option"
    fix opt' vis' net' tbs' vbs' m' st' r'
    assume IH: "\<And>opt' vis' net' tbs' vbs' m' st' r'. f opt' vis' net' tbs' vbs' m' st' = Some r' \<Longrightarrow>
        (opt', vis', net', tbs', vbs', m') = (opt, vis, net, tbs, vbs, max_epochs) \<longrightarrow> \<not> I st'"
      and eq: "(if epochs_done m' st' then Some (Inr (st', ()))
        else (case run_epoch opt' vis' net' tbs' vbs' st' of
                Inl e \<Rightarrow> Some (Inl e)
              | Inr (st'', _) \<Rightarrow> f opt' vis' net' tbs' vbs' m' st'')) = Some r'"
    show "(opt', vis', net', tbs', vbs', m') = (opt, vis, net, tbs, vbs, max_epochs) \<longrightarrow> \<not> I st'"
    proof (intro impI notI)
      assume same: "(opt', vis', net', tbs', vbs', m') = (opt, vis, net, tbs, vbs, max_epochs)" and "I st'"
      then obtain s' u where r: "run_epoch opt vis net tbs vbs st' = Inr (s', u)" and "I s'" using step by blast
      moreover have "\<not> epochs_done max_epochs st'" using assms(1) by (simp add: epochs_done_def)
      ultimately have "f opt vis net tbs vbs max_epochs s' = Some r'" using eq same by simp
      with IH \<open>I s'\<close> show False by blast
    qed
  qed
  with ret assms(2) show False by blast
qed

section \<open>Runs that complete\<close>

lemma run_ready_training_step:
  "training_step net st b i = Inr (st', loss) \<Longrightarrow> run_ready st \<Longrightarrow> run_ready st'"
  by (auto simp: run_ready_def dest!: training_step_Inr)

lemma run_ready_optimizer_step:
  "run_ready st \<Longrightarrow> run_ready (optimizer_step opt b st)"
  by (auto simp: run_ready_def optimizer_step_def split: option.splits)

lemma run_ready_eval_step:
  "eval_step fname vis net st b i = Inr (st', loss) \<Longrightarrow> vis_frame vis \<Longrightarrow> run_ready st \<Longrightarrow> run_ready st'"
  by (auto simp: run_ready_def vis_frame_def dir_exists_def dest!: eval_step_Inr)

lemma run_ready_validation_epoch_end:
  "validation_epoch_end st outs = Inr (st', avg) \<Longrightarrow> run_ready st \<Longrightarrow> run_ready st'"
  by (auto simp: run_ready_def dir_exists_def dest!: validation_epoch_end_Inr)

lemma training_step_succeeds:
  assumes "run_ready st" "batch_ok net b"
  shows "\<exists>st' loss. training_step net st b i = Inr (st', loss)"
proof -
  obtain p where p: "modules st ''classifier'' = Some p" using assms(1) by (auto simp: run_ready_def)
  obtain l where l: "model_loss (net p (fst b)) (snd b) = Inr l" and ne: "flatten4 (net p (fst b)) \<noteq> []"
    using assms(2) by (auto simp: batch_ok_def)
  show ?thesis using p l ne
    by (cases b) (auto simp: training_step_def classify_def getattr_def pred_range_def Let_def)
qed

lemma eval_step_succeeds:
  assumes "run_ready st" "batch_ok net b" "\<forall>x l y path e w. \<exists>w'. vis x l y path e w = Inr w'"
  shows "\<exists>st' loss. eval_step fname vis net st b i = Inr (st', loss)"
proof -
  obtain p where p: "modules st ''classifier'' = Some p" using assms(1) by (auto simp: run_ready_def)
  obtain x lab where b: "b = (x, lab)" by (cases b)
  obtain l where l: "model_loss (net p x) lab = Inr l"
    using assms(2) by (auto simp: batch_ok_def b)
  obtain w' where w': "vis x lab (net p x) (path_join (save_path st) fname) (int (current_epoch st)) (world st) = Inr w'"
    using assms(3) by blast
  show ?thesis using p l w' by (simp add: b eval_step_def classify_def getattr_def)
qed

lemma validation_epoch_end_succeeds:
  assumes "run_ready st" "outs \<noteq> []"
  shows "\<exists>st' avg. validation_epoch_end st outs = Inr (st', avg)"
proof -
  obtain avg where avg: "tf_mean outs = Inr avg" using assms(2) tf_mean_Cons_Inr by (cases outs) auto
  show ?thesis
  proof (cases "tf_less avg (best_loss st)")
    case True
    let ?st1 = "st\<lparr>best_loss := avg, stdout := stdout st @ [NewBestMessage]\<rparr>"
    obtain st2 where "save_checkpoints ?st1 (model_names st) = Inr (st2, ())"
      using save_checkpoints_succeeds[of "model_names st" ?st1] assms(1) by (auto simp: run_ready_def)
    with avg True show ?thesis by (simp add: validation_epoch_end_improve)
  next
    case False
    with avg show ?thesis by (simp add: validation_epoch_end_keep)
  qed
qed

lemma train_batches_succeeds:
  "run_ready st \<Longrightarrow> list_all (batch_ok net) bs \<Longrightarrow>
     \<exists>st' outs'. train_batches opt net bs st outs = Inr (st', outs') \<and> run_ready st' \<and> length outs' = length outs + length bs"
proof (induction bs arbitrary: st outs)
  case (Cons b bs)
  obtain s1 loss where t: "training_step net st b (length outs) = Inr (s1, loss)"
    using training_step_succeeds Cons.prems by fastforce
  have "run_ready (optimizer_step opt b s1)"
    using run_ready_optimizer_step run_ready_training_step[OF t Cons.prems(1)] .
  with Cons.IH[of "optimizer_step opt b s1" "outs @ [loss]"] Cons.prems(2) t show ?case by auto
qed simp

lemma eval_batches_succeeds:
  assumes "\<And>s b i. P s \<Longrightarrow> b \<in> set bs \<Longrightarrow> \<exists>s' l. hook s b i = Inr (s', l) \<and> P s'"
  shows "P st \<Longrightarrow> \<exists>st' outs'. eval_batches hook bs st outs = Inr (st', outs') \<and> P st' \<and> length outs' = length outs + length bs"
  using assms
proof (induction bs arbitrary: st outs)
  case (Cons b bs)
  obtain s1 loss where h: "hook st b (length outs) = Inr (s1, loss)" and p1: "P s1"
    using Cons.prems(2)[OF Cons.prems(1) list.set_intros(1)] by blast
  have "\<And>s b' i. P s \<Longrightarrow> b' \<in> set bs \<Longrightarrow> \<exists>s' l. hook s b' i = Inr (s', l) \<and> P s'"
    using Cons.prems(2) by simp
  from Cons.IH[OF p1 this, of "outs @ [loss]"] h show ?case by auto
qed simp

lemma eval_hook_succeeds:
  assumes "vis_frame vis" "\<forall>x l y path e w. \<exists>w'. vis x l y path e w = Inr w'" "list_all (batch_ok net) bs"
  shows "run_ready s \<Longrightarrow> b \<in> set bs \<Longrightarrow> \<exists>s' l. eval_step fname vis net s b i = Inr (s', l) \<and> run_ready s'"
proof -
  assume r: "run_ready s" and b: "b \<in> set bs"
  then have "batch_ok net b" using assms(3) by (simp add: list_all_iff)
  then obtain s' l where e: "eval_step fname vis net s b i = Inr (s', l)"
    using eval_step_succeeds[OF r _ assms(2)] by blast
  with run_ready_eval_step[OF e assms(1) r] show ?thesis by blast
qed

lemma run_epoch_succeeds:
  assumes "vis_frame vis" "\<forall>x l y path e w. \<exists>w'. vis x l y path e w = Inr w'"
    and "list_all (batch_ok net) tbs" "list_all (batch_ok net) vbs" "tbs \<noteq> []" "vbs \<noteq> []" "run_ready st"
  shows "\<exists>st' u. run_epoch opt vis net tbs vbs st = Inr (st', u) \<and> run_ready st'"
proof -
  obtain s1 outs where t: "train_batches opt net tbs st [] = Inr (s1, outs)" and r1: "run_ready s1"
    and "length outs = length tbs"
    using train_batches_succeeds[OF assms(7,3), of opt "[]"] by auto
  with assms(5) have l1: "outs \<noteq> []" by auto
  obtain avg where "tf_mean outs = Inr avg" using l1 tf_mean_Cons_Inr by (cases outs) auto
  then have te: "training_epoch_end s1 outs = Inr (s1\<lparr>logs := logs s1 @ [(''train_loss'', avg)]\<rparr>, ())"
    by (simp add: training_epoch_end_def)
  have r2: "run_ready (s1\<lparr>logs := logs s1 @ [(''train_loss'', avg)]\<rparr>)" using r1 by (simp add: run_ready_def)
  obtain s3 vouts where v: "eval_batches (validation_step vis net) vbs (s1\<lparr>logs := logs s1 @ [(''train_loss'', avg)]\<rparr>) [] = Inr (s3, vouts)"
    and r3: "run_ready s3" and "length vouts = length vbs"
  proof -
    have "\<And>s b i. run_ready s \<Longrightarrow> b \<in> set vbs \<Longrightarrow> \<exists>s' l. validation_step vis net s b i = Inr (s', l) \<and> run_ready s'"
      unfolding validation_step_def by (rule eval_hook_succeeds[OF assms(1,2,4)])
    from eval_batches_succeeds[where P = run_ready and hook = "validation_step vis net" and bs = vbs and outs = "[]", OF this r2] that show ?thesis by auto
  qed
  with assms(6) have l3: "vouts \<noteq> []" by auto
  obtain s4 a where ve: "validation_epoch_end s3 vouts = Inr (s4, a)"
    using validation_epoch_end_succeeds[OF r3 l3] by blast
  have "run_ready (s4\<lparr>current_epoch := Suc (current_epoch s4)\<rparr>)"
    using run_ready_validation_epoch_end[OF ve r3] by (simp add: run_ready_def)
  with t te v ve show ?thesis by (simp add: run_epoch_def)
qed

section \<open>Properties of the driver\<close>

text \<open>
  C13: the executable driver refines the training-loop relation of the specification:
  every run of \<open>trainer.fit\<close> and \<open>trainer.test\<close> that ends without an exception ends
  in a configuration the relation reaches from the initial state, so every invariant
  proved of \<open>fit_reachable\<close> holds of its result; and it has run exactly
  \<open>max_epochs\<close> epochs (none if the counter had reached it already).
\<close>

theorem fit_and_test_refines_fit_step:
  assumes "fit_and_test opt vis net tbs vbs tsbs max_epochs st0 = Some (Inr (st, avg))"
  shows "fit_reachable vis net st0 (Done, st, []) \<and> current_epoch st = max (current_epoch st0) (nat max_epochs)"
proof -
  from assms obtain s1 u s2 outs where fl: "fit_loop opt vis net tbs vbs max_epochs st0 = Some (Inr (s1, u))"
    and t: "eval_batches (test_step vis net) tsbs s1 [] = Inr (s2, outs)"
    and te: "test_epoch_end s2 outs = Inr (st, avg)"
    by (auto simp: fit_and_test_def obind_eq_Inr_iff)
  have "fit_reachable vis net st0 (TrainPhase, s1, [])"
    using fit_loop_reachable[OF fl, of st0] by (simp add: fit_reachable.start)
  then have "fit_reachable vis net st0 (TestPhase, s1, [])"
    using fit_reachable.step fit_step.test_start by blast
  moreover have "\<And>s b outs s' l. test_step vis net s b (length outs) = Inr (s', l) \<Longrightarrow>
      fit_step vis net (TestPhase, s, outs) (TestPhase, s', outs @ [l])"
    by (rule fit_step.test)
  ultimately have "fit_reachable vis net st0 (TestPhase, s2, outs)"
    using eval_batches_reachable[OF _ t] by blast
  moreover have "current_epoch st = current_epoch s1"
    using eval_batches_current_epoch[OF eval_hooks_current_epoch(2) t] test_epoch_end_Inr[OF te] by simp
  ultimately show ?thesis
    using fit_reachable.step[OF _ fit_step.test_end[OF te]] fit_loop_current_epoch[OF fl] by simp
qed

text \<open>
  C23: when the driver returns.  With a finite \<open>max_epochs\<close> it always returns: the
  epoch loop runs \<open>max_epochs\<close> epochs at most (each epoch advances the counter by one,
  and the batch loops are over finite lists) or stops at the first exception, and the
  test loop follows.  With \<open>max_epochs = -1\<close> it trains without end: from a set of
  states in which every epoch succeeds and that every epoch keeps, it never returns.
\<close>

theorem fit_and_test_termination:
  "(0 \<le> max_epochs \<longrightarrow> (\<exists>r. fit_and_test opt vis net tbs vbs tsbs max_epochs st = Some r))
   \<and> (max_epochs < 0 \<and> I st \<and> (\<forall>s. I s \<longrightarrow> (\<exists>s' u. run_epoch opt vis net tbs vbs s = Inr (s', u) \<and> I s'))
        \<longrightarrow> fit_and_test opt vis net tbs vbs tsbs max_epochs st = None)"
proof (intro conjI impI)
  assume "0 \<le> max_epochs"
  from fit_loop_Some[OF this, of opt vis net tbs vbs st]
  show "\<exists>r. fit_and_test opt vis net tbs vbs tsbs max_epochs st = Some r" by (auto simp: fit_and_test_def)
next
  assume h: "max_epochs < 0 \<and> I st \<and> (\<forall>s. I s \<longrightarrow> (\<exists>s' u. run_epoch opt vis net tbs vbs s = Inr (s', u) \<and> I s'))"
  have "fit_loop opt vis net tbs vbs max_epochs st = None"
    using h by (intro fit_loop_unbounded[of max_epochs I]) auto
  then show "fit_and_test opt vis net tbs vbs tsbs max_epochs st = None" by (simp add: fit_and_test_def)
qed

text \<open>
  C29: a well-configured run completes with a result: when the classifier and every
  configured sub-model exist with their checkpoint directories, the visualiser never
  raises and writes only its figure, every batch gives a non-empty prediction and a
  defined loss, and no loop of batches is empty, \<open>trainer.fit\<close> with a finite
  \<open>max_epochs\<close> followed by \<open>trainer.test\<close> returns the test loss and raises nothing.
\<close>

theorem fit_and_test_completes:
  assumes "0 \<le> max_epochs" "vis_frame vis" "\<forall>x l y path e w. \<exists>w'. vis x l y path e w = Inr w'"
    and "list_all (batch_ok net) tbs" "list_all (batch_ok net) vbs" "list_all (batch_ok net) tsbs"
    and "tbs \<noteq> []" "vbs \<noteq> []" "tsbs \<noteq> []" "run_ready st"
  shows "\<exists>st' avg. fit_and_test opt vis net tbs vbs tsbs max_epochs st = Some (Inr (st', avg))"
proof -
  obtain s1 where fl: "fit_loop opt vis net tbs vbs max_epochs st = Some (Inr (s1, ()))" and r1: "run_ready s1"
    using fit_loop_Inr[where I = run_ready, OF assms(1,10)] run_epoch_succeeds[OF assms(2,3,4,5,7,8)] by blast
  have "\<And>s b i. run_ready s \<Longrightarrow> b \<in> set tsbs \<Longrightarrow> \<exists>s' l. test_step vis net s b i = Inr (s', l) \<and> run_ready s'"
    unfolding test_step_def by (rule eval_hook_succeeds[OF assms(2,3,6)])
  from eval_batches_succeeds[where P = run_ready and hook = "test_step vis net" and bs = tsbs and outs = "[]", OF this r1]
  obtain s2 outs where t: "eval_batches (test_step vis net) tsbs s1 [] = Inr (s2, outs)" and "length outs = length tsbs"
    by auto
  with assms(9) obtain avg where "tf_mean outs = Inr avg" using tf_mean_Cons_Inr by (cases outs) auto
  with fl t show ?thesis by (simp add: fit_and_test_def test_epoch_end_def)
qed


section \<open>Witnesses\<close>

lemma demo_conditions:
  "\<forall>x l y path e w. \<exists>w'. demo_vis x l y path e w = Inr w'"
  "list_all (batch_ok demo_net) demo_batches"
  "run_ready demo_state"
  by (simp_all add: demo_vis_def batch_ok_def demo_net_def demo_loss flatten4_def run_ready_def demo_state_def
      init_state_def demo_world_def dir_exists_def dirname_def checkpoint_path_def path_join_def)

lemma demo_run_epoch:
  "run_ready s \<Longrightarrow> \<exists>s' u. run_epoch (\<lambda>p b. p) demo_vis demo_net demo_batches demo_batches s = Inr (s', u) \<and> run_ready s'"
  by (rule run_epoch_succeeds[OF demo_vis_frame demo_conditions(1,2,2)]) simp_all

lemma demo_fit_and_test:
  "\<exists>st avg. fit_and_test (\<lambda>p b. p) demo_vis demo_net demo_batches demo_batches demo_batches 1 demo_state
     = Some (Inr (st, avg))"
proof -
  obtain s1 u where r: "run_epoch (\<lambda>p b. p) demo_vis demo_net demo_batches demo_batches demo_state = Inr (s1, u)"
    and s1: "run_ready s1"
    using demo_run_epoch[OF demo_conditions(3)] by blast
  have "current_epoch s1 = 1" using run_epoch_current_epoch[OF r] by (simp add: demo_state_def init_state_def)
  with r have "fit_loop (\<lambda>p b. p) demo_vis demo_net demo_batches demo_batches 1 demo_state = Some (Inr (s1, ()))"
    by (simp add: fit_loop.simps epochs_done_def demo_state_def init_state_def)
  moreover have "modules s1 ''classifier'' = Some ()" using s1 by (simp add: run_ready_def)
  then have "eval_batches (test_step demo_vis demo_net) demo_batches s1 [] = Inr (s1, [Num 0])"
    by (simp add: test_step_def eval_step_def classify_def getattr_def demo_net_def demo_loss demo_vis_def)
  ultimately show ?thesis by (simp add: fit_and_test_def test_epoch_end_def tf_mean_def mean_def)
qed

theorem fit_and_test_refines_fit_step_witness:
  "\<exists>st avg. fit_and_test (\<lambda>p b. p) demo_vis demo_net demo_batches demo_batches demo_batches 1 demo_state
       = Some (Inr (st, avg))
     \<and> fit_reachable demo_vis demo_net demo_state (Done, st, []) \<and> current_epoch st = 1"
proof -
  obtain st avg where r: "fit_and_test (\<lambda>p b. p) demo_vis demo_net demo_batches demo_batches demo_batches 1 demo_state
       = Some (Inr (st, avg))" using demo_fit_and_test by blast
  from fit_and_test_refines_fit_step[OF r] r show ?thesis by (auto simp: demo_state_def init_state_def)
qed

theorem fit_and_test_termination_witness:
  "0 \<le> (1 :: int) \<and> (\<exists>r. fit_and_test (\<lambda>p b. p) demo_vis demo_net demo_batches demo_batches demo_batches 1 demo_state = Some r)
   \<and> (- 1 :: int) < 0 \<and> run_ready demo_state
   \<and> fit_and_test (\<lambda>p b. p) demo_vis demo_net demo_batches demo_batches demo_batches (- 1) demo_state = None"
proof -
  have a: "\<exists>r. fit_and_test (\<lambda>p b. p) demo_vis demo_net demo_batches demo_batches demo_batches 1 demo_state = Some r"
    using fit_and_test_termination[of 1 "\<lambda>p b. p" demo_vis demo_net demo_batches demo_batches demo_batches demo_state]
    by simp
  have b: "fit_and_test (\<lambda>p b. p) demo_vis demo_net demo_batches demo_batches demo_batches (- 1) demo_state = None"
    using fit_and_test_termination[of "- 1" "\<lambda>p b. p" demo_vis demo_net demo_batches demo_batches demo_batches demo_state run_ready]
      demo_run_epoch demo_conditions(3) by simp
  from a b demo_conditions(3) show ?thesis by simp
qed

theorem fit_and_test_completes_witness:
  "0 \<le> (1 :: int) \<and> vis_frame demo_vis \<and> (\<forall>x l y path e w. \<exists>w'. demo_vis x l y path e w = Inr w')
   \<and> list_all (batch_ok demo_net) demo_batches \<and> run_ready demo_state
   \<and> (\<exists>st' avg. fit_and_test (\<lambda>p b. p) demo_vis demo_net demo_batches demo_batches demo_batches 1 demo_state
         = Some (Inr (st', avg)))"
  using fit_and_test_completes[of 1 demo_vis demo_net demo_batches demo_batches demo_batches demo_state "\<lambda>p b. p",
      OF _ demo_vis_frame demo_conditions(1,2,2,2) _ _ _ demo_conditions(3)]
    demo_conditions demo_vis_frame by simp


end
