(* ===== verification/Render.thy ===== *)
theory Render
  imports Prelude
begin

text \<open>
  The drawing half of the renderer: \<open>draw_label\<close> (source lines 49--55) rounds each
  focus descriptor with \<open>torch.round\<close> and draws it with \<open>cv.circle\<close>.  OpenCV's
  rasteriser is a library the module only calls, so the canvas is a parameter of type
  \<open>'img circle_fn\<close>: any image type with a circle-drawing operation.  The
  recording canvas \<open>record_circle\<close> implements the interface by logging the calls;
  on it \<open>draw_label\<close> is computed exactly.  \<open>torch.round\<close> rounds half to even,
  which the model keeps (\<open>round_half_even\<close>) rather than HOL's \<open>round\<close>.
\<close>

type_synonym color = "int \<times> int \<times> int"

text \<open>A focus descriptor \<open>[mean_row, mean_col, r]\<close> as \<open>draw_label_img\<close> builds it.\<close>

type_synonym focus = "real \<times> real \<times> real"

text \<open>\<open>cv.circle(img, center, radius=r, color=color, thickness=1)\<close>: center is (x, y) = (column, row).\<close>

type_synonym 'img circle_fn = "'img \<Rightarrow> int \<times> int \<Rightarrow> int \<Rightarrow> color \<Rightarrow> 'img"

text \<open>\<open>torch.round\<close>: nearest integer, ties to the even neighbour.\<close>

definition round_half_even :: "real \<Rightarrow> int" where
  "round_half_even x =
     (let f = \<lfloor>x\<rfloor>; d = x - of_int f in
      if d < 1/2 then f else if 1/2 < d then f + 1 else if even f then f else f + 1)"

text \<open>\<open>t.round(label).int().tolist()\<close> on one row \<open>[x, y, r]\<close> of the foci tensor.\<close>

definition round_focus :: "focus \<Rightarrow> int \<times> int \<times> int" where
  "round_focus f = (case f of (x, y, r) \<Rightarrow> (round_half_even x, round_half_even y, round_half_even r))"

text \<open>
  \<open>draw_label\<close>: the conversion \<open>np.array(img.tolist())\<close> copies the image and is the
  identity on the abstract image; the loop draws one circle per row, centre \<open>(y, x)\<close>.
\<close>

definition draw_label :: "'img circle_fn \<Rightarrow> focus list \<Rightarrow> 'img \<Rightarrow> color \<Rightarrow> 'img" where
  "draw_label circle raw_label img color =
     fold (\<lambda>(x, y, r) im. circle im (y, x) r color) (map round_focus raw_label) img"

subsection \<open>A recording canvas\<close>

datatype circle_call = Circle "int \<times> int" int color

definition record_circle :: "('b \<times> circle_call list) circle_fn" where
  "record_circle im c r col = (fst im, snd im @ [Circle c r col])"

definition drawn_circles :: "focus list \<Rightarrow> color \<Rightarrow> circle_call list" where
  "drawn_circles fs col = map (\<lambda>(x, y, r). Circle (y, x) r col) (map round_focus fs)"

subsection \<open>Rounding\<close>

lemma round_half_even_cases:
  "round_half_even x = \<lfloor>x\<rfloor> \<or> round_half_even x = \<lfloor>x\<rfloor> + 1"
  by (auto simp: round_half_even_def Let_def)

lemma round_half_even_dist: "\<bar>x - of_int (round_half_even x)\<bar> \<le> 1/2"
proof -
  have "of_int \<lfloor>x\<rfloor> \<le> x" "x < of_int \<lfloor>x\<rfloor> + 1" by linarith+
  then show ?thesis by (auto simp: round_half_even_def Let_def)
qed

lemma round_half_even_unique:
  assumes "\<bar>x - of_int n\<bar> < 1/2"
  shows "round_half_even x = n"
proof -
  have "\<bar>x - of_int (round_half_even x)\<bar> \<le> 1/2" by (rule round_half_even_dist)
  with assms have "\<bar>of_int (round_half_even x) - of_int n\<bar> < (1::real)" by linarith
  then have "\<bar>round_half_even x - n\<bar> < 1" by linarith
  then show ?thesis by linarith
qed

lemma round_half_even_tie: "round_half_even (of_int k + 1/2) = (if even k then k else k + 1)"
proof -
  have "\<lfloor>(of_int k + 1/2 :: real)\<rfloor> = k" by linarith
  then show ?thesis by (simp add: round_half_even_def)
qed

lemma round_half_even_nonneg: "0 \<le> x \<Longrightarrow> 0 \<le> round_half_even x"
  using round_half_even_cases[of x] by linarith

lemma round_half_even_le:
  assumes "x \<le> of_int k"
  shows "round_half_even x \<le> k"
proof -
  have "x - of_int (round_half_even x) \<ge> - 1/2" using round_half_even_dist[of x] unfolding abs_le_iff by linarith
  with assms have "of_int (round_half_even x) < (of_int (k + 1) :: real)" by simp
  then show ?thesis by (simp only: of_int_less_iff)
qed

lemma round_half_even_ge:
  assumes "of_int k \<le> x"
  shows "k \<le> round_half_even x"
proof -
  have "x - of_int (round_half_even x) \<le> 1/2" using round_half_even_dist[of x] unfolding abs_le_iff by linarith
  with assms have "(of_int (k - 1) :: real) < of_int (round_half_even x)" by simp
  then show ?thesis by (simp only: of_int_less_iff)
qed

lemma round_half_even_of_int [simp]: "round_half_even (of_int k) = k"
  by (rule round_half_even_unique) simp

text \<open>
  C26: \<open>round_half_even\<close> is \<open>torch.round\<close>: it gives the integer \<open>k\<close> exactly
  when \<open>x\<close> is closer than one half to \<open>k\<close>, or exactly one half away from it and
  \<open>k\<close> is even (ties go to the even neighbour, so 0.5 and -0.5 both round to 0).
\<close>

theorem round_half_even_iff:
  "round_half_even x = k \<longleftrightarrow> \<bar>x - of_int k\<bar> < 1/2 \<or> (\<bar>x - of_int k\<bar> = 1/2 \<and> even k)"
proof
  assume r: "round_half_even x = k"
  show "\<bar>x - of_int k\<bar> < 1/2 \<or> (\<bar>x - of_int k\<bar> = 1/2 \<and> even k)"
  proof (cases "\<bar>x - of_int k\<bar> < 1/2")
    case False
    with round_half_even_dist[of x] r have d: "\<bar>x - of_int k\<bar> = 1/2" by simp
    show ?thesis
    proof (cases "x = of_int k + 1/2")
      case True
      with r round_half_even_tie[of k] have "even k" by (simp split: if_splits)
      with d show ?thesis by simp
    next
      case False
      with d have "x = of_int (k - 1) + 1/2" by (auto simp: abs_if split: if_splits)
      with r round_half_even_tie[of "k - 1"] have "even k" by (simp split: if_splits)
      with d show ?thesis by simp
    qed
  qed simp
next
  assume "\<bar>x - of_int k\<bar> < 1/2 \<or> (\<bar>x - of_int k\<bar> = 1/2 \<and> even k)"
  then show "round_half_even x = k"
  proof
    assume "\<bar>x - of_int k\<bar> < 1/2"
    then show ?thesis by (rule round_half_even_unique)
  next
    assume t: "\<bar>x - of_int k\<bar> = 1/2 \<and> even k"
    then consider "x = of_int k + 1/2" | "x = of_int (k - 1) + 1/2" by (auto simp: abs_if split: if_splits)
    then show ?thesis
    proof cases
      case 1
      with t round_half_even_tie[of k] show ?thesis by simp
    next
      case 2
      with t round_half_even_tie[of "k - 1"] show ?thesis by simp
    qed
  qed
qed

subsection \<open>Drawing\<close>

lemma fold_record_circle:
  "fold (\<lambda>(x, y, r) im. record_circle im (y, x) r col) cs (b, calls) =
     (b, calls @ map (\<lambda>(x, y, r). Circle (y, x) r col) cs)"
  by (induction cs arbitrary: calls) (auto simp: record_circle_def)

lemma draw_label_append:
  "draw_label circle (fs @ gs) img col = draw_label circle gs (draw_label circle fs img col) col"
  by (simp add: draw_label_def)

lemma draw_label_Nil [simp]: "draw_label circle [] img col = img"
  by (simp add: draw_label_def)

end
