(* ===== verification/LabelExtraction.thy ===== *)
theory LabelExtraction
  imports Render
begin

text \<open>
  Label extraction: \<open>max_distance\<close> and \<open>draw_label_img\<close> (source lines 14--46).  A
  labelled region map (the 2-D output of the watershed) is squeezed
  (\<open>label_img.squeeze(0)\<close>), its distinct values are enumerated with
  \<open>np.unique\<close>, every non-zero value is turned into the row-major list of its pixel
  coordinates by the two nested loops, and each such list into a focus descriptor
  \<open>[mean row, mean column, r]\<close>, kept when \<open>r > 0\<close>.  The tensor after
  \<open>squeeze(0)\<close> is a \<open>Vec\<close> (rank 1) when the map has one row: then
  \<open>label_img.shape[1]\<close> raises \<open>IndexError\<close>, which the model keeps.
  The section on the abstract specification states what the loops compute as sets
  (region, centroid, half bounding-box diagonal) and proves the list code refines it.
\<close>

section \<open>Definitions\<close>

datatype 'a tensor = Vec "'a list" | Mat "'a grid"

text \<open>\<open>label_img.squeeze(0)\<close> on a rank-2 tensor drops the first axis when it has size 1.\<close>

definition squeeze0 :: "'a grid \<Rightarrow> 'a tensor" where
  "squeeze0 g = (if length g = 1 then Vec (hd g) else Mat g)"

primrec shape :: "'a tensor \<Rightarrow> nat list" where
  "shape (Vec xs) = [length xs]"
| "shape (Mat g) = [length g, grid_width g]"

text \<open>The elements in row-major order, as \<open>np.unique\<close> flattens its argument.\<close>

primrec tensor_values :: "'a tensor \<Rightarrow> 'a list" where
  "tensor_values (Vec xs) = xs"
| "tensor_values (Mat g) = concat g"

text \<open>\<open>label_img[i, j]\<close>; on a \<open>Vec\<close> it is never reached, since \<open>shape[1]\<close> raises first.\<close>

primrec tensor_elem :: "'a tensor \<Rightarrow> nat \<Rightarrow> nat \<Rightarrow> 'a" where
  "tensor_elem (Vec xs) i j = xs ! j"
| "tensor_elem (Mat g) i j = g ! i ! j"

text \<open>\<open>np.unique\<close>: the sorted distinct values.\<close>

definition np_unique :: "int list \<Rightarrow> int list" where
  "np_unique xs = sort (remdups xs)"

text \<open>Running the row loop: each row's result in turn, the first exception ends the loop.\<close>

fun concat_res :: "'a list res list \<Rightarrow> 'a list res" where
  "concat_res [] = Inr []"
| "concat_res (r # rs) = err_bind r (\<lambda>a. err_bind (concat_res rs) (\<lambda>b. Inr (a @ b)))"

text \<open>
  The two nested loops for one value:
  \<open>for i in range(label_img.shape[0]): for j in range(label_img.shape[1]): if
  label_img[i, j] == value: value_labels.append([i, j, 1])\<close>.  The constant third
  coordinate \<open>1\<close> only reserves the slot that \<open>r\<close> later overwrites; it is left out.
\<close>

definition scan_value :: "int tensor \<Rightarrow> int \<Rightarrow> coord list res" where
  "scan_value t v =
     err_bind (py_get (shape t) 0) (\<lambda>h.
       concat_res (map (\<lambda>i. err_bind (py_get (shape t) 1) (\<lambda>w.
         Inr [(i, j). j \<leftarrow> [0..<w], tensor_elem t i j = v])) [0..<h]))"

text \<open>The loop \<open>for value in values\<close>, skipping \<open>0\<close>, one coordinate list per value.\<close>

fun collect_labels :: "int tensor \<Rightarrow> int list \<Rightarrow> coord list list res" where
  "collect_labels t [] = Inr []"
| "collect_labels t (v # vs) =
     (if v = 0 then collect_labels t vs
      else err_bind (scan_value t v) (\<lambda>ps. err_bind (collect_labels t vs) (\<lambda>ls. Inr (ps # ls))))"

text \<open>\<open>max_distance\<close>: the diagonal of the bounding box of the coordinates.\<close>

definition max_distance :: "coord list \<Rightarrow> real" where
  "max_distance ps =
     (let xs = map (\<lambda>p. real (fst p)) ps; ys = map (\<lambda>p. real (snd p)) ps in
      sqrt ((Max (set xs) - Min (set xs))\<^sup>2 + (Max (set ys) - Min (set ys))\<^sup>2))"

text \<open>One iteration of \<open>for label in labels\<close>: the means of the rows, then \<open>r\<close>.\<close>

definition label_focus :: "coord list \<Rightarrow> focus option" where
  "label_focus ps =
     (let r = max_distance ps / 2 in
      if 0 < r then Some (mean (map (\<lambda>p. real (fst p)) ps), mean (map (\<lambda>p. real (snd p)) ps), r)
      else None)"

primrec extract_foci :: "coord list list \<Rightarrow> focus list" where
  "extract_foci [] = []"
| "extract_foci (ps # pss) =
     (case label_focus ps of None \<Rightarrow> extract_foci pss | Some f \<Rightarrow> f # extract_foci pss)"

text \<open>Everything of \<open>draw_label_img\<close> before the drawing: the foci of a region map.\<close>

definition label_foci :: "int grid \<Rightarrow> focus list res" where
  "label_foci label_img =
     (let t = squeeze0 label_img in
      err_bind (collect_labels t (np_unique (tensor_values t))) (\<lambda>labels.
        Inr (extract_foci labels)))"

definition draw_label_img :: "'img circle_fn \<Rightarrow> int grid \<Rightarrow> 'img \<Rightarrow> color \<Rightarrow> 'img res" where
  "draw_label_img circle label_img img color =
     err_bind (label_foci label_img) (\<lambda>foci.
       if 0 < length foci then Inr (draw_label circle foci img color) else Inr img)"

section \<open>Abstract specification\<close>

text \<open>
  What the code promises of a region map \<open>g\<close> with at least two rows: for each
  non-zero value \<open>v\<close> present, in ascending order, the region \<open>region g v\<close> of its
  pixels, and, when the region has two pixels or more, the focus made of its centroid and
  half the diagonal of its bounding box.
\<close>

definition region :: "int grid \<Rightarrow> int \<Rightarrow> coord set" where
  "region g v = {(i, j). i < length g \<and> j < grid_width g \<and> g ! i ! j = v}"

definition centroid :: "coord set \<Rightarrow> real \<times> real" where
  "centroid R = ((\<Sum>p\<in>R. real (fst p)) / real (card R), (\<Sum>p\<in>R. real (snd p)) / real (card R))"

definition half_diagonal :: "coord set \<Rightarrow> real" where
  "half_diagonal R =
     sqrt ((real (Max (fst ` R)) - real (Min (fst ` R)))\<^sup>2
         + (real (Max (snd ` R)) - real (Min (snd ` R)))\<^sup>2) / 2"

definition region_focus :: "coord set \<Rightarrow> focus" where
  "region_focus R = (fst (centroid R), snd (centroid R), half_diagonal R)"

definition spec_foci :: "int grid \<Rightarrow> focus list" where
  "spec_foci g =
     [region_focus (region g v). v \<leftarrow> sorted_list_of_set (set (concat g)), v \<noteq> 0, 2 \<le> card (region g v)]"

text \<open>The pixel list the nested loops build for one value of a 2-D map, row-major.\<close>

definition region_pixels :: "int grid \<Rightarrow> int \<Rightarrow> coord list" where
  "region_pixels g v = filter (\<lambda>(i, j). g ! i ! j = v) (List.product [0..<length g] [0..<grid_width g])"

section \<open>The loops\<close>

lemma concat_res_map_Inr [simp]: "concat_res (map (\<lambda>x. Inr (f x)) xs) = Inr (concat (map f xs))"
  by (induction xs) simp_all

lemma comprehension_product:
  "concat (map (\<lambda>i. concat (map (\<lambda>j. if P i j then [(i, j)] else []) ys)) xs) =
   filter (\<lambda>(i, j). P i j) (List.product xs ys)"
proof (induction xs)
  case Nil
  then show ?case by simp
next
  case (Cons x xs)
  have "concat (map (\<lambda>j. if P x j then [(x, j)] else []) ys) = filter (\<lambda>(i, j). P i j) (map (Pair x) ys)"
    by (induction ys) simp_all
  with Cons show ?case by simp
qed

lemma scan_value_Mat [model_simps]: "scan_value (Mat g) v = Inr (region_pixels g v)"
  by (simp add: scan_value_def region_pixels_def py_get_def comprehension_product)

lemma scan_value_Vec [model_simps]: "scan_value (Vec xs) v = (if xs = [] then Inr [] else Inl IndexError)"
proof (cases xs)
  case Nil
  then show ?thesis by (simp add: scan_value_def)
next
  case (Cons x xs')
  then have "[0..<length xs] = 0 # [1..<length xs]" by (simp add: upt_rec)
  with Cons show ?thesis by (simp add: scan_value_def py_get_def)
qed

lemma collect_labels_Mat [model_simps]:
  "collect_labels (Mat g) vs = Inr (map (region_pixels g) (filter (\<lambda>v. v \<noteq> 0) vs))"
  by (induction vs) (simp_all add: scan_value_Mat)

lemma collect_labels_Vec [model_simps]:
  "collect_labels (Vec xs) vs =
     (if list_ex (\<lambda>v. v \<noteq> 0) vs \<and> xs \<noteq> [] then Inl IndexError
      else Inr (map (\<lambda>_. []) (filter (\<lambda>v. v \<noteq> 0) vs)))"
  by (induction vs) (auto simp: scan_value_Vec)

lemma squeeze0_Mat [model_simps]: "length g \<noteq> 1 \<Longrightarrow> squeeze0 g = Mat g"
  by (simp add: squeeze0_def)

lemma squeeze0_Vec [model_simps]: "length g = 1 \<Longrightarrow> squeeze0 g = Vec (hd g)"
  by (simp add: squeeze0_def)

lemma set_region_pixels: "rectangular g \<Longrightarrow> set (region_pixels g v) = region g v"
  by (auto simp: region_pixels_def region_def rectangular_nth_length)

lemma distinct_region_pixels: "distinct (region_pixels g v)"
  by (simp add: region_pixels_def distinct_product)

lemma region_pixels_in_range:
  "(i, j) \<in> set (region_pixels g v) \<Longrightarrow> i < length g \<and> j < grid_width g"
  by (simp add: region_pixels_def)

lemma region_nonempty:
  assumes "rectangular g" "v \<in> set (concat g)"
  shows "region g v \<noteq> {}"
proof -
  from assms(2) obtain i j where "i < length g" "j < length (g ! i)" "g ! i ! j = v"
    by (auto simp: in_set_conv_nth)
  with assms(1) have "(i, j) \<in> region g v" by (simp add: region_def rectangular_nth_length)
  then show ?thesis by blast
qed

lemma region_pixels_nonempty:
  assumes "rectangular g" "v \<in> set (concat g)"
  shows "region_pixels g v \<noteq> []"
proof -
  have "set (region_pixels g v) \<noteq> {}"
    using region_nonempty[OF assms] set_region_pixels[OF assms(1)] by simp
  then show ?thesis by simp
qed

section \<open>One focus\<close>

lemma max_distance_pos_iff:
  assumes "ps \<noteq> []"
  shows "0 < max_distance ps \<longleftrightarrow> (\<exists>p\<in>set ps. \<exists>q\<in>set ps. p \<noteq> q)"
proof -
  let ?xs = "map (\<lambda>p. real (fst p)) ps" and ?ys = "map (\<lambda>p. real (snd p)) ps"
  have xs: "Max (set ?xs) - Min (set ?xs) = 0 \<longleftrightarrow> (\<forall>p\<in>set ps. \<forall>q\<in>set ps. fst p = fst q)"
    using Max_minus_Min_eq_0_iff[of ?xs] assms by simp
  have ys: "Max (set ?ys) - Min (set ?ys) = 0 \<longleftrightarrow> (\<forall>p\<in>set ps. \<forall>q\<in>set ps. snd p = snd q)"
    using Max_minus_Min_eq_0_iff[of ?ys] assms by simp
  have "0 < max_distance ps \<longleftrightarrow>
      Max (set ?xs) - Min (set ?xs) \<noteq> 0 \<or> Max (set ?ys) - Min (set ?ys) \<noteq> 0"
    unfolding max_distance_def Let_def by (simp only: real_sqrt_gt_0_iff sum_power2_gt_zero_iff)
  also have "\<dots> \<longleftrightarrow> (\<exists>p\<in>set ps. \<exists>q\<in>set ps. p \<noteq> q)"
    unfolding xs ys by (auto simp: prod_eq_iff)
  finally show ?thesis .
qed

lemma label_focus_eq_None_iff:
  assumes "distinct ps" "ps \<noteq> []"
  shows "label_focus ps = None \<longleftrightarrow> length ps < 2"
proof -
  have "0 < max_distance ps / 2 \<longleftrightarrow> 2 \<le> length ps"
    using max_distance_pos_iff[OF assms(2)] two_distinct_iff_length[OF assms(1)] by simp
  then show ?thesis by (auto simp: label_focus_def Let_def)
qed

lemma max_distance_set:
  assumes "ps \<noteq> []"
  shows "max_distance ps / 2 = half_diagonal (set ps)"
proof -
  have fin: "finite (fst ` set ps)" "finite (snd ` set ps)" by simp_all
  have ne: "fst ` set ps \<noteq> {}" "snd ` set ps \<noteq> {}" using assms by simp_all
  have "Max (set (map (\<lambda>p. real (fst p)) ps)) = real (Max (fst ` set ps))"
    using mono_Max_commute[OF mono_real_of_nat fin(1) ne(1)] by (simp add: image_image)
  moreover have "Min (set (map (\<lambda>p. real (fst p)) ps)) = real (Min (fst ` set ps))"
    using mono_Min_commute[OF mono_real_of_nat fin(1) ne(1)] by (simp add: image_image)
  moreover have "Max (set (map (\<lambda>p. real (snd p)) ps)) = real (Max (snd ` set ps))"
    using mono_Max_commute[OF mono_real_of_nat fin(2) ne(2)] by (simp add: image_image)
  moreover have "Min (set (map (\<lambda>p. real (snd p)) ps)) = real (Min (snd ` set ps))"
    using mono_Min_commute[OF mono_real_of_nat fin(2) ne(2)] by (simp add: image_image)
  ultimately show ?thesis
    by (simp add: max_distance_def half_diagonal_def Let_def del: set_map)
qed

lemma label_focus_distinct:
  assumes "distinct ps" "ps \<noteq> []"
  shows "label_focus ps = (if 2 \<le> card (set ps) then Some (region_focus (set ps)) else None)"
proof (cases "2 \<le> card (set ps)")
  case True
  with assms have "label_focus ps \<noteq> None" by (simp add: label_focus_eq_None_iff distinct_card)
  then have "0 < max_distance ps / 2" by (auto simp: label_focus_def Let_def split: if_splits)
  with True assms show ?thesis
    by (simp add: label_focus_def Let_def region_focus_def centroid_def mean_distinct max_distance_set)
next
  case False
  with assms show ?thesis by (simp add: label_focus_eq_None_iff distinct_card)
qed

lemma label_focus_region_pixels:
  assumes "rectangular g" "v \<in> set (concat g)"
  shows "label_focus (region_pixels g v) =
           (if 2 \<le> card (region g v) then Some (region_focus (region g v)) else None)"
  using label_focus_distinct[OF distinct_region_pixels region_pixels_nonempty[OF assms]]
    set_region_pixels[OF assms(1)] by simp

section \<open>Refinement of the specification\<close>

lemma extract_foci_regions:
  assumes "rectangular g" "set vs \<subseteq> set (concat g)"
  shows "extract_foci (map (region_pixels g) (filter (\<lambda>v. v \<noteq> 0) vs)) =
           [region_focus (region g v). v \<leftarrow> vs, v \<noteq> 0, 2 \<le> card (region g v)]"
  using assms(2)
proof (induction vs)
  case Nil
  then show ?case by simp
next
  case (Cons v vs)
  then show ?case
    by (simp add: label_focus_region_pixels[OF assms(1)])
qed

lemma np_unique_sorted_list_of_set: "np_unique xs = sorted_list_of_set (set xs)"
  unfolding np_unique_def by (rule sorted_list_of_set_sort_remdups[symmetric])

lemma label_foci_Mat:
  "length g \<noteq> 1 \<Longrightarrow>
     label_foci g = Inr (extract_foci (map (region_pixels g) (filter (\<lambda>v. v \<noteq> 0) (np_unique (concat g)))))"
  by (simp add: label_foci_def squeeze0_Mat collect_labels_Mat)

lemma extract_foci_spec:
  "rectangular g \<Longrightarrow>
     extract_foci (map (region_pixels g) (filter (\<lambda>v. v \<noteq> 0) (np_unique (concat g)))) = spec_foci g"
  by (simp add: extract_foci_regions spec_foci_def np_unique_sorted_list_of_set)

text \<open>
  C1: on a rectangular region map with a number of rows other than one, the list code
  of \<open>draw_label_img\<close> computes exactly the abstract foci: for each non-zero value in
  ascending order whose region has two pixels or more, the region's centroid and half
  its bounding-box diagonal.
\<close>

theorem label_foci_refines_spec:
  assumes "rectangular g" "length g \<noteq> 1"
  shows "label_foci g = Inr (spec_foci g)"
  using assms by (simp add: label_foci_Mat extract_foci_spec)


theorem label_foci_refines_spec_witness:
  "rectangular [[7, 0, 7], [0, 0, 0 :: int]] \<and> length [[7, 0, 7], [0, 0, 0 :: int]] \<noteq> 1
   \<and> label_foci [[7, 0, 7], [0, 0, 0]] = Inr (spec_foci [[7, 0, 7], [0, 0, 0]])"
proof -
  have "rectangular [[7, 0, 7], [0, 0, 0 :: int]]" by (simp add: rectangular_def grid_width_def)
  then show ?thesis using label_foci_refines_spec[of "[[7, 0, 7], [0, 0, 0]]"] by simp
qed

section \<open>The specification's examples\<close>

lemma spec_foci_filter:
  "spec_foci g = map (\<lambda>v. region_focus (region g v))
     (filter (\<lambda>v. 2 \<le> card (region g v)) (sorted_list_of_set (set (concat g) - {0})))"
proof -
  have "filter (\<lambda>v. v \<noteq> 0) (sorted_list_of_set (set (concat g))) = sorted_list_of_set (set (concat g) - {0})"
    by (simp add: filter_sorted_list_of_set set_diff_eq)
  then show ?thesis
    by (simp only: spec_foci_def concat_map_if_if_singleton)
qed

lemma region_value_in_map:
  assumes "rectangular g" "(i, j) \<in> region g v"
  shows "v \<in> set (concat g)"
proof -
  from assms(2) have "i < length g" "j < grid_width g" "g ! i ! j = v" by (simp_all add: region_def)
  with assms(1) have "j < length (g ! i)" by (simp add: rectangular_nth_length)
  with \<open>i < length g\<close> \<open>g ! i ! j = v\<close> show ?thesis
    by (auto simp: in_set_conv_nth intro!: bexI[of _ "g ! i"])
qed

lemma region_focus_two_pixels: "region_focus {(0, 0), (0, 2)} = (0, 1, 1)"
  by (simp add: region_focus_def centroid_def half_diagonal_def)

section \<open>Invariants of the extracted foci\<close>

lemma extract_foci_source:
  "f \<in> set (extract_foci pss) \<Longrightarrow> \<exists>ps\<in>set pss. label_focus ps = Some f"
  by (induction pss) (auto split: option.splits)

lemma label_focus_radius: "label_focus ps = Some (x, y, r) \<Longrightarrow> 0 < r"
  by (auto simp: label_focus_def Let_def split: if_splits)

lemma label_focus_bounds:
  assumes "ps \<noteq> []" "\<forall>p\<in>set ps. fst p < h \<and> snd p < w" "label_focus ps = Some (x, y, r)"
  shows "0 \<le> x \<and> x \<le> real h - 1 \<and> 0 \<le> y \<and> y \<le> real w - 1"
proof -
  let ?xs = "map (\<lambda>p. real (fst p)) ps" and ?ys = "map (\<lambda>p. real (snd p)) ps"
  from assms(3) have x: "x = mean ?xs" and y: "y = mean ?ys"
    by (auto simp: label_focus_def Let_def split: if_splits)
  have ne: "?xs \<noteq> []" "?ys \<noteq> []" using assms(1) by simp_all
  have mx: "Max (set ?xs) \<le> real h - 1" "Max (set ?ys) \<le> real w - 1"
    using assms(1,2) by (auto simp: Max_le_iff of_nat_diff[symmetric] less_Suc_eq_le simp del: of_nat_diff)
  have mn: "0 \<le> Min (set ?xs)" "0 \<le> Min (set ?ys)"
    using assms(1) by (simp_all add: Min_ge_iff)
  have "Min (set ?xs) \<le> mean ?xs" "mean ?xs \<le> Max (set ?xs)"
    using ne(1) by (rule mean_ge_Min, rule mean_le_Max)
  moreover have "Min (set ?ys) \<le> mean ?ys" "mean ?ys \<le> Max (set ?ys)"
    using ne(2) by (rule mean_ge_Min, rule mean_le_Max)
  ultimately show ?thesis
    using mx mn x y by linarith
qed

lemma label_foci_one_row:
  assumes "length g = 1"
  shows "label_foci g = (if list_ex (\<lambda>v. v \<noteq> 0) (concat g) then Inl IndexError else Inr [])"
proof -
  from assms obtain r where g: "g = [r]" by (cases g) auto
  have "set (np_unique r) = set r" by (simp add: np_unique_def)
  then show ?thesis
    by (auto simp: g label_foci_def squeeze0_def collect_labels_Vec list_ex_iff filter_empty_conv)
qed

text \<open>Every successful extraction from a rectangular map, one-row maps included, gives the
  abstract foci: a one-row map succeeds only when it has no non-zero value.\<close>

lemma label_foci_Inr_spec:
  assumes "rectangular g" "label_foci g = Inr fs"
  shows "fs = spec_foci g"
proof (cases "length g = 1")
  case True
  with assms(2) have "fs = []" "\<not> list_ex (\<lambda>v. v \<noteq> 0) (concat g)"
    by (simp_all add: label_foci_one_row split: if_splits)
  then show ?thesis by (auto simp: spec_foci_def list_ex_iff filter_empty_conv concat_map_if_if_singleton)
next
  case False
  with assms show ?thesis by (simp add: label_foci_Mat extract_foci_spec)
qed



text \<open>
  C4 (the specification's third property): a map without non-zero values yields the
  empty sequence; this holds for every map, one-row maps included, since the pixel loops
  never run.
\<close>

theorem label_foci_no_nonzero_labels:
  assumes "set (concat g) \<subseteq> {0}"
  shows "label_foci g = Inr []"
proof (cases "length g = 1")
  case True
  with assms show ?thesis by (auto simp: label_foci_one_row list_ex_iff)
next
  case False
  have "filter (\<lambda>v. v \<noteq> 0) (np_unique (concat g)) = []"
    using assms by (auto simp: np_unique_def filter_empty_conv)
  with False show ?thesis by (simp add: label_foci_def squeeze0_Mat collect_labels_Mat)
qed

text \<open>
  C3 (the specification's second property, as the code computes it): on a rectangular
  map in which every non-zero label covers a single pixel, label extraction returns the
  empty sequence (radius 0 is excluded), except on a one-row map with a non-zero value,
  where it raises \<open>IndexError\<close> (the first finding).
\<close>

theorem label_foci_single_pixel_regions:
  assumes "rectangular g"
    and "\<forall>v\<in>set (concat g). v \<noteq> 0 \<longrightarrow> card (region g v) \<le> 1"
  shows "label_foci g = (if length g = 1 \<and> list_ex (\<lambda>v. v \<noteq> 0) (concat g) then Inl IndexError else Inr [])"
proof (cases "length g = 1")
  case True
  then show ?thesis by (simp add: label_foci_one_row)
next
  case False
  have "filter (\<lambda>v. 2 \<le> card (region g v)) (sorted_list_of_set (set (concat g) - {0})) = []"
    using assms(2) by (fastforce simp: filter_empty_conv)
  with assms(1) False show ?thesis by (simp add: label_foci_Mat extract_foci_spec spec_foci_filter)
qed

theorem label_foci_no_nonzero_labels_witness:
  "set (concat [[0, 0], [0, 0 :: int]]) \<subseteq> {0} \<and> label_foci [[0, 0], [0, 0]] = Inr []"
  using label_foci_no_nonzero_labels[of "[[0, 0], [0, 0]]"] by simp

theorem label_foci_single_pixel_regions_witness:
  "rectangular [[0, 5], [0, 0 :: int]] \<and> set (concat [[0, 5], [0, 0 :: int]]) = {0, 5}
   \<and> card (region [[0, 5], [0, 0]] 5) \<le> 1 \<and> label_foci [[0, 5], [0, 0]] = Inr []
   \<and> rectangular [[0, 5 :: int]] \<and> set (concat [[0, 5 :: int]]) = {0, 5}
   \<and> card (region [[0, 5]] 5) \<le> 1 \<and> label_foci [[0, 5]] = Inl IndexError"
proof -
  have r: "region [[0, 5], [0, 0 :: int]] 5 = {(0, 1)}" "region [[0, 5 :: int]] 5 = {(0, 1)}"
    by (auto simp: region_def grid_width_def less_Suc_eq nth_Cons')
  have "rectangular [[0, 5], [0, 0 :: int]]" "rectangular [[0, 5 :: int]]"
    by (simp_all add: rectangular_def grid_width_def)
  with r show ?thesis
    using label_foci_single_pixel_regions[of "[[0, 5], [0, 0]]"] label_foci_single_pixel_regions[of "[[0, 5]]"]
    by (simp add: insert_commute)
qed

text \<open>
  C2 (the specification's first testable property, as the code computes it): on a
  rectangular map whose only non-zero region is the two pixels (0,0) and (0,2) of one
  label, label extraction yields the single focus with centre (0,1) and radius 1 when the
  map has at least two rows; on a one-row map such as \<open>[[v, 0, v]]\<close> it raises
  \<open>IndexError\<close> instead (the first finding: \<open>squeeze(0)\<close> leaves a 1-D tensor).
\<close>

theorem label_foci_two_pixel_region:
  assumes "rectangular g" "v \<noteq> 0"
    and "region g v = {(0, 0), (0, 2)}" and "set (concat g) \<subseteq> {0, v}"
  shows "label_foci g = (if length g = 1 then Inl IndexError else Inr [(0, 1, 1)])"
proof (cases "length g = 1")
  case True
  have "v \<in> set (concat g)"
    using region_value_in_map[OF assms(1), of 0 0 v] assms(3) by simp
  with True assms(2) show ?thesis by (auto simp: label_foci_one_row list_ex_iff)
next
  case False
  have "v \<in> set (concat g)"
    using region_value_in_map[OF assms(1), of 0 0 v] assms(3) by simp
  with assms(2,4) have "set (concat g) - {0} = {v}" by auto
  moreover have "card (region g v) = 2" using assms(3) by simp
  ultimately have "spec_foci g = [(0, 1, 1)]"
    using assms(3) by (simp add: spec_foci_filter region_focus_two_pixels)
  with assms(1) False show ?thesis by (simp add: label_foci_Mat extract_foci_spec)
qed

theorem label_foci_two_pixel_region_witness:
  "rectangular [[7, 0, 7], [0, 0, 0 :: int]] \<and> (7::int) \<noteq> 0
   \<and> region [[7, 0, 7], [0, 0, 0]] 7 = {(0, 0), (0, 2)} \<and> set (concat [[7, 0, 7], [0, 0, 0]]) \<subseteq> {0, 7::int}
   \<and> label_foci [[7, 0, 7], [0, 0, 0]] = Inr [(0, 1, 1)]
   \<and> rectangular [[7, 0, 7 :: int]] \<and> region [[7, 0, 7]] 7 = {(0, 0), (0, 2)} \<and> set (concat [[7, 0, 7]]) \<subseteq> {0, 7::int}
   \<and> label_foci [[7, 0, 7]] = Inl IndexError"
proof -
  have r: "region [[7, 0, 7], [0, 0, 0]] 7 = {(0, 0), (0, 2)}" "region [[7, 0, 7]] 7 = {(0, 0), (0, 2)}"
    by (auto simp: region_def grid_width_def less_Suc_eq nth_Cons')
  have "rectangular [[7, 0, 7], [0, 0, 0 :: int]]" "rectangular [[7, 0, 7 :: int]]"
    by (simp_all add: rectangular_def grid_width_def)
  with r show ?thesis
    using label_foci_two_pixel_region[of "[[7, 0, 7], [0, 0, 0]]" 7] label_foci_two_pixel_region[of "[[7, 0, 7]]" 7]
    by simp
qed

text \<open>
  C8: negative labels are extracted like positive ones (the loop skips only the value
  0): on a rectangular map of other than one row, every region with a negative label and
  at least two pixels gives its focus, although the specification asks for positive
  labels only.
\<close>

lemma region_card_value_in_map:
  assumes "rectangular g" "2 \<le> card (region g v)"
  shows "v \<in> set (concat g)"
proof -
  from assms(2) have "region g v \<noteq> {}" by auto
  then obtain i j where "(i, j) \<in> region g v" by auto
  with assms(1) show ?thesis by (rule region_value_in_map)
qed

theorem label_foci_negative_label:
  assumes "rectangular g" "length g \<noteq> 1" "v < 0" "2 \<le> card (region g v)"
  shows "\<exists>fs. label_foci g = Inr fs \<and> region_focus (region g v) \<in> set fs"
proof -
  have "v \<in> set (concat g)" by (rule region_card_value_in_map[OF assms(1,4)])
  with assms(3,4) have "region_focus (region g v) \<in> set (spec_foci g)"
    by (auto simp: spec_foci_def)
  with assms(1,2) show ?thesis by (simp add: label_foci_Mat extract_foci_spec)
qed

lemma label_foci_minus_three: "label_foci [[-3, -3], [0, 0]] = Inr [(0, 1/2, 1/2)]"
  by (simp add: model_simps label_foci_def squeeze0_def np_unique_def region_pixels_def
      grid_width_def label_focus_def max_distance_def mean_def Let_def)

theorem label_foci_negative_label_witness:
  "rectangular [[-3, -3], [0, 0 :: int]] \<and> length [[-3, -3], [0, 0 :: int]] \<noteq> 1 \<and> (-3 :: int) < 0
   \<and> 2 \<le> card (region [[-3, -3], [0, 0]] (-3))
   \<and> region_focus (region [[-3, -3], [0, 0]] (-3)) \<in> set [(0, 1/2, 1/2)]"
proof -
  have rect: "rectangular [[-3, -3], [0, 0 :: int]]" by (simp add: rectangular_def grid_width_def)
  have reg: "region [[-3, -3], [0, 0]] (-3) = {(0, 0), (0, 1)}"
    by (auto simp: region_def grid_width_def less_Suc_eq nth_Cons')
  then have c: "2 \<le> card (region [[-3, -3], [0, 0 :: int]] (-3))" by simp
  from label_foci_negative_label[OF rect _ _ c] label_foci_minus_three
  have "region_focus (region [[-3, -3], [0, 0]] (-3)) \<in> set [(0, 1/2, 1/2)]" by auto
  with rect c show ?thesis by simp
qed

lemma half_diagonal_adjacent:
  "half_diagonal {(i, j), (i, Suc j)} = 1/2" "half_diagonal {(i, j), (Suc i, j)} = 1/2"
  by (simp_all add: half_diagonal_def)

lemma draw_label_img_record_circle_spec:
  assumes "rectangular g" "length g \<noteq> 1"
  shows "draw_label_img record_circle g (b, calls) col = Inr (b, calls @ drawn_circles (spec_foci g) col)"
  using assms by (simp add: draw_label_img_def label_foci_Mat extract_foci_spec draw_label_def
      drawn_circles_def fold_record_circle)

text \<open>
  C9: the \<open>r > 0\<close> filter runs before rounding.  Every region of two adjacent pixels
  (side by side in a row or one above the other) passes it with radius 1/2, and
  \<open>torch.round\<close> rounds 1/2 to 0 (half to even): \<open>draw_label_img\<close> asks
  \<open>cv.circle\<close> for a circle of radius 0 for it, on every rectangular map of other than
  one row.
\<close>

theorem draw_label_img_adjacent_pixels_radius_zero:
  assumes "rectangular g" "length g \<noteq> 1" "v \<noteq> 0"
    and "region g v = {(i, j), (i, Suc j)} \<or> region g v = {(i, j), (Suc i, j)}"
  shows "\<exists>calls. draw_label_img record_circle g (b, []) col = Inr (b, calls)
           \<and> snd (snd (region_focus (region g v))) = 1/2 \<and> (\<exists>c. Circle c 0 col \<in> set calls)"
proof -
  have c: "card (region g v) = 2" using assms(4) by auto
  then have "v \<in> set (concat g)" by (intro region_card_value_in_map[OF assms(1)]) simp
  with assms(3) c have f: "region_focus (region g v) \<in> set (spec_foci g)" by (auto simp: spec_foci_def)
  have r: "snd (snd (region_focus (region g v))) = 1/2"
    using assms(4) half_diagonal_adjacent by (auto simp: region_focus_def)
  obtain x y where xy: "region_focus (region g v) = (x, y, 1/2)"
    using r by (cases "region_focus (region g v)") auto
  have "round_half_even (1/2) = 0" by (simp add: round_half_even_def)
  then have "Circle (round_half_even y, round_half_even x) 0 col \<in> set (drawn_circles (spec_foci g) col)"
    using f xy by (force simp: drawn_circles_def round_focus_def image_iff)
  then have "\<exists>c. Circle c 0 col \<in> set (drawn_circles (spec_foci g) col)" by blast
  moreover have "draw_label_img record_circle g (b, []) col = Inr (b, drawn_circles (spec_foci g) col)"
    using draw_label_img_record_circle_spec[OF assms(1,2), of b "[]" col] by simp
  ultimately show ?thesis using r by blast
qed

theorem draw_label_img_adjacent_pixels_radius_zero_witness:
  "rectangular [[4, 4], [0, 0 :: int]] \<and> length [[4, 4], [0, 0 :: int]] \<noteq> 1 \<and> (4 :: int) \<noteq> 0
   \<and> region [[4, 4], [0, 0]] 4 = {(0, 0), (0, Suc 0)}
   \<and> (\<exists>calls. draw_label_img record_circle [[4, 4], [0, 0]] ((), []) (1, 0, 1) = Inr ((), calls)
       \<and> snd (snd (region_focus (region [[4, 4], [0, 0]] 4))) = 1/2 \<and> (\<exists>c. Circle c 0 (1, 0, 1) \<in> set calls))"
proof -
  have r: "region [[4, 4], [0, 0 :: int]] 4 = {(0, 0), (0, Suc 0)}"
    by (auto simp: region_def grid_width_def less_Suc_eq nth_Cons')
  have "rectangular [[4, 4], [0, 0 :: int]]" by (simp add: rectangular_def grid_width_def)
  with r draw_label_img_adjacent_pixels_radius_zero[of "[[4, 4], [0, 0]]" 4 0 0 "()" "(1, 0, 1)"] show ?thesis by simp
qed

lemma label_foci_Inr_extract:
  "label_foci g = Inr fs \<Longrightarrow> \<exists>labels. collect_labels (squeeze0 g) (np_unique (tensor_values (squeeze0 g))) = Inr labels \<and> fs = extract_foci labels"
  by (auto simp: label_foci_def Let_def err_bind_eq_Inr_iff)

lemma label_foci_example: "label_foci [[7, 0, 7], [0, 0, 0]] = Inr [(0, 1, 1)]"
  by (simp add: model_simps label_foci_def squeeze0_def np_unique_def region_pixels_def
      grid_width_def label_focus_def max_distance_def mean_def Let_def)

text \<open>
  C5: every focus that label extraction returns has a strictly positive radius, for every
  input map.
\<close>

theorem label_foci_radius_pos:
  assumes "label_foci g = Inr fs" "(x, y, r) \<in> set fs"
  shows "0 < r"
proof -
  from label_foci_Inr_extract[OF assms(1)] obtain labels where "fs = extract_foci labels" by blast
  with assms(2) obtain ps where "label_focus ps = Some (x, y, r)" by (auto dest: extract_foci_source)
  then show ?thesis by (rule label_focus_radius)
qed

theorem label_foci_radius_pos_witness:
  "label_foci [[7, 0, 7], [0, 0, 0]] = Inr [(0, 1, 1)] \<and> (0, 1, 1) \<in> set [(0::real, 1::real, 1::real)] \<and> (0::real) < 1"
  using label_foci_radius_pos[OF label_foci_example, of 0 1 1] label_foci_example by simp

lemma label_foci_focus_bounds:
  assumes "rectangular g" "label_foci g = Inr fs" "(x, y, r) \<in> set fs"
  shows "0 \<le> x \<and> x \<le> real (length g) - 1 \<and> 0 \<le> y \<and> y \<le> real (grid_width g) - 1"
proof (cases "length g = 1")
  case True
  with assms(2,3) show ?thesis by (simp add: label_foci_one_row split: if_splits)
next
  case False
  then have "fs = extract_foci (map (region_pixels g) (filter (\<lambda>v. v \<noteq> 0) (np_unique (concat g))))"
    using assms(2) by (simp add: label_foci_def squeeze0_Mat collect_labels_Mat)
  with assms(3) obtain v where v: "v \<in> set (concat g)" and f: "label_focus (region_pixels g v) = Some (x, y, r)"
    by (force dest!: extract_foci_source simp: np_unique_def)
  have "\<forall>p\<in>set (region_pixels g v). fst p < length g \<and> snd p < grid_width g"
    using region_pixels_in_range by fastforce
  then show ?thesis
    by (rule label_focus_bounds[OF region_pixels_nonempty[OF assms(1) v] _ f])
qed

text \<open>
  C6: on a rectangular map every returned centre lies inside the image: its row between
  0 and the last row index, its column between 0 and the last column index.
\<close>

theorem label_foci_within_image:
  assumes "rectangular g" "label_foci g = Inr fs" "(x, y, r) \<in> set fs"
  shows "0 \<le> x \<and> x \<le> real (length g) - 1 \<and> 0 \<le> y \<and> y \<le> real (grid_width g) - 1"
  using assms by (rule label_foci_focus_bounds)

theorem label_foci_within_image_witness:
  "rectangular [[7, 0, 7], [0, 0, 0 :: int]] \<and> label_foci [[7, 0, 7], [0, 0, 0]] = Inr [(0, 1, 1)]
   \<and> (0, 1, 1) \<in> set [(0::real, 1::real, 1::real)]
   \<and> 0 \<le> (0::real) \<and> (0::real) \<le> real (length [[7, 0, 7], [0, 0, 0 :: int]]) - 1
   \<and> 0 \<le> (1::real) \<and> (1::real) \<le> real (grid_width [[7, 0, 7], [0, 0, 0 :: int]]) - 1"
proof -
  have rect: "rectangular [[7, 0, 7], [0, 0, 0 :: int]]" by (simp add: rectangular_def grid_width_def)
  show ?thesis
    using label_foci_within_image[OF rect label_foci_example, of 0 1 1] rect label_foci_example by simp
qed

text \<open>
  C7: on a region map of exactly one row that has a non-zero value, \<open>draw_label_img\<close>
  raises \<open>IndexError\<close>: \<open>squeeze(0)\<close> leaves a rank-1 tensor and
  \<open>label_img.shape[1]\<close> is out of range.
\<close>

theorem draw_label_img_one_row_crash:
  assumes "length g = 1" "list_ex (\<lambda>v. v \<noteq> 0) (concat g)"
  shows "draw_label_img circle g img color = Inl IndexError"
  using assms by (simp add: draw_label_img_def label_foci_one_row)

theorem draw_label_img_one_row_crash_witness:
  "length [[0, 5 :: int]] = 1 \<and> list_ex (\<lambda>v. v \<noteq> 0) (concat [[0, 5 :: int]])
   \<and> draw_label_img record_circle [[0, 5]] ((), []) (0, 1, 0) = Inl IndexError"
  using draw_label_img_one_row_crash[of "[[0, 5]]" record_circle "((), [])" "(0, 1, 0)"] by simp

text \<open>
  Drawing on the recording canvas: \<open>draw_label_img\<close> propagates the exception of the
  extraction, and otherwise appends one circle per focus, in order, centred at the rounded
  (column, row) with the rounded radius.
\<close>

lemma draw_label_img_record_circle:
  "draw_label_img record_circle g (b, calls) col =
     (case label_foci g of Inl e \<Rightarrow> Inl e | Inr fs \<Rightarrow> Inr (b, calls @ drawn_circles fs col))"
  by (cases "label_foci g")
     (auto simp: draw_label_img_def draw_label_def drawn_circles_def fold_record_circle)


end
