(* ===== verification/Watershed.thy ===== *)
theory Watershed
  imports Prelude
begin

text \<open>
  The watershed segmenter, \<open>watershed_label\<close> (source lines 58--72).  The distance
  transform, the peak finder, the connected-component labelling and the watershed itself
  are library calls (scipy, scikit-image); they are the fields of the record
  \<open>ws_lib\<close>, and the model translates the code around them: the cast
  \<open>image.astype(int)\<close> (truncation towards zero), the marker mask built with
  \<open>mask[tuple(coords.T)] = True\<close> (an out-of-range peak raises \<open>IndexError\<close>), the
  negated distance and the order of the calls.  \<open>ws_contract\<close> states what the
  specification (section 4.2) asks of the library: a label map of the mask's shape, zero
  off the mask, with non-negative labels.
\<close>

record ws_lib =
  distance_transform_edt :: "int grid \<Rightarrow> real grid"
  peak_local_max :: "real grid \<Rightarrow> int grid \<Rightarrow> coord list"
  ndi_label :: "bool grid \<Rightarrow> int grid"
  watershed :: "real grid \<Rightarrow> int grid \<Rightarrow> int grid \<Rightarrow> int grid"

text \<open>NumPy's float-to-int cast truncates towards zero.\<close>

definition trunc_real :: "real \<Rightarrow> int" where
  "trunc_real x = (if 0 \<le> x then \<lfloor>x\<rfloor> else \<lceil>x\<rceil>)"

definition astype_int :: "real grid \<Rightarrow> int grid" where
  "astype_int g = map (map trunc_real) g"

text \<open>\<open>mask = np.zeros(distance.shape, dtype=bool); mask[tuple(coords.T)] = True\<close>.\<close>

definition mask_from_coords :: "nat \<Rightarrow> nat \<Rightarrow> coord list \<Rightarrow> bool grid res" where
  "mask_from_coords h w coords =
     (if list_all (\<lambda>(i, j). i < h \<and> j < w) coords
      then Inr (map (\<lambda>i. map (\<lambda>j. (i, j) \<in> set coords) [0..<w]) [0..<h])
      else Inl IndexError)"

text \<open>\<open>image\<close> of the source is \<open>img\<close> here (\<open>image\<close> is HOL's set image).\<close>

definition watershed_label :: "ws_lib \<Rightarrow> real grid \<Rightarrow> int grid res" where
  "watershed_label lib img0 =
     (let img = astype_int img0;
          distance = distance_transform_edt lib img;
          coords = peak_local_max lib distance img
      in err_bind (mask_from_coords (length distance) (grid_width distance) coords) (\<lambda>mk.
           let markers = ndi_label lib mk
           in Inr (watershed lib (map (map uminus) distance) markers img)))"

definition ws_contract :: "ws_lib \<Rightarrow> bool" where
  "ws_contract lib \<longleftrightarrow>
     (\<forall>img. rectangular img \<longrightarrow>
        length (distance_transform_edt lib img) = length img
        \<and> grid_width (distance_transform_edt lib img) = grid_width img
        \<and> list_all (\<lambda>(i, j). i < length img \<and> j < grid_width img)
             (peak_local_max lib (distance_transform_edt lib img) img))
     \<and> (\<forall>d m img. rectangular img \<longrightarrow>
        length (watershed lib d m img) = length img \<and> rectangular (watershed lib d m img)
        \<and> grid_width (watershed lib d m img) = grid_width img
        \<and> (\<forall>i<length img. \<forall>j<grid_width img.
              (img ! i ! j = 0 \<longrightarrow> watershed lib d m img ! i ! j = 0)
              \<and> 0 \<le> watershed lib d m img ! i ! j))"

text \<open>
  A stand-in library for the witnesses (not scipy's algorithms): the distance is the cast
  image, every non-zero pixel is a peak, and the watershed gives label 1 to the whole
  foreground.
\<close>

definition toy_ws_lib :: ws_lib where
  "toy_ws_lib =
     \<lparr>distance_transform_edt = map (map real_of_int),
      peak_local_max = (\<lambda>d img. filter (\<lambda>(i, j). img ! i ! j \<noteq> 0) (List.product [0..<length img] [0..<grid_width img])),
      ndi_label = map (map of_bool),
      watershed = (\<lambda>d m img. map (map (\<lambda>v. if v = 0 then 0 else 1)) img)\<rparr>"

section \<open>Properties\<close>

lemma mask_from_coords_Inr:
  assumes "mask_from_coords h w coords = Inr mk"
  shows "length mk = h \<and> (\<forall>i<h. length (mk ! i) = w)
         \<and> (\<forall>i<h. \<forall>j<w. mk ! i ! j \<longleftrightarrow> (i, j) \<in> set coords)"
  using assms by (auto simp: mask_from_coords_def split: if_splits)

lemma mask_from_coords_error:
  "mask_from_coords h w coords = Inl e \<longleftrightarrow> e = IndexError \<and> \<not> list_all (\<lambda>(i, j). i < h \<and> j < w) coords"
  by (auto simp: mask_from_coords_def)

lemma trunc_real_of_int [simp]: "trunc_real (of_int k) = k"
  by (simp add: trunc_real_def)

lemma trunc_real_01: "trunc_real 0 = 0" "trunc_real 1 = 1"
  by (simp_all add: trunc_real_def)

lemma shape_astype_int [simp]:
  "rectangular (astype_int g) = rectangular g" "grid_width (astype_int g) = grid_width g"
  "length (astype_int g) = length g"
  by (simp_all add: astype_int_def)

lemma watershed_label_contract_Inr:
  assumes "ws_contract lib" "rectangular pic"
  shows "\<exists>g. watershed_label lib pic = Inr g \<and> length g = length pic \<and> rectangular g
           \<and> grid_width g = grid_width pic
           \<and> (\<forall>i<length pic. \<forall>j<grid_width pic.
                 (trunc_real (pic ! i ! j) = 0 \<longrightarrow> g ! i ! j = 0) \<and> 0 \<le> g ! i ! j)"
proof -
  let ?img = "astype_int pic"
  let ?d = "distance_transform_edt lib ?img"
  have r: "rectangular ?img" using assms(2) by simp
  have "length ?d = length ?img \<and> grid_width ?d = grid_width ?img
      \<and> list_all (\<lambda>(i, j). i < length ?img \<and> j < grid_width ?img) (peak_local_max lib ?d ?img)"
    using assms(1) r unfolding ws_contract_def by blast
  then have d: "length ?d = length pic" "grid_width ?d = grid_width pic"
    and peaks: "list_all (\<lambda>(i, j). i < length pic \<and> j < grid_width pic) (peak_local_max lib ?d ?img)"
    by simp_all
  then obtain mk where mk: "mask_from_coords (length ?d) (grid_width ?d) (peak_local_max lib ?d ?img) = Inr mk"
    by (simp add: mask_from_coords_def)
  let ?g = "watershed lib (map (map uminus) ?d) (ndi_label lib mk) ?img"
  have w: "watershed_label lib pic = Inr ?g"
    using mk by (simp add: watershed_label_def Let_def)
  have img: "\<And>i j. i < length pic \<Longrightarrow> j < grid_width pic \<Longrightarrow> ?img ! i ! j = trunc_real (pic ! i ! j)"
    using assms(2) by (simp add: astype_int_def rectangular_nth_length)
  from assms(1) r have "length ?g = length pic \<and> rectangular ?g \<and> grid_width ?g = grid_width pic
      \<and> (\<forall>i<length pic. \<forall>j<grid_width pic. (?img ! i ! j = 0 \<longrightarrow> ?g ! i ! j = 0) \<and> 0 \<le> ?g ! i ! j)"
    unfolding ws_contract_def by simp
  with w img show ?thesis by auto
qed

text \<open>
  Under the library contract, \<open>watershed_label\<close> never raises (every peak is
  inside the image, so building the marker mask succeeds) and returns a label map of the
  input's shape, zero wherever the cast input is zero, with non-negative labels.
\<close>

lemma watershed_label_contract:
  assumes "ws_contract lib" "rectangular pic"
  shows "\<exists>g. watershed_label lib pic = Inr g \<and> length g = length pic \<and> rectangular g
           \<and> grid_width g = grid_width pic
           \<and> (\<forall>i<length pic. \<forall>j<grid_width pic.
                 (trunc_real (pic ! i ! j) = 0 \<longrightarrow> g ! i ! j = 0) \<and> 0 \<le> g ! i ! j)"
  using assms by (rule watershed_label_contract_Inr)

text \<open>
  The only exception of \<open>watershed_label\<close>'s own code is the \<open>IndexError\<close>
  of \<open>mask[tuple(coords.T)] = True\<close>, raised exactly when the peak finder returns a
  coordinate outside the distance map.
\<close>

lemma watershed_label_error:
  "watershed_label lib pic = Inl e \<longleftrightarrow>
     e = IndexError
     \<and> \<not> list_all (\<lambda>(i, j). i < length (distance_transform_edt lib (astype_int pic))
                          \<and> j < grid_width (distance_transform_edt lib (astype_int pic)))
          (peak_local_max lib (distance_transform_edt lib (astype_int pic)) (astype_int pic))"
  by (simp add: watershed_label_def Let_def err_bind_eq_Inl_iff mask_from_coords_error)

lemma toy_ws_contract: "ws_contract toy_ws_lib"
  by (auto simp: ws_contract_def toy_ws_lib_def list_all_iff rectangular_nth_length)

end
