(* ===== verification/Visualize.thy ===== *)
theory Visualize
  imports LabelExtraction Watershed Files
begin

text \<open>
  The visualisation renderer, \<open>visualize_predictions\<close> (source lines 75--142).  It
  picks the first two samples of the batch with a positive ground-truth pixel, returns at
  once when there are fewer than two, and otherwise, for each picked sample: permutes the
  image to height-width-channel order, segments channel 0 of the ground truth and of the
  prediction thresholded at 0.5 with \<open>watershed_label\<close>, draws the predicted foci in
  magenta and then the ground-truth foci in green with \<open>draw_label_img\<close>, and shows
  the result in its panel.  The figure, titled with the epoch, is then saved to the given
  path (or shown when \<open>plot\<close> is set).  The libraries it calls (the scipy/skimage
  segmentation calls, \<open>cv.circle\<close>, the NumPy view of the image) are the fields of
  \<open>vis_lib\<close>; the figure is the list of its panels and its title.  Every exception of
  the calls (an index out of range, a one-row region map in \<open>draw_label_img\<close>, a
  missing directory in \<open>savefig\<close>) propagates: the function catches nothing.
\<close>

section \<open>Definitions\<close>

record 'img vis_lib =
  ws_calls :: ws_lib
  cv_circle :: "'img circle_fn"
  np_image :: "real list list list \<Rightarrow> 'img"

record 'img figure =
  panels :: "'img list"
  suptitle :: string

text \<open>\<open>img.permute(1, 2, 0)\<close>: a (channel, row, column) image to (row, column, channel).\<close>

definition permute120 :: "real list list list \<Rightarrow> real list list list" where
  "permute120 c =
     (case c of [] \<Rightarrow> []
      | c0 # _ \<Rightarrow> map (\<lambda>i. map (\<lambda>j. map (\<lambda>ch. ch ! i ! j) c) [0..<grid_width c0]) [0..<length c0])"

text \<open>\<open>(labels[i] > 0).any()\<close> and the comprehension
  \<open>[i for i in range(len(labels)) if ...][:2]\<close>.\<close>

definition has_positive :: "real list list list \<Rightarrow> bool" where
  "has_positive l \<longleftrightarrow> list_ex (list_ex (list_ex (\<lambda>v. 0 < v))) l"

definition select_indices :: "real list list list list \<Rightarrow> nat list" where
  "select_indices labels = take 2 (filter (\<lambda>i. has_positive (labels ! i)) [0..<length labels])"

text \<open>\<open>(pred_label[0] > 0.5).float()\<close>.\<close>

definition threshold :: "real grid \<Rightarrow> real grid" where
  "threshold p = map (map (\<lambda>v. if 1/2 < v then 1 else 0)) p"

definition magenta :: color where "magenta = (1, 0, 1)"
definition green :: color where "green = (0, 1, 0)"

text \<open>The body of \<open>for index, i in enumerate(indices)\<close> (lines 87--112): the panel
  image of sample \<open>i\<close>.\<close>

definition render_sample ::
  "'img vis_lib \<Rightarrow> real list list list list \<Rightarrow> real list list list list \<Rightarrow> real list list list list
     \<Rightarrow> nat \<Rightarrow> 'img res" where
  "render_sample lib imgs labels pred_labels i =
     err_bind (py_get imgs i) (\<lambda>img.
     err_bind (py_get labels i) (\<lambda>label.
     err_bind (py_get pred_labels i) (\<lambda>pred_label.
       let img = np_image lib (permute120 img) in
       err_bind (py_get label 0) (\<lambda>l0.
       err_bind (watershed_label (ws_calls lib) l0) (\<lambda>sharpened_label.
       err_bind (py_get pred_label 0) (\<lambda>p0.
       err_bind (watershed_label (ws_calls lib) (threshold p0)) (\<lambda>sharpened_pred_label.
       err_bind (draw_label_img (cv_circle lib) sharpened_pred_label img magenta) (\<lambda>img.
         draw_label_img (cv_circle lib) sharpened_label img green))))))))"

text \<open>The loop over the picked samples, in order; the first exception ends it.\<close>

fun render_all :: "'img vis_lib \<Rightarrow> real list list list list \<Rightarrow> real list list list list
     \<Rightarrow> real list list list list \<Rightarrow> nat list \<Rightarrow> 'img list res" where
  "render_all lib imgs labels preds [] = Inr []"
| "render_all lib imgs labels preds (i # is) =
     err_bind (render_sample lib imgs labels preds i) (\<lambda>p.
       err_bind (render_all lib imgs labels preds is) (\<lambda>ps. Inr (p # ps)))"

text \<open>\<open>f"{epoch}"\<close> of a Python int.\<close>

fun show_nat :: "nat \<Rightarrow> string" where
  "show_nat n = (if n < 10 then [char_of (48 + n)] else show_nat (n div 10) @ [char_of (48 + n mod 10)])"

definition show_int :: "int \<Rightarrow> string" where
  "show_int i = (if i < 0 then ''-'' @ show_nat (nat (- i)) else show_nat (nat i))"

definition epoch_title :: "int \<Rightarrow> string" where
  "epoch_title e = ''Epoch '' @ show_int e @ '', Green = true label''"

text \<open>\<open>plt.savefig(save_path, dpi=500) if not plot else plt.show()\<close>.\<close>

definition savefig :: "('p, 'img figure) world \<Rightarrow> string \<Rightarrow> 'img figure \<Rightarrow> ('p, 'img figure) world res" where
  "savefig w path fig =
     (if dir_exists w (dirname path) then Inr (write_file w path (Png fig)) else Inl FileNotFoundError)"

definition plt_show :: "('p, 'img figure) world \<Rightarrow> 'img figure \<Rightarrow> ('p, 'img figure) world" where
  "plt_show w fig = w\<lparr>shown := shown w @ [fig]\<rparr>"

definition visualize_predictions ::
  "'img vis_lib \<Rightarrow> bool \<Rightarrow> real list list list list \<Rightarrow> real list list list list \<Rightarrow> real list list list list
     \<Rightarrow> string \<Rightarrow> int \<Rightarrow> ('p, 'img figure) world \<Rightarrow> ('p, 'img figure) world res" where
  "visualize_predictions lib plot imgs labels pred_labels save_path epoch w =
     (let indices = select_indices labels in
      if length indices < 2 then Inr w
      else err_bind (render_all lib imgs labels pred_labels indices) (\<lambda>ps.
        let fig = \<lparr>panels = ps, suptitle = epoch_title epoch\<rparr> in
        if \<not> plot then savefig w save_path fig else Inr (plt_show w fig)))"

text \<open>Decoding of the decimal title number, used to state that the title determines the epoch.\<close>

definition read_nat :: "string \<Rightarrow> nat" where
  "read_nat s = foldl (\<lambda>n c. 10 * n + (of_char c - 48)) 0 s"

definition read_int :: "string \<Rightarrow> int" where
  "read_int s = (if s \<noteq> [] \<and> hd s = CHR ''-'' then - int (read_nat (tl s)) else int (read_nat s))"

text \<open>
  The renderer's contract (specification, section 4.3, steps 1--3) on a canvas that records
  its circle calls: the panel of a sample is the base image with the abstract foci
  (\<open>spec_foci\<close>) of the segmented prediction drawn in magenta, then those of the
  segmented ground truth in green.
\<close>

definition spec_panel :: "'b \<Rightarrow> int grid \<Rightarrow> int grid \<Rightarrow> 'b \<times> circle_call list" where
  "spec_panel b sl sp = (b, drawn_circles (spec_foci sp) magenta @ drawn_circles (spec_foci sl) green)"

subsection \<open>A concrete library and batch, for the witnesses\<close>

text \<open>The segmentation stand-in of \<open>Watershed\<close>, a canvas that records its circle calls.\<close>

definition toy_vis_lib :: "(unit \<times> circle_call list) vis_lib" where
  "toy_vis_lib = \<lparr>ws_calls = toy_ws_lib, cv_circle = record_circle, np_image = (\<lambda>_. ((), []))\<rparr>"

definition vis_world :: "(unit, (unit \<times> circle_call list) figure) world" where
  "vis_world = \<lparr>files = Map.empty, dirs = {''run''}, shown = []\<rparr>"

definition demo_labels :: "real list list list list" where
  "demo_labels = [[[[1, 0, 1], [0, 0, 0]]], [[[0, 0, 0], [0, 0, 0]]], [[[1, 0, 1], [0, 0, 0]]]]"

definition demo_preds :: "real list list list list" where
  "demo_preds = [[[[0.9, 0.2, 0.7], [0, 0, 0]]], [[[0, 0, 0], [0, 0, 0]]], [[[1, 0, 0], [0, 0, 0]]]]"

section \<open>Properties\<close>

lemma length_demo_batches [simp]: "length demo_labels = 3" "length demo_preds = 3"
  by (simp_all add: demo_labels_def demo_preds_def)

lemma length_select_indices:
  "length (select_indices labels) = min 2 (length (filter (\<lambda>i. has_positive (labels ! i)) [0..<length labels]))"
  by (simp add: select_indices_def)

lemma render_all_length: "render_all lib imgs labels preds is = Inr ps \<Longrightarrow> length ps = length is"
  by (induction "is" arbitrary: ps) (auto simp: err_bind_eq_Inr_iff)

lemma visualize_predictions_Inr:
  assumes "visualize_predictions lib False imgs labels preds path e w = Inr w'"
  shows "(length (select_indices labels) < 2 \<and> w' = w)
    \<or> (length (select_indices labels) = 2 \<and> dir_exists w (dirname path)
       \<and> (\<exists>ps. render_all lib imgs labels preds (select_indices labels) = Inr ps
              \<and> w' = write_file w path (Png \<lparr>panels = ps, suptitle = epoch_title e\<rparr>)))"
  using assms length_select_indices[of labels]
  by (auto simp: visualize_predictions_def savefig_def Let_def err_bind_eq_Inr_iff split: if_splits)

lemma watershed_toy_example:
  "watershed_label toy_ws_lib [[1, 0, 1], [0, 0, 0]] = Inr [[1, 0, 1], [0, 0, 0]]"
  "watershed_label toy_ws_lib [[1, 0, 0], [0, 0, 0]] = Inr [[1, 0, 0], [0, 0, 0]]"
  by (simp_all add: watershed_label_def toy_ws_lib_def astype_int_def trunc_real_def mask_from_coords_def
      grid_width_def Let_def)

lemma label_foci_toy_example:
  "label_foci [[1, 0, 1], [0, 0, 0]] = Inr [(0, 1, 1)]"
  "label_foci [[1, 0, 0], [0, 0, 0]] = Inr []"
  by (simp_all add: model_simps label_foci_def squeeze0_def np_unique_def region_pixels_def
      grid_width_def label_focus_def max_distance_def mean_def Let_def)

lemma render_sample_demo_any:
  assumes "2 < length imgs"
  shows "render_sample toy_vis_lib imgs demo_labels demo_preds 0 = Inr ((), [Circle (1, 0) 1 magenta, Circle (1, 0) 1 green])"
    "render_sample toy_vis_lib imgs demo_labels demo_preds 2 = Inr ((), [Circle (1, 0) 1 green])"
  using assms by (auto simp: render_sample_def demo_labels_def demo_preds_def toy_vis_lib_def threshold_def py_get_def
      watershed_toy_example label_foci_toy_example draw_label_img_def draw_label_def round_focus_def
      round_half_even_def record_circle_def)

lemma draw_label_img_record_Inr:
  "draw_label_img record_circle g (b, calls) col = Inr q \<Longrightarrow> \<exists>fs. label_foci g = Inr fs \<and> q = (b, calls @ drawn_circles fs col)"
  by (cases "label_foci g") (auto simp: draw_label_img_def draw_label_def drawn_circles_def fold_record_circle split: if_splits)

lemma select_indices_demo: "select_indices demo_labels = [0, 2]"
  by (simp add: select_indices_def demo_labels_def has_positive_def upt_rec)

lemma dirname_val_pred: "dirname ''run/val_pred.png'' = ''run''"
  by (simp add: dirname_def)

text \<open>
  C20 (the specification's fourth testable property): when fewer than two samples of the
  batch have a positive ground-truth pixel, \<open>visualize_predictions\<close> returns without
  any effect: no file is written and nothing is shown, whatever the other arguments.
\<close>

theorem visualize_predictions_few_samples:
  assumes "length (filter (\<lambda>i. has_positive (labels ! i)) [0..<length labels]) < 2"
  shows "visualize_predictions lib plot imgs labels preds path e w = Inr w"
  using assms by (simp add: visualize_predictions_def length_select_indices)

theorem visualize_predictions_few_samples_witness:
  "length (filter (\<lambda>i. has_positive ([[[[0, 0], [0, 0]]], [[[1, 0], [0, 0]]]] ! i)) [0..<length ([[[[0, 0], [0, 0]]], [[[1, 0], [0, 0]]]] :: real list list list list)]) < 2
   \<and> visualize_predictions toy_vis_lib False [[[[0, 0], [0, 0]]], [[[1, 0], [0, 0]]]] [[[[0, 0], [0, 0]]], [[[1, 0], [0, 0]]]]
       [[[[0, 0], [0, 0]]], [[[1, 0], [0, 0]]]] ''run/val_pred.png'' 0 vis_world = Inr vis_world"
proof -
  have c: "length (filter (\<lambda>i. has_positive ([[[[0, 0], [0, 0]]], [[[1, 0], [0, 0]]]] ! i)) [0..<length ([[[[0, 0], [0, 0]]], [[[1, 0], [0, 0]]]] :: real list list list list)]) < 2"
    by (simp add: has_positive_def upt_rec)
  show ?thesis by (intro conjI c visualize_predictions_few_samples[OF c])
qed

text \<open>
  C21: a successful call that saves its figure (\<open>plot\<close> false, as in both callers)
  either found fewer than two qualifying samples and changed nothing, or found at least
  two and wrote, at the given path and nowhere else, a figure of exactly two panels (the
  rendered first two qualifying samples) titled with the epoch.  A figure of one panel is
  never written, although the specification's file list allows "one to two panels".
\<close>

theorem visualize_predictions_writes_two_panels:
  assumes "visualize_predictions lib False imgs labels preds path e w = Inr w'"
  shows "(length (filter (\<lambda>i. has_positive (labels ! i)) [0..<length labels]) < 2 \<and> w' = w)
    \<or> (2 \<le> length (filter (\<lambda>i. has_positive (labels ! i)) [0..<length labels])
       \<and> (\<exists>ps. length ps = 2 \<and> render_all lib imgs labels preds (select_indices labels) = Inr ps
              \<and> w' = write_file w path (Png \<lparr>panels = ps, suptitle = epoch_title e\<rparr>)))"
  using visualize_predictions_Inr[OF assms] length_select_indices[of labels]
    render_all_length[of lib imgs labels preds "select_indices labels"] by auto

lemma visualize_predictions_demo:
  "visualize_predictions toy_vis_lib False demo_labels demo_labels demo_preds ''run/val_pred.png'' 3 vis_world
     = Inr (write_file vis_world ''run/val_pred.png''
              (Png \<lparr>panels = [((), [Circle (1, 0) 1 magenta, Circle (1, 0) 1 green]), ((), [Circle (1, 0) 1 green])],
                    suptitle = epoch_title 3\<rparr>))"
  by (simp add: visualize_predictions_def select_indices_demo render_sample_demo_any savefig_def
      dirname_val_pred dir_exists_def vis_world_def)

theorem visualize_predictions_writes_two_panels_witness:
  "visualize_predictions toy_vis_lib False demo_labels demo_labels demo_preds ''run/val_pred.png'' 3 vis_world
     = Inr (write_file vis_world ''run/val_pred.png''
              (Png \<lparr>panels = [((), [Circle (1, 0) 1 magenta, Circle (1, 0) 1 green]), ((), [Circle (1, 0) 1 green])],
                    suptitle = epoch_title 3\<rparr>))
   \<and> 2 \<le> length (filter (\<lambda>i. has_positive (demo_labels ! i)) [0..<length demo_labels])"
proof -
  have v: "visualize_predictions toy_vis_lib False demo_labels demo_labels demo_preds ''run/val_pred.png'' 3 vis_world
     = Inr (write_file vis_world ''run/val_pred.png''
              (Png \<lparr>panels = [((), [Circle (1, 0) 1 magenta, Circle (1, 0) 1 green]), ((), [Circle (1, 0) 1 green])],
                    suptitle = epoch_title 3\<rparr>))"
    by (rule visualize_predictions_demo)
  have ne: "write_file vis_world ''run/val_pred.png''
              (Png \<lparr>panels = [((), [Circle (1, 0) 1 magenta, Circle (1, 0) 1 green]), ((), [Circle (1, 0) 1 green])],
                    suptitle = epoch_title 3\<rparr>) \<noteq> vis_world"
    by (auto simp: write_file_def vis_world_def dest: fun_cong[where x = "''run/val_pred.png''"])
  from visualize_predictions_writes_two_panels[OF v] ne v show ?thesis by auto
qed

lemma render_sample_recording:
  assumes "cv_circle lib = record_circle" "np_image lib = (\<lambda>_. (b, []))"
    and "render_sample lib imgs labels preds i = Inr p"
  shows "\<exists>sl sp fg fp. watershed_label (ws_calls lib) (labels ! i ! 0) = Inr sl
     \<and> watershed_label (ws_calls lib) (threshold (preds ! i ! 0)) = Inr sp
     \<and> label_foci sp = Inr fp \<and> label_foci sl = Inr fg
     \<and> p = (b, drawn_circles fp magenta @ drawn_circles fg green)"
  using assms(3)
  by (auto simp: render_sample_def assms(1,2) err_bind_eq_Inr_iff py_get_def split: if_splits
      dest!: draw_label_img_record_Inr)

text \<open>
  C22 (step 3 of the renderer's contract): on a canvas that records its circle calls, the
  panel of a sample is the base image with the predicted foci drawn first, in magenta, and
  the ground-truth foci drawn last, in green; the foci are those that label extraction
  finds in the watershed segmentation of channel 0 of the ground truth and of channel 0 of
  the prediction thresholded at 0.5.
\<close>

theorem render_sample_draw_order:
  assumes "cv_circle lib = record_circle" "np_image lib = (\<lambda>_. (b, []))"
    and "render_sample lib imgs labels preds i = Inr p"
  shows "\<exists>sl sp fg fp. watershed_label (ws_calls lib) (labels ! i ! 0) = Inr sl
     \<and> watershed_label (ws_calls lib) (threshold (preds ! i ! 0)) = Inr sp
     \<and> label_foci sp = Inr fp \<and> label_foci sl = Inr fg
     \<and> p = (b, drawn_circles fp magenta @ drawn_circles fg green)"
  using assms by (rule render_sample_recording)

theorem render_sample_draw_order_witness:
  "cv_circle toy_vis_lib = record_circle \<and> np_image toy_vis_lib = (\<lambda>_. ((), []))
   \<and> render_sample toy_vis_lib demo_labels demo_labels demo_preds 0 = Inr ((), [Circle (1, 0) 1 magenta, Circle (1, 0) 1 green])
   \<and> drawn_circles [(0, 1, 1)] magenta @ drawn_circles [(0, 1, 1)] green = [Circle (1, 0) 1 magenta, Circle (1, 0) 1 green]"
proof -
  have l: "cv_circle toy_vis_lib = record_circle" "np_image toy_vis_lib = (\<lambda>_. ((), []))"
    by (simp_all add: toy_vis_lib_def)
  have "drawn_circles [(0, 1, 1)] magenta @ drawn_circles [(0, 1, 1)] green = [Circle (1, 0) 1 magenta, Circle (1, 0) 1 green]"
    by (simp add: drawn_circles_def round_focus_def round_half_even_def)
  with render_sample_draw_order[OF l render_sample_demo_any(1)] l render_sample_demo_any(1) show ?thesis by simp
qed

declare show_nat.simps [simp del]

lemma read_nat_snoc: "read_nat (s @ [c]) = 10 * read_nat s + (of_char c - 48)"
  by (simp add: read_nat_def)

lemma of_char_digit: "d < 10 \<Longrightarrow> of_char (char_of (48 + d) :: char) = 48 + (d :: nat)"
  by (simp add: of_char_of)

lemma read_nat_show_nat: "read_nat (show_nat n) = n"
proof (induction n rule: show_nat.induct)
  case (1 n)
  show ?case
  proof (cases "n < 10")
    case True
    then show ?thesis by (simp add: show_nat.simps read_nat_def of_char_digit)
  next
    case False
    then have "read_nat (show_nat n) = 10 * (n div 10) + n mod 10"
      using "1.IH" by (simp add: show_nat.simps read_nat_snoc of_char_digit)
    then show ?thesis by simp
  qed
qed

lemma show_nat_head: "show_nat n \<noteq> [] \<and> hd (show_nat n) \<noteq> CHR ''-''"
proof (induction n rule: show_nat.induct)
  case (1 n)
  show ?case
  proof (cases "n < 10")
    case True
    have "of_char (char_of (48 + n) :: char) \<noteq> (of_char (CHR ''-'') :: nat)"
      using True by (simp add: of_char_digit)
    then have "char_of (48 + n) \<noteq> CHR ''-''" by metis
    then show ?thesis using True by (simp add: show_nat.simps)
  next
    case False
    then show ?thesis using "1.IH" by (simp add: show_nat.simps)
  qed
qed

text \<open>
  The epoch number in the figure title is printed so that it reads back as the
  epoch: decoding the decimal text \<open>f"{epoch}"\<close> gives the epoch again, negative
  epochs (the default \<open>-1\<close>) included.
\<close>

lemma show_int_roundtrip: "read_int (show_int e) = e"
  using show_nat_head[of "nat e"] by (simp add: show_int_def read_int_def read_nat_show_nat)

text \<open>
  \<open>img.permute(1, 2, 0)\<close> has the shape the drawing expects: a non-empty image of
  \<open>C\<close> channels, each of \<open>h\<close> rows of \<open>w\<close> pixels, becomes \<open>h\<close> rows of \<open>w\<close>
  pixels whose entry at (i, j) lists, in channel order, the value of each channel there.
\<close>

lemma permute120_shape:
  assumes "c \<noteq> []" "list_all (\<lambda>ch. length ch = h \<and> list_all (\<lambda>r. length r = w) ch) c"
  shows "length (permute120 c) = h
    \<and> (\<forall>i<h. length (permute120 c ! i) = w \<and> (\<forall>j<w. permute120 c ! i ! j = map (\<lambda>ch. ch ! i ! j) c))"
proof -
  obtain c0 cs where c: "c = c0 # cs" using assms(1) by (cases c) auto
  have h: "length c0 = h" and rows: "list_all (\<lambda>r. length r = w) c0" using assms(2) c by simp_all
  have "0 < h \<Longrightarrow> grid_width c0 = w"
    using h rows by (cases c0) (simp_all add: grid_width_def)
  then show ?thesis using h by (auto simp: permute120_def c)
qed

text \<open>
  C31: every circle that \<open>draw_label_img\<close> asks \<open>cv.circle\<close> to draw on a rectangular
  region map is centred inside the image (column below the width, row below the height,
  both non-negative, after rounding), has a non-negative radius, and has the colour it
  was given: rounding a centre that lies between 0 and the last index stays in range.
\<close>

theorem draw_label_img_circles_in_image:
  assumes "rectangular g" "draw_label_img record_circle g (b, []) col = Inr (b', calls)"
    and "Circle (cx, cy) rad c \<in> set calls"
  shows "0 \<le> cx \<and> cx < int (grid_width g) \<and> 0 \<le> cy \<and> cy < int (length g) \<and> 0 \<le> rad \<and> c = col"
proof -
  obtain fs where fs: "label_foci g = Inr fs" and calls: "calls = drawn_circles fs col"
    using draw_label_img_record_Inr[OF assms(2)] by auto
  from assms(3) calls obtain x y r where f: "(x, y, r) \<in> set fs"
    and c: "cx = round_half_even y" "cy = round_half_even x" "rad = round_half_even r" "c = col"
    by (auto simp: drawn_circles_def round_focus_def)
  have b: "0 \<le> x \<and> x \<le> real (length g) - 1 \<and> 0 \<le> y \<and> y \<le> real (grid_width g) - 1"
    by (rule label_foci_focus_bounds[OF assms(1) fs f])
  have r: "0 < r" using fs f by (auto dest!: label_foci_Inr_extract extract_foci_source label_focus_radius)
  have "cx \<le> int (grid_width g) - 1" using b unfolding c(1) by (intro round_half_even_le) simp
  moreover have "cy \<le> int (length g) - 1" using b unfolding c(2) by (intro round_half_even_le) simp
  moreover have "0 \<le> cx" "0 \<le> cy" "0 \<le> rad" unfolding c(1-3)
    using b r by (auto intro!: round_half_even_ge)
  ultimately show ?thesis using c(4) by simp
qed

theorem draw_label_img_circles_in_image_witness:
  "rectangular [[7, 0, 7], [0, 0, 0 :: int]]
   \<and> draw_label_img record_circle [[7, 0, 7], [0, 0, 0]] ((), []) (0, 1, 0) = Inr ((), [Circle (1, 0) 1 (0, 1, 0)])
   \<and> Circle (1, 0) 1 (0, 1, 0) \<in> set [Circle (1, 0) 1 (0, 1, 0)]
   \<and> 0 \<le> (1 :: int) \<and> (1 :: int) < int (grid_width [[7, 0, 7], [0, 0, 0 :: int]])"
proof -
  have rect: "rectangular [[7, 0, 7], [0, 0, 0 :: int]]" by (simp add: rectangular_def grid_width_def)
  have d: "draw_label_img record_circle [[7, 0, 7], [0, 0, 0]] ((), []) (0, 1, 0) = Inr ((), [Circle (1, 0) 1 (0, 1, 0)])"
    by (simp add: draw_label_img_def label_foci_example draw_label_def round_focus_def round_half_even_def
        record_circle_def)
  have "(1 :: int) < int (grid_width [[7, 0, 7], [0, 0, 0 :: int]])"
    using draw_label_img_circles_in_image[OF rect d, of 1 0 1 "(0, 1, 0)"] by simp
  with rect d show ?thesis by simp
qed

lemma draw_label_img_rows_Inr: "length g \<noteq> 1 \<Longrightarrow> \<exists>im'. draw_label_img circle g im col = Inr im'"
  by (simp add: draw_label_img_def label_foci_Mat)

lemma watershed_rows_Inr:
  assumes "ws_contract lib" "rectangular pic" "length pic \<noteq> 1"
  obtains g where "watershed_label lib pic = Inr g" "length g \<noteq> 1"
  using watershed_label_contract_Inr[OF assms(1,2)] assms(3) by auto

text \<open>
  C32: one-row maps are the only way the rendering of a sample can fail: when the
  segmentation library meets its contract and channel 0 of the sample's label and of its
  prediction are rectangular maps of a number of rows other than one, rendering the
  sample raises nothing.
\<close>

theorem render_sample_no_error:
  assumes "ws_contract (ws_calls lib)"
    and "i < length imgs" "i < length labels" "i < length preds" "labels ! i \<noteq> []" "preds ! i \<noteq> []"
    and "rectangular (labels ! i ! 0)" "rectangular (preds ! i ! 0)"
    and "length (labels ! i ! 0) \<noteq> 1" "length (preds ! i ! 0) \<noteq> 1"
  shows "\<exists>p. render_sample lib imgs labels preds i = Inr p"
proof -
  obtain sl where sl: "watershed_label (ws_calls lib) (labels ! i ! 0) = Inr sl" "length sl \<noteq> 1"
    using watershed_rows_Inr[OF assms(1,7,9)] .
  obtain sp where sp: "watershed_label (ws_calls lib) (threshold (preds ! i ! 0)) = Inr sp" "length sp \<noteq> 1"
    using watershed_rows_Inr[OF assms(1), of "threshold (preds ! i ! 0)"] assms(8,10) by (auto simp: threshold_def)
  obtain im1 where im1: "draw_label_img (cv_circle lib) sp (np_image lib (permute120 (imgs ! i))) magenta = Inr im1"
    using draw_label_img_rows_Inr[OF sp(2), where circle = "cv_circle lib"
        and im = "np_image lib (permute120 (imgs ! i))" and col = magenta] by blast
  obtain im2 where "draw_label_img (cv_circle lib) sl im1 green = Inr im2"
    using draw_label_img_rows_Inr[OF sl(2), where circle = "cv_circle lib" and im = im1 and col = green] by blast
  with assms(2-6) sl(1) sp(1) im1 show ?thesis
    by (simp add: render_sample_def py_get_def)
qed

theorem render_sample_no_error_witness:
  "ws_contract (ws_calls toy_vis_lib)
   \<and> 0 < length demo_labels \<and> 0 < length demo_preds \<and> demo_labels ! 0 \<noteq> [] \<and> demo_preds ! 0 \<noteq> []
   \<and> rectangular (demo_labels ! 0 ! 0) \<and> rectangular (demo_preds ! 0 ! 0)
   \<and> length (demo_labels ! 0 ! 0) \<noteq> 1 \<and> length (demo_preds ! 0 ! 0) \<noteq> 1
   \<and> (\<exists>p. render_sample toy_vis_lib demo_labels demo_labels demo_preds 0 = Inr p)"
proof -
  have c: "ws_contract (ws_calls toy_vis_lib)" by (simp add: toy_vis_lib_def toy_ws_contract)
  have h: "demo_labels ! 0 \<noteq> []" "demo_preds ! 0 \<noteq> []"
    "rectangular (demo_labels ! 0 ! 0)" "rectangular (demo_preds ! 0 ! 0)"
    "length (demo_labels ! 0 ! 0) \<noteq> 1" "length (demo_preds ! 0 ! 0) \<noteq> 1"
    by (simp_all add: demo_labels_def demo_preds_def rectangular_def grid_width_def)
  have l: "0 < length demo_labels" "0 < length demo_preds" by simp_all
  show ?thesis using render_sample_no_error[OF c l(1) l(1) l(2) h] c h l by blast
qed

lemma render_all_two:
  "render_all lib imgs labels preds [i1, i2] = Inr ps \<Longrightarrow>
     \<exists>p1 p2. ps = [p1, p2] \<and> render_sample lib imgs labels preds i1 = Inr p1
       \<and> render_sample lib imgs labels preds i2 = Inr p2"
  by (auto simp: err_bind_eq_Inr_iff)

lemma select_indices_in_range: "i \<in> set (select_indices labels) \<Longrightarrow> i < length labels"
  by (auto simp: select_indices_def dest: in_set_takeD)

text \<open>
  A recorded panel is the abstract panel when the segmentation library meets its contract
  and the sample's channel-0 maps are rectangular.
\<close>

lemma render_sample_spec_panel:
  assumes "ws_contract (ws_calls lib)" "cv_circle lib = record_circle" "np_image lib = (\<lambda>_. (b, []))"
    and "rectangular (labels ! i ! 0)" "rectangular (preds ! i ! 0)"
    and "render_sample lib imgs labels preds i = Inr p"
  shows "\<exists>sl sp. watershed_label (ws_calls lib) (labels ! i ! 0) = Inr sl
     \<and> watershed_label (ws_calls lib) (threshold (preds ! i ! 0)) = Inr sp \<and> p = spec_panel b sl sp"
proof -
  obtain sl sp fg fp where w: "watershed_label (ws_calls lib) (labels ! i ! 0) = Inr sl"
      "watershed_label (ws_calls lib) (threshold (preds ! i ! 0)) = Inr sp"
    and f: "label_foci sp = Inr fp" "label_foci sl = Inr fg"
    and p: "p = (b, drawn_circles fp magenta @ drawn_circles fg green)"
    using render_sample_recording[OF assms(2,3,6)] by blast
  have "rectangular sl" using watershed_label_contract_Inr[OF assms(1,4)] w(1) by auto
  moreover have "rectangular sp"
    using watershed_label_contract_Inr[OF assms(1), of "threshold (preds ! i ! 0)"] assms(5) w(2)
    by (auto simp: threshold_def)
  ultimately have "fg = spec_foci sl" "fp = spec_foci sp"
    using f by (simp_all add: label_foci_Inr_spec)
  with w p show ?thesis by (simp add: spec_panel_def)
qed

text \<open>
  C33 (the renderer's contract, section 4.3, refined): when the segmentation library meets
  its contract and every sample's channel-0 label and prediction are rectangular maps, a
  successful saving call with two qualifying samples writes at the given path, and
  nowhere else, the figure titled with the epoch whose two panels are, in the order of the
  samples, the base image with the abstract foci of the segmented thresholded prediction
  in magenta and then those of the segmented ground truth in green.
\<close>

theorem visualize_predictions_refines_spec:
  assumes "ws_contract (ws_calls lib)" "cv_circle lib = record_circle" "np_image lib = (\<lambda>_. (b, []))"
    and "list_all (\<lambda>l. l \<noteq> [] \<and> rectangular (l ! 0)) labels"
    and "list_all (\<lambda>q. q \<noteq> [] \<and> rectangular (q ! 0)) preds" "length preds = length labels"
    and "select_indices labels = [i1, i2]"
    and "visualize_predictions lib False imgs labels preds path e w = Inr w'"
  shows "\<exists>sl1 sp1 sl2 sp2.
      watershed_label (ws_calls lib) (labels ! i1 ! 0) = Inr sl1
    \<and> watershed_label (ws_calls lib) (threshold (preds ! i1 ! 0)) = Inr sp1
    \<and> watershed_label (ws_calls lib) (labels ! i2 ! 0) = Inr sl2
    \<and> watershed_label (ws_calls lib) (threshold (preds ! i2 ! 0)) = Inr sp2
    \<and> w' = write_file w path (Png \<lparr>panels = [spec_panel b sl1 sp1, spec_panel b sl2 sp2],
                                     suptitle = epoch_title e\<rparr>)"
proof -
  have i: "i1 < length labels" "i2 < length labels"
    using select_indices_in_range[of _ labels] assms(7) by auto
  have r: "rectangular (labels ! i1 ! 0)" "rectangular (labels ! i2 ! 0)"
    "rectangular (preds ! i1 ! 0)" "rectangular (preds ! i2 ! 0)"
    using assms(4,5,6) i by (simp_all add: list_all_length)
  from visualize_predictions_Inr[OF assms(8)] assms(7) obtain ps
    where ps: "render_all lib imgs labels preds [i1, i2] = Inr ps"
      and w': "w' = write_file w path (Png \<lparr>panels = ps, suptitle = epoch_title e\<rparr>)"
    by auto
  from render_all_two[OF ps] obtain p1 p2 where "ps = [p1, p2]"
    and "render_sample lib imgs labels preds i1 = Inr p1" "render_sample lib imgs labels preds i2 = Inr p2"
    by blast
  with render_sample_spec_panel[OF assms(1-3) r(1,3)] render_sample_spec_panel[OF assms(1-3) r(2,4)] w'
  show ?thesis by fastforce
qed

theorem visualize_predictions_refines_spec_witness:
  "ws_contract (ws_calls toy_vis_lib) \<and> cv_circle toy_vis_lib = record_circle
   \<and> np_image toy_vis_lib = (\<lambda>_. ((), []))
   \<and> list_all (\<lambda>l. l \<noteq> [] \<and> rectangular (l ! 0)) demo_labels
   \<and> list_all (\<lambda>q. q \<noteq> [] \<and> rectangular (q ! 0)) demo_preds \<and> length demo_preds = length demo_labels
   \<and> select_indices demo_labels = [0, 2]
   \<and> (\<exists>sl1 sp1 sl2 sp2. vis_world\<lparr>files := (files vis_world)(''run/val_pred.png'' \<mapsto>
        Png \<lparr>panels = [spec_panel () sl1 sp1, spec_panel () sl2 sp2], suptitle = epoch_title 3\<rparr>)\<rparr>
      = write_file vis_world ''run/val_pred.png''
          (Png \<lparr>panels = [((), [Circle (1, 0) 1 magenta, Circle (1, 0) 1 green]), ((), [Circle (1, 0) 1 green])],
                suptitle = epoch_title 3\<rparr>))"
proof -
  have c: "ws_contract (ws_calls toy_vis_lib)" "cv_circle toy_vis_lib = record_circle"
    "np_image toy_vis_lib = (\<lambda>_. ((), []))"
    by (simp_all add: toy_vis_lib_def toy_ws_contract)
  have l: "list_all (\<lambda>l. l \<noteq> [] \<and> rectangular (l ! 0)) demo_labels"
    "list_all (\<lambda>q. q \<noteq> [] \<and> rectangular (q ! 0)) demo_preds"
    by (simp_all add: demo_labels_def demo_preds_def rectangular_def grid_width_def)
  have len: "length demo_preds = length demo_labels" by simp
  from visualize_predictions_refines_spec[OF c l len select_indices_demo visualize_predictions_demo]
  obtain sl1 sp1 sl2 sp2 where
    "write_file vis_world ''run/val_pred.png''
       (Png \<lparr>panels = [((), [Circle (1, 0) 1 magenta, Circle (1, 0) 1 green]), ((), [Circle (1, 0) 1 green])],
             suptitle = epoch_title 3\<rparr>)
     = write_file vis_world ''run/val_pred.png''
         (Png \<lparr>panels = [spec_panel () sl1 sp1, spec_panel () sl2 sp2], suptitle = epoch_title 3\<rparr>)"
    by blast
  then have "vis_world\<lparr>files := (files vis_world)(''run/val_pred.png'' \<mapsto>
        Png \<lparr>panels = [spec_panel () sl1 sp1, spec_panel () sl2 sp2], suptitle = epoch_title 3\<rparr>)\<rparr>
      = write_file vis_world ''run/val_pred.png''
          (Png \<lparr>panels = [((), [Circle (1, 0) 1 magenta, Circle (1, 0) 1 green]), ((), [Circle (1, 0) 1 green])],
                suptitle = epoch_title 3\<rparr>)"
    by (simp add: write_file_def)
  with c l len select_indices_demo show ?thesis by blast
qed

end
