(* ===== verification/Spec2Isabelle.thy ===== *)
theory Spec2Isabelle
  imports Trainer Visualize
begin

text \<open>
  \<^bold>\<open>A verification library for \<^verbatim>\<open>base_classification_model.py\<close>.\<close>
  The repository's one source file,
  \<^verbatim>\<open>src/dna_foci_detection/models/unet/base_classification_model.py\<close>, is a training
  harness for a segmentation network: a Lightning module (\<open>class Model\<close>) whose hooks
  compute a BCE loss, keep the best validation loss and save checkpoints, and a
  diagnostic renderer (\<open>visualize_predictions\<close>) that segments masks with a watershed
  (\<open>watershed_label\<close>), turns each region into a circle (\<open>draw_label_img\<close>,
  \<open>max_distance\<close>) and draws the circles (\<open>draw_label\<close>).  The orchestrator calls
  the renderer at batch 0 of each validation and test epoch; the renderer calls the
  segmenter and the label extraction.  Every function of the file is translated as a
  shallow embedding: Python values are HOL values, exceptions are the \<open>Inl\<close> branch of
  \<open>py_error + 'a\<close>, and a method that mutates \<open>self\<close> returns the new state, also
  with the exception it raises (\<open>('s, 'a) outcome\<close>), since Python keeps the
  mutations done before a raise.

  \<^item> \<open>Prelude\<close>: the exceptions, the binds \<open>err_bind\<close> and \<open>obind\<close>, checked
    indexing \<open>py_get\<close>, 2-D arrays as lists of rows, the mean, and the list lemmas the
    components share (collection \<open>model_simps\<close>).
  \<^item> \<open>Render\<close>: \<open>draw_label\<close> (lines 49--55): \<open>torch.round\<close> as
    round-half-to-even (\<open>round_half_even\<close>), the centre swap \<open>(y, x)\<close>, one
    \<open>cv.circle\<close> call per focus.  \<open>cv.circle\<close> is a parameter
    (\<open>'img circle_fn\<close>); \<open>record_circle\<close> is a canvas that records the calls, on
    which the drawing is observable.  C26 characterises the rounding; rounding keeps a
    value between two integers between them, which bounds the drawn centres.
  \<^item> \<open>LabelExtraction\<close>: \<open>max_distance\<close> and \<open>draw_label_img\<close> (lines
    14--46): \<open>squeeze0\<close> (a one-row map becomes the rank-1 \<open>Vec\<close>),
    \<open>np_unique\<close>, the pixel loops \<open>scan_value\<close>/\<open>collect_labels\<close> with their
    \<open>IndexError\<close> on \<open>shape[1]\<close>, \<open>label_focus\<close>, \<open>extract_foci\<close>,
    \<open>label_foci\<close>.  Its lemmas prove the refinement of the set-level specification
    \<open>spec_foci\<close> (regions, centroids, half bounding-box diagonals; C1), the
    specification's examples as the code computes them, one-row maps included (C2--C4),
    the invariants of the foci (C5, C6), and the three findings about one-row maps,
    negative labels and the radius-0 circles of two-pixel regions (C7, C8, C9).
  \<^item> \<open>Watershed\<close>: \<open>watershed_label\<close> (lines 58--72): the cast
    \<open>astype(int)\<close> (\<open>trunc_real\<close>), the order of the library calls, the marker
    mask \<open>mask_from_coords\<close> with its \<open>IndexError\<close>, the negated distance.  The
    scipy/scikit-image algorithms are the fields of \<open>ws_lib\<close>, and \<open>ws_contract\<close>
    is what the specification assumes of them; the lemmas show the glue never raises under
    it and give its only error path (the renderer's properties use them).
  \<^item> \<open>Loss\<close>: \<open>self.criterion\<close>/\<open>self.loss\<close> (lines 150--151): flattening,
    torch's BCE with its \<open>ValueError\<close> on a size mismatch, \<open>RuntimeError\<close> on a
    prediction outside [0, 1], the log clamped at -100, and \<open>torch.mean\<close> with NaN
    and infinity (\<open>tfloat\<close>, IEEE \<open><\<close> as \<open>tf_less\<close>).  C10 and C11: permutation
    invariance (the specification's seventh property) and bounds.
  \<^item> \<open>Files\<close>: the part of the world the module touches: files, directories and shown
    figures, \<open>os.path.join\<close>, \<open>open(path, "wb")\<close> (truncates at once),
    \<open>torch.save\<close>/\<open>torch.load\<close>.  It models library semantics, no repository line.
  \<^item> \<open>Orchestrator\<close>: \<open>class Model\<close> (lines 145--241): the state
    \<open>model_state\<close> (\<open>params.save_path\<close>, \<open>params.model\<close>, the sub-modules,
    \<open>best_loss\<close>, \<open>current_epoch\<close>, the world, the logs and printed lines), every
    hook (\<open>training_step\<close>, \<open>training_epoch_end\<close>, \<open>validation_step\<close> and
    \<open>test_step\<close> through \<open>eval_step\<close>, \<open>validation_epoch_end\<close> with the
    checkpoint loop \<open>save_checkpoints\<close>, \<open>test_epoch_end\<close>) and
    \<open>configure_optimizers\<close>, with the network, the visualiser and the \<open>mate\<close>
    optimiser factory as parameters.  C12, C14 and C15 are the specification's
    checkpoint example, the checkpoint round trip and the error path of a misconfigured
    sub-model; C27 shows a NaN loss never becomes the best.  The lemmas \<open>hook_results\<close> say what each
    hook changes; the driver's proofs use them.
  \<^item> \<open>Driver\<close>: the Lightning loop, which is not code of the repository, as the step
    relation \<open>fit_step\<close> written from the specification (section 4.4), with the
    optimiser changing the classifier's parameters between steps, and the reachable
    configurations \<open>fit_reachable\<close>.  C17 and C19 are invariants of every
    reachable configuration, proved by rule induction; C18 and C28 constrain single
    steps.
  \<^item> \<open>Trainer\<close>: one run of \<open>trainer.fit\<close> then \<open>trainer.test\<close> as an
    executable driver, following the specification's design note (section 9): the batch
    loops \<open>train_batches\<close> (each \<open>training_step\<close> followed by the optimiser's
    update \<open>optimizer_step\<close>, a parameter) and \<open>eval_batches\<close>, one epoch
    \<open>run_epoch\<close>, the epoch loop \<open>fit_loop\<close> up to \<open>max_epochs\<close>
    (\<open>epochs_done\<close>) and \<open>fit_and_test\<close>.  Lightning's \<open>max_epochs = -1\<close>
    trains without end, so \<open>fit_loop\<close> is a \<open>partial_function (option)\<close>,
    \<open>None\<close> being "never returns".  C13 proves it refines \<open>fit_step\<close>: every
    run that returns a result ends in a configuration \<open>fit_reachable\<close> from the
    initial state, after exactly \<open>max_epochs\<close> epochs, so the invariants above hold
    of its results.  C23 says when it returns: always for \<open>max_epochs \<ge> 0\<close>
    (well-founded induction on \<open>max_epochs - current_epoch\<close>, which each epoch
    decreases), never for \<open>-1\<close> while epochs succeed (by \<open>fit_loop.raw_induct\<close>).
    C29 gives the conditions under which a run completes with a result: the
    configuration \<open>run_ready\<close> (classifier, sub-models and checkpoint directories
    present), batches on which the loss is defined (\<open>batch_ok\<close>), a visualiser that
    does not raise, and no empty loop of batches (an empty loop makes the epoch end's
    \<open>t.stack\<close> raise); C16 shows that an epoch without validation batches aborts the
    run there, after training, without saving anything.
  \<^item> \<open>Visualize\<close>: \<open>visualize_predictions\<close> (lines 75--142): the selection of
    the first two qualifying samples, the early return, per sample the segmentation of
    the ground truth and of the prediction thresholded at 0.5, magenta then green
    circles, the title with the epoch, \<open>savefig\<close> or \<open>show\<close>.  C20--C22 (the
    specification's fourth property, the two-panel figure, the drawing order), the circles handed to \<open>cv.circle\<close> lying
    inside the image (C31), and the absence of any exception in the rendering of a
    sample whose maps have other than one row (C32).  C33 refines the renderer's contract
    (section 4.3): under the segmentation library's contract, the written figure is made
    of the abstract panels \<open>spec_panel\<close>, built from \<open>spec_foci\<close> of the segmented maps.
  \<^item> This theory: the orchestrator with \<open>visualize_predictions\<close> as its
    visualiser: the checkpoint invariant for the module as written (C24), and an
    exception of the visualisation aborting a validation step (C25), and what a validation
    step with the real visualiser writes (C30).

  Every loop of the repository's code runs over a finite list and is a structural
  recursion or a \<open>fold\<close>, and \<open>show_nat\<close> recurses on \<open>n div 10\<close>; so no fuel
  is needed and these definitions are total.  The one loop that may run forever is the
  driver's epoch loop (\<open>max_epochs = -1\<close>), modelled as a partial function whose
  termination is C23.  Floats are reals: the model does not
  round intermediate results, and the claims on the loss and the foci hold of the exact
  values (\<open>tfloat\<close> keeps infinity and NaN where the comparison with
  \<open>best_loss\<close> depends on them).  The fixtures \<open>toy_ws_lib\<close>,
  \<open>toy_vis_lib\<close>, \<open>demo_*\<close> and \<open>identity_net\<close> are small concrete libraries
  and states that only the witnesses use.  Not modelled: the network itself, the
  optimiser's algorithm (\<open>configure_optimizers\<close> only forwards to
  \<open>mate.Optimizer\<close>, a parameter; the driver lets the optimiser change the
  parameters arbitrarily), the algorithms of scipy, scikit-image and
  OpenCV (interfaces), matplotlib's layout, axes and resolution, the Lightning logger
  beyond the logged pairs, Lightning's sanity check (by default two validation batches
  and a \<open>validation_epoch_end\<close> before the first epoch, which the specification's
  order of hooks leaves out), callbacks, gradient accumulation and early stopping, and
  tensor devices (\<open>.cpu()\<close>, \<open>.detach()\<close> are
  identities).
\<close>

section \<open>The orchestrator with the real visualiser\<close>

text \<open>
  \<open>validation_step\<close> and \<open>test_step\<close> call \<open>visualize_predictions\<close> with its
  default \<open>plot=False\<close>; the network input is the image batch itself.
\<close>

type_synonym vis_model = "(unit, (unit \<times> circle_call list) figure) model_state"

definition identity_net :: "(batch_tensor, unit) network" where
  "identity_net p x = x"

definition vis_state :: vis_model where
  "vis_state = init_state ''run'' [''classifier''] [''classifier'' \<mapsto> ()]
     \<lparr>files = Map.empty, dirs = {''run'', ''run/checkpoint''}, shown = []\<rparr>"

definition one_row_batch :: batch_tensor where
  "one_row_batch = [[[[1, 1]]], [[[1, 1]]]]"

section \<open>Properties spanning the components\<close>

lemma vis_frame_visualize_predictions: "vis_frame (visualize_predictions lib False)"
  unfolding vis_frame_def
proof (intro allI impI)
  fix x l y path e w w'
  assume "visualize_predictions lib False x l y path e w = Inr w'"
  from visualize_predictions_Inr[OF this]
  show "dirs w' = dirs w \<and> (\<forall>q. q \<noteq> path \<longrightarrow> files w' q = files w q)"
    by auto
qed

text \<open>
  C24: the checkpoint guarantee holds for the module as written, with
  \<open>visualize_predictions\<close> as the visualiser of the validation and test steps: in every
  configuration the training loop reaches from a fresh model, once the best loss is
  finite, every configured sub-model has a checkpoint file holding a parameter state.
  The visualisation writes only its own figure, so it never overwrites a checkpoint.
\<close>

theorem fit_reachable_checkpoints_visualize:
  assumes "fit_reachable (visualize_predictions lib False) net (init_state path names mods w) (ph, st, outs)"
    and "best_loss st \<noteq> PosInf" "n \<in> set names"
  shows "\<exists>p. files (world st) (checkpoint_path path n) = Some (StateDict p)"
  using fit_reachable_invariant[OF assms(1)] vis_frame_visualize_predictions[of lib] assms(2,3)
  by (auto simp: init_state_def checkpoints_saved_def)

lemma visualize_single_sample:
  "visualize_predictions lib False [[[[1]]]] [[[[1]]]] [[[[1]]]] path 0 w = Inr w"
  by (simp add: visualize_predictions_def select_indices_def has_positive_def)

theorem fit_reachable_checkpoints_visualize_witness:
  "\<exists>st. fit_reachable (visualize_predictions toy_vis_lib False) identity_net vis_state (TrainPhase, st, [])
     \<and> best_loss st \<noteq> PosInf
     \<and> (\<exists>p. files (world st) (checkpoint_path ''run'' ''classifier'') = Some (StateDict p))"
proof -
  obtain st where r: "fit_reachable (visualize_predictions toy_vis_lib False) identity_net vis_state (TrainPhase, st, [])"
      and b: "best_loss st = Num 0"
    using run_reaches_checkpoint[OF vis_state_def, where x = "[[[[1]]]]" and vis = "visualize_predictions toy_vis_lib False"
      and net = identity_net]
    by (auto simp: dir_exists_def dirname_def checkpoint_path_def path_join_def identity_net_def visualize_single_sample)
  have "\<exists>p. files (world st) (checkpoint_path ''run'' ''classifier'') = Some (StateDict p)"
    using fit_reachable_checkpoints_visualize[OF r[unfolded vis_state_def]] b by simp
  with r b show ?thesis by auto
qed

lemma model_loss_one_row_batch: "model_loss one_row_batch one_row_batch = Inr (Num 0)"
  by (simp add: one_row_batch_def model_loss_def bce_loss_def flatten4_def bce_elem_def clamped_log_def mean_def)

lemma select_indices_one_row_batch: "select_indices one_row_batch = [0, 1]"
  by (simp add: one_row_batch_def select_indices_def has_positive_def upt_rec)

text \<open>
  C25: an exception of the visualisation is not caught: it aborts the validation step,
  whose loss is lost, although the specification (section 7) says a visualisation
  failure must never abort training.  On a batch of two one-row samples whose
  segmentation has a foreground label, \<open>draw_label_img\<close> raises \<open>IndexError\<close>
  inside \<open>visualize_predictions\<close>, and the step raises it with the state unchanged.
\<close>

theorem validation_step_visualization_crash:
  assumes "watershed_label (ws_calls lib) [[1, 1]] = Inr [r]" "list_ex (\<lambda>v. v \<noteq> 0) r"
    and "modules st ''classifier'' = Some p"
  shows "validation_step (visualize_predictions lib False) identity_net st (one_row_batch, one_row_batch) 0
           = Inl (IndexError, st)"
proof -
  have t: "threshold [[1, 1]] = [[1, 1]]" by (simp add: threshold_def)
  have "render_sample lib one_row_batch one_row_batch one_row_batch 0 = Inl IndexError"
    using assms(1,2) label_foci_one_row[of "[r]"]
    by (simp add: render_sample_def one_row_batch_def t draw_label_img_def)
  then have "visualize_predictions lib False one_row_batch one_row_batch one_row_batch
      (path_join (save_path st) ''val_pred.png'') (int (current_epoch st)) (world st) = Inl IndexError"
    by (simp add: visualize_predictions_def select_indices_one_row_batch)
  with assms(3) show ?thesis
    by (simp add: validation_step_def eval_step_def classify_def getattr_def identity_net_def
        model_loss_one_row_batch)
qed

theorem validation_step_visualization_crash_witness:
  "watershed_label (ws_calls toy_vis_lib) [[1, 1]] = Inr [[1, 1]] \<and> list_ex (\<lambda>v. v \<noteq> 0) [1, 1 :: int]
   \<and> modules vis_state ''classifier'' = Some ()
   \<and> validation_step (visualize_predictions toy_vis_lib False) identity_net vis_state (one_row_batch, one_row_batch) 0
       = Inl (IndexError, vis_state)"
proof -
  have w: "watershed_label (ws_calls toy_vis_lib) [[1, 1]] = Inr [[1, 1]]"
    by (simp add: toy_vis_lib_def watershed_label_def toy_ws_lib_def astype_int_def trunc_real_def
        mask_from_coords_def grid_width_def Let_def)
  have m: "modules vis_state ''classifier'' = Some ()" by (simp add: vis_state_def init_state_def)
  show ?thesis using validation_step_visualization_crash[OF w _ m] w m by simp
qed

text \<open>
  C30: a validation step at batch index 0 with the module's visualiser, when it
  succeeds, returns the loss of the classifier's prediction and either leaves the state
  as it was (fewer than two samples with a positive label) or writes, at
  \<open><save_path>/val_pred.png\<close>, a figure of two panels titled with the current epoch,
  and changes nothing else.
\<close>

theorem validation_step_writes_figure:
  assumes "validation_step (visualize_predictions lib False) net st (x, labels) 0 = Inr (st', l)"
  shows "\<exists>p. modules st ''classifier'' = Some p \<and> model_loss (net p x) labels = Inr l
    \<and> ((length (filter (\<lambda>i. has_positive (labels ! i)) [0..<length labels]) < 2 \<and> st' = st)
       \<or> (2 \<le> length (filter (\<lambda>i. has_positive (labels ! i)) [0..<length labels])
          \<and> (\<exists>ps. length ps = 2 \<and> st' = st\<lparr>world := write_file (world st) (path_join (save_path st) ''val_pred.png'')
                 (Png \<lparr>panels = ps, suptitle = epoch_title (int (current_epoch st))\<rparr>)\<rparr>)))"
proof -
  from assms obtain p w' where m: "modules st ''classifier'' = Some p" and loss: "model_loss (net p x) labels = Inr l"
    and v: "visualize_predictions lib False x labels (net p x) (path_join (save_path st) ''val_pred.png'')
              (int (current_epoch st)) (world st) = Inr w'"
    and st': "st' = st\<lparr>world := w'\<rparr>"
    by (auto simp: validation_step_def eval_step_def classify_def getattr_def obind_eq_Inr_iff
        lift_res_eq_Inr_iff err_bind_eq_Inr_iff split: option.splits)
  show ?thesis
    using visualize_predictions_Inr[OF v] length_select_indices[of labels] m loss st'
      render_all_length[of lib x labels "net p x" "select_indices labels"]
    by auto
qed

lemma model_loss_demo: "\<exists>l. model_loss demo_preds demo_labels = Inr l"
  by (simp add: model_loss_def bce_loss_def flatten4_def demo_preds_def demo_labels_def)

theorem validation_step_writes_figure_witness:
  "\<exists>l. validation_step (visualize_predictions toy_vis_lib False) identity_net vis_state (demo_preds, demo_labels) 0
        = Inr (vis_state\<lparr>world := write_file (world vis_state) ''run/val_pred.png''
            (Png \<lparr>panels = [((), [Circle (1, 0) 1 magenta, Circle (1, 0) 1 green]), ((), [Circle (1, 0) 1 green])],
                  suptitle = epoch_title 0\<rparr>)\<rparr>, l)
     \<and> 2 \<le> length (filter (\<lambda>i. has_positive (demo_labels ! i)) [0..<length demo_labels])"
proof -
  obtain l where l: "model_loss demo_preds demo_labels = Inr l" using model_loss_demo by blast
  let ?W = "write_file (world vis_state) ''run/val_pred.png''
            (Png \<lparr>panels = [((), [Circle (1, 0) 1 magenta, Circle (1, 0) 1 green]), ((), [Circle (1, 0) 1 green])],
                  suptitle = epoch_title 0\<rparr>)"
  have v: "validation_step (visualize_predictions toy_vis_lib False) identity_net vis_state (demo_preds, demo_labels) 0
      = Inr (vis_state\<lparr>world := ?W\<rparr>, l)"
    using l by (simp add: validation_step_def eval_step_def classify_def getattr_def identity_net_def
        vis_state_def init_state_def visualize_predictions_def select_indices_demo render_sample_demo_any
        savefig_def path_join_def dirname_def dir_exists_def)
  have ne: "vis_state\<lparr>world := ?W\<rparr> \<noteq> vis_state"
    by (auto simp: write_file_def vis_state_def init_state_def dest: arg_cong[where f = "\<lambda>s. files (world s) ''run/val_pred.png''"])
  from validation_step_writes_figure[OF v] ne v show ?thesis by auto
qed

end
